(* ===== verification/Prelude.thy ===== *)
theory Prelude
  imports Complex_Main "HOL-Library.Sublist"
begin

text \<open>
  Shared vocabulary of the FocusExpress development: the JavaScript primitives the
  TypeScript sources call (\<open>String.prototype.trim\<close>, \<open>toLowerCase\<close>, \<open>toUpperCase\<close>,
  \<open>includes\<close>, \<open>startsWith\<close>, \<open>split\<close>, \<open>padStart\<close>, \<open>||\<close>, \<open>Number.prototype.toString\<close>,
  \<open>Math.round\<close>, \<open>Math.floor\<close>), written as executable HOL functions, the lemmas
  the component theories share about them, and the theorem collections that the
  component proofs feed to \<open>simp\<close>.
  Characters are bytes (\<open>char\<close>); the string functions are modelled on ASCII text,
  which is what the application's own constants and identifiers are.
\<close>

named_theorems handler_defs "unfolding facts of the App.tsx handlers"
named_theorems inv_defs "unfolding facts of the state invariants"

type_synonym js_string = string
type_synonym timestamp = nat  \<comment> \<open>a value of \<open>Date.now()\<close>, milliseconds\<close>

subsection \<open>Strings\<close>

text \<open>The ASCII white-space and line-terminator characters that \<open>trim\<close> removes.\<close>

definition js_is_ws :: "char \<Rightarrow> bool" where
  "js_is_ws c \<longleftrightarrow> of_char c \<in> {9, 10, 11, 12, 13, 32::nat}"

definition js_trim :: "js_string \<Rightarrow> js_string" where
  "js_trim s = rev (dropWhile js_is_ws (rev (dropWhile js_is_ws s)))"

text \<open>A string is truthy in JavaScript iff it is not empty.\<close>

abbreviation js_truthy :: "js_string \<Rightarrow> bool" where
  "js_truthy s \<equiv> s \<noteq> []"

text \<open>\<open>!x\<close> on a value of type \<open>string | null\<close>: true for \<open>null\<close> and for \<open>''\<close>.\<close>

definition js_falsy_opt :: "js_string option \<Rightarrow> bool" where
  "js_falsy_opt x = (case x of None \<Rightarrow> True | Some s \<Rightarrow> s = [])"

definition js_lower_char :: "char \<Rightarrow> char" where
  "js_lower_char c =
     (let n = (of_char c :: nat) in if 65 \<le> n \<and> n \<le> 90 then char_of (n + 32) else c)"

definition js_lower :: "js_string \<Rightarrow> js_string" where
  "js_lower s = map js_lower_char s"

definition js_upper_char :: "char \<Rightarrow> char" where
  "js_upper_char c =
     (let n = (of_char c :: nat) in if 97 \<le> n \<and> n \<le> 122 then char_of (n - 32) else c)"

definition js_upper :: "js_string \<Rightarrow> js_string" where
  "js_upper s = map js_upper_char s"

definition js_includes :: "js_string \<Rightarrow> js_string \<Rightarrow> bool" where
  "js_includes hay needle \<longleftrightarrow> sublist needle hay"

definition js_starts_with :: "js_string \<Rightarrow> js_string \<Rightarrow> bool" where
  "js_starts_with s p \<longleftrightarrow> prefix p s"

text \<open>\<open>s.split(c)\<close> for a one-character separator: the pieces between the
  separators, an empty piece where two are adjacent.\<close>

fun js_split :: "char \<Rightarrow> js_string \<Rightarrow> js_string list" where
  "js_split c [] = [[]]"
| "js_split c (x # xs) =
     (if x = c then [] # js_split c xs
      else (case js_split c xs of f # fs \<Rightarrow> (x # f) # fs | [] \<Rightarrow> [[x]]))"

text \<open>\<open>a || b || ... || d\<close> over optional strings with a literal default: the first
  truthy one.\<close>

fun js_or_default :: "js_string option list \<Rightarrow> js_string \<Rightarrow> js_string" where
  "js_or_default [] dflt = dflt"
| "js_or_default (x # xs) dflt =
     (case x of Some v \<Rightarrow> if v \<noteq> [] then v else js_or_default xs dflt | None \<Rightarrow> js_or_default xs dflt)"

text \<open>\<open>s.padStart(2, '0')\<close>.\<close>

definition pad2 :: "js_string \<Rightarrow> js_string" where
  "pad2 s = replicate (2 - length s) (CHR ''0'') @ s"

subsection \<open>Numbers\<close>

definition digit_char :: "nat \<Rightarrow> char" where
  "digit_char d = char_of (48 + d :: nat)"

text \<open>\<open>n.toString()\<close> for a non-negative integer \<open>n\<close>.\<close>

fun nat_str :: "nat \<Rightarrow> js_string" where
  "nat_str n = (if n < 10 then [digit_char n] else nat_str (n div 10) @ [digit_char (n mod 10)])"

declare nat_str.simps [simp del]

text \<open>Reading a decimal string back (\<open>parseInt\<close> on the digits \<open>nat_str\<close> writes).\<close>

definition digits_val :: "js_string \<Rightarrow> nat" where
  "digits_val s = foldl (\<lambda>acc c. 10 * acc + (of_char c - 48)) 0 s"

text \<open>\<open>Math.round\<close>: the nearest integer, ties towards \<open>+\<infinity>\<close>.\<close>

definition js_round :: "real \<Rightarrow> int" where
  "js_round x = \<lfloor>x + 1 / 2\<rfloor>"

subsection \<open>Lemmas on the primitives\<close>

lemma ball_set_dropWhile:
  "(\<forall>x \<in> set (dropWhile P xs). P x) \<longleftrightarrow> (\<forall>x \<in> set xs. P x)"
  by (induction xs) auto

lemma js_trim_Nil_iff: "js_trim s = [] \<longleftrightarrow> (\<forall>c \<in> set s. js_is_ws c)"
  by (simp add: js_trim_def dropWhile_eq_Nil_conv ball_set_dropWhile)

lemma js_falsy_opt_simps [simp]:
  "js_falsy_opt None"
  "js_falsy_opt (Some s) \<longleftrightarrow> s = []"
  by (simp_all add: js_falsy_opt_def)

lemma length_js_upper [simp]: "length (js_upper s) = length s"
  by (simp add: js_upper_def)

lemma js_or_default_truthy: "dflt \<noteq> [] \<Longrightarrow> js_or_default xs dflt \<noteq> []"
  by (induction xs) (auto split: option.splits)

lemma nat_str_not_Nil [simp]: "nat_str n \<noteq> []"
  by (subst nat_str.simps) simp

lemma of_char_digit_char: "d < 10 \<Longrightarrow> (of_char (digit_char d) :: nat) = 48 + d"
  by (simp add: digit_char_def)

lemma digits_val_nat_str [simp]: "digits_val (nat_str n) = n"
proof (induction n rule: nat_str.induct)
  case (1 n)
  show ?case
  proof (cases "n < 10")
    case True
    then show ?thesis by (simp add: nat_str.simps [of n] digits_val_def of_char_digit_char)
  next
    case False
    then have "digits_val (nat_str (n div 10)) = n div 10" using "1.IH" by simp
    with False show ?thesis
      by (simp add: nat_str.simps [of n] digits_val_def of_char_digit_char)
  qed
qed

lemma nat_str_inj: "nat_str m = nat_str n \<longleftrightarrow> m = n"
  by (metis digits_val_nat_str)

lemma length_pad2: "length s \<le> 2 \<Longrightarrow> length (pad2 s) = 2"
  by (simp add: pad2_def)

lemma js_round_int_div:
  fixes t c :: int
  assumes "0 < c"
  shows "js_round (real_of_int t / real_of_int c) = (2 * t + c) div (2 * c)"
proof -
  have eq: "real_of_int t / real_of_int c + 1 / 2 = real_of_int (2 * t + c) / real_of_int (2 * c)"
    using assms by (simp add: field_simps)
  show ?thesis
    by (simp only: js_round_def eq floor_divide_of_int_eq)
qed

end
