(* ===== verification/Types.thy ===== *)
theory Types
  imports Prelude
begin

text \<open>
  The data model of \<^verbatim>\<open>src/types.ts\<close>: the \<open>TimerState\<close> enum, the
  \<open>Station\<close>, \<open>Destination\<close>, \<open>MissionLabel\<close>, \<open>FocusSession\<close>,
  \<open>GroundingChunk\<close> and \<open>GeminiDestinationData\<close> interfaces.
  An optional member (\<open>x?: T\<close>) is a \<open>T option\<close>, \<open>undefined\<close> being \<open>None\<close>.
  Fields that several interfaces share carry a prefix naming their interface
  (\<open>dest_id\<close>, \<open>label_id\<close>, \<open>fs_id\<close>, \<open>st_name\<close>, ...); all others keep the source's
  names. JavaScript numbers that only ever hold integers (durations, seconds, distances)
  are \<open>int\<close>; coordinates and temperatures are \<open>real\<close>.
\<close>

datatype TimerState = IDLE | RUNNING | PAUSED | COMPLETED

text \<open>
  The six environments of \<open>Station['environment']\<close>. At run time a station's
  \<open>environment\<close> is whatever string the remote service produced (the service result is
  cast with \<open>as Station\<close>, not checked), so the \<open>station\<close> record keeps it as a string
  and \<open>env_of_string\<close> is the check App.tsx applies before using it.
\<close>

datatype env = City | Nature | Cyberpunk | Desert | Snow | Clear

fun env_name :: "env \<Rightarrow> js_string" where
  "env_name City = ''city''"
| "env_name Nature = ''nature''"
| "env_name Cyberpunk = ''cyberpunk''"
| "env_name Desert = ''desert''"
| "env_name Snow = ''snow''"
| "env_name Clear = ''clear''"

definition all_envs :: "env list" where
  "all_envs = [City, Nature, Cyberpunk, Desert, Snow, Clear]"

definition env_of_string :: "js_string \<Rightarrow> env option" where
  "env_of_string s = find (\<lambda>e. env_name e = s) all_envs"

record station =
  st_name :: js_string
  st_description :: js_string
  st_environment :: js_string

record destination =
  dest_id :: js_string
  dest_name :: js_string
  region :: js_string
  durationMinutes :: int
  distanceKm :: int
  themeColor :: js_string
  imageUrl :: js_string
  lat :: real
  lng :: real
  timezone :: js_string

record mission_label =
  label_id :: js_string
  label_name :: js_string
  color :: js_string
  icon :: "js_string option"
  subLabels :: "js_string list option"
  isCustom :: "bool option"
  customSubLabelPrompt :: "js_string option"

record focus_session =
  fs_id :: js_string
  task :: js_string
  fs_label :: "mission_label option"
  subLabel :: "js_string option"
  fs_durationMinutes :: int
  actualDurationMinutes :: "int option"
  startTime :: timestamp
  completed :: bool
  fs_station :: "station option"
  fs_destination :: "destination option"
  seat :: "js_string option"

text \<open>\<open>GeminiStationResponse\<close>: declared for the service's station answer; no code of
  the repository builds or reads one (the service returns \<open>GeminiDestinationData\<close>).\<close>

record gemini_station_response =
  stationName :: js_string
  gsr_description :: js_string
  gsr_environment :: env

text \<open>\<open>GroundingChunk\<close>: an optional \<open>web\<close> citation \<open>(uri, title)\<close> and an optional
  \<open>maps\<close> citation \<open>(uri, title, placeName?)\<close>.\<close>

record grounding_chunk =
  web :: "(js_string \<times> js_string) option"
  maps :: "(js_string \<times> js_string \<times> js_string option) option"

text \<open>The \<open>weather\<close> member of \<open>GeminiDestinationData\<close>.\<close>

record weather_raw =
  temp :: real
  condition :: js_string

text \<open>
  \<open>GeminiDestinationData\<close> as it exists at run time: the service copies the members of
  the parsed JSON without checking them, so each of them may be \<open>undefined\<close>.
\<close>

record gemini_data =
  gd_weather :: "weather_raw option"
  gd_station :: "station option"
  gd_localTime :: "js_string option"
  gd_groundingChunks :: "grounding_chunk list"

lemma env_of_string_env_name [simp]: "env_of_string (env_name e) = Some e"
  by (cases e) (simp_all add: env_of_string_def all_envs_def)

lemma env_of_string_Some: "env_of_string s = Some e \<Longrightarrow> s = env_name e"
  by (auto simp: env_of_string_def all_envs_def split: if_splits)

lemma all_envs_complete: "e \<in> set all_envs"
  by (cases e) (simp_all add: all_envs_def)

end
