(* ===== verification/Catalog.thy ===== *)
theory Catalog
  imports Types
begin

text \<open>
  The static destination data of \<^verbatim>\<open>src/App.tsx\<close>: the \<open>freestyle\<close> sentinel, the
  twelve selectable \<open>DESTINATIONS\<close> and the eleven \<open>HIDDEN_DESTINATIONS\<close> from which a
  freestyle journey draws its surprise destination; the construction of that surprise
  destination (\<open>confirmFreestyle\<close>), and the facts about the catalog that the timer's
  invariants rest on: every real destination has a positive duration, identifiers are
  distinct, and no catalog identifier looks like a surprise identifier.
  The name \<open>Z\<uuml>rich\<close> is written as its UTF-8 bytes.
\<close>

definition FREESTYLE_DESTINATION :: destination where
  "FREESTYLE_DESTINATION =
     \<lparr>dest_id = ''freestyle'', dest_name = ''Freestyle'', region = ''Unknown'', durationMinutes = 0, distanceKm = 0, themeColor = ''text-slate-200'', imageUrl = ''https://images.unsplash.com/photo-1470115636492-6d2b56f9146d?auto=format&fit=crop&w=800&q=80'', lat = 0, lng = 0, timezone = ''UTC''\<rparr>"

definition DESTINATIONS :: "destination list" where
  "DESTINATIONS = [
     \<lparr>dest_id = ''commute'', dest_name = ''Suburbs'', region = ''Local Line'', durationMinutes = 15, distanceKm = 12, themeColor = ''text-blue-400'', imageUrl = ''https://images.unsplash.com/photo-1500382017468-9049fed747ef?auto=format&fit=crop&w=800&q=80'', lat = 40.7128, lng = - 74.0060, timezone = ''America/New_York''\<rparr>,
     \<lparr>dest_id = ''kyoto'', dest_name = ''Kyoto'', region = ''Japan'', durationMinutes = 25, distanceKm = 45, themeColor = ''text-pink-400'', imageUrl = ''https://images.unsplash.com/photo-1493976040374-85c8e12f0c0e?auto=format&fit=crop&w=800&q=80'', lat = 35.0116, lng = 135.7681, timezone = ''Asia/Tokyo''\<rparr>,
     \<lparr>dest_id = ''zurich'', dest_name = ''Z'' @ [CHR 0xC3, CHR 0xBC] @ ''rich'', region = ''Switzerland'', durationMinutes = 45, distanceKm = 120, themeColor = ''text-cyan-400'', imageUrl = ''https://images.unsplash.com/photo-1515488764276-beab7607c1e6?auto=format&fit=crop&w=800&q=80'', lat = 47.3769, lng = 8.5417, timezone = ''Europe/Zurich''\<rparr>,
     \<lparr>dest_id = ''paris'', dest_name = ''Paris'', region = ''France'', durationMinutes = 60, distanceKm = 300, themeColor = ''text-amber-400'', imageUrl = ''https://images.unsplash.com/photo-1502602898657-3e91760cbb34?auto=format&fit=crop&w=800&q=80'', lat = 48.8566, lng = 2.3522, timezone = ''Europe/Paris''\<rparr>,
     \<lparr>dest_id = ''london'', dest_name = ''London'', region = ''UK'', durationMinutes = 90, distanceKm = 450, themeColor = ''text-red-400'', imageUrl = ''https://images.unsplash.com/photo-1513635269975-59663e0ac1ad?auto=format&fit=crop&w=800&q=80'', lat = 51.5074, lng = - 0.1278, timezone = ''Europe/London''\<rparr>,
     \<lparr>dest_id = ''berlin'', dest_name = ''Berlin'', region = ''Germany'', durationMinutes = 120, distanceKm = 800, themeColor = ''text-yellow-400'', imageUrl = ''https://images.unsplash.com/photo-1560969184-10fe8719e047?auto=format&fit=crop&w=800&q=80'', lat = 52.5200, lng = 13.4050, timezone = ''Europe/Berlin''\<rparr>,
     \<lparr>dest_id = ''cairo'', dest_name = ''Cairo'', region = ''Egypt'', durationMinutes = 150, distanceKm = 1800, themeColor = ''text-orange-300'', imageUrl = ''https://images.unsplash.com/photo-1572252009286-268acec5ca0a?auto=format&fit=crop&w=800&q=80'', lat = 30.0444, lng = 31.2357, timezone = ''Africa/Cairo''\<rparr>,
     \<lparr>dest_id = ''istanbul'', dest_name = ''Istanbul'', region = ''Turkey'', durationMinutes = 180, distanceKm = 2500, themeColor = ''text-orange-500'', imageUrl = ''https://images.unsplash.com/photo-1524231757912-21f4fe3a7200?auto=format&fit=crop&w=800&q=80'', lat = 41.0082, lng = 28.9784, timezone = ''Europe/Istanbul''\<rparr>,
     \<lparr>dest_id = ''tokyo'', dest_name = ''Tokyo'', region = ''Japan'', durationMinutes = 240, distanceKm = 9000, themeColor = ''text-fuchsia-400'', imageUrl = ''https://images.unsplash.com/photo-1540959733332-eab4deabeeaf?auto=format&fit=crop&w=800&q=80'', lat = 35.6762, lng = 139.6503, timezone = ''Asia/Tokyo''\<rparr>,
     \<lparr>dest_id = ''nyc'', dest_name = ''New York'', region = ''USA'', durationMinutes = 300, distanceKm = 6000, themeColor = ''text-emerald-400'', imageUrl = ''https://images.unsplash.com/photo-1496442226666-8d4d0e62e6e9?auto=format&fit=crop&w=800&q=80'', lat = 40.7128, lng = - 74.0060, timezone = ''America/New_York''\<rparr>,
     \<lparr>dest_id = ''rio'', dest_name = ''Rio'', region = ''Brazil'', durationMinutes = 360, distanceKm = 8000, themeColor = ''text-green-500'', imageUrl = ''https://images.unsplash.com/photo-1483729558449-99ef09a8c325?auto=format&fit=crop&w=800&q=80'', lat = - 22.9068, lng = - 43.1729, timezone = ''America/Sao_Paulo''\<rparr>,
     \<lparr>dest_id = ''sydney'', dest_name = ''Sydney'', region = ''Australia'', durationMinutes = 480, distanceKm = 12000, themeColor = ''text-indigo-400'', imageUrl = ''https://images.unsplash.com/photo-1506973035872-a4ec16b8e8d9?auto=format&fit=crop&w=800&q=80'', lat = - 33.8688, lng = 151.2093, timezone = ''Australia/Sydney''\<rparr>]"

definition HIDDEN_DESTINATIONS :: "destination list" where
  "HIDDEN_DESTINATIONS = [
     \<lparr>dest_id = ''rome'', dest_name = ''Rome'', region = ''Italy'', durationMinutes = 60, distanceKm = 800, themeColor = ''text-amber-500'', imageUrl = ''https://images.unsplash.com/photo-1552832230-c0197dd311b5?auto=format&fit=crop&w=800&q=80'', lat = 41.9028, lng = 12.4964, timezone = ''Europe/Rome''\<rparr>,
     \<lparr>dest_id = ''barcelona'', dest_name = ''Barcelona'', region = ''Spain'', durationMinutes = 60, distanceKm = 900, themeColor = ''text-orange-400'', imageUrl = ''https://images.unsplash.com/photo-1579282240050-352db0a14c21?auto=format&fit=crop&w=800&q=80'', lat = 41.3851, lng = 2.1734, timezone = ''Europe/Madrid''\<rparr>,
     \<lparr>dest_id = ''reykjavik'', dest_name = ''Reykjavik'', region = ''Iceland'', durationMinutes = 60, distanceKm = 2000, themeColor = ''text-cyan-300'', imageUrl = ''https://images.unsplash.com/photo-1476610182048-b716b8518aae?auto=format&fit=crop&w=800&q=80'', lat = 64.1466, lng = - 21.9426, timezone = ''Atlantic/Reykjavik''\<rparr>,
     \<lparr>dest_id = ''singapore'', dest_name = ''Singapore'', region = ''Asia'', durationMinutes = 60, distanceKm = 9500, themeColor = ''text-emerald-500'', imageUrl = ''https://images.unsplash.com/photo-1525625293386-3f8f99389edd?auto=format&fit=crop&w=800&q=80'', lat = 1.3521, lng = 103.8198, timezone = ''Asia/Singapore''\<rparr>,
     \<lparr>dest_id = ''cape-town'', dest_name = ''Cape Town'', region = ''South Africa'', durationMinutes = 60, distanceKm = 10000, themeColor = ''text-yellow-500'', imageUrl = ''https://images.unsplash.com/photo-1580060839134-75a5edca2e99?auto=format&fit=crop&w=800&q=80'', lat = - 33.9249, lng = 18.4241, timezone = ''Africa/Johannesburg''\<rparr>,
     \<lparr>dest_id = ''amsterdam'', dest_name = ''Amsterdam'', region = ''Netherlands'', durationMinutes = 60, distanceKm = 400, themeColor = ''text-red-400'', imageUrl = ''https://images.unsplash.com/photo-1512470876302-6a084e9c62ea?auto=format&fit=crop&w=800&q=80'', lat = 52.3676, lng = 4.9041, timezone = ''Europe/Amsterdam''\<rparr>,
     \<lparr>dest_id = ''vancouver'', dest_name = ''Vancouver'', region = ''Canada'', durationMinutes = 60, distanceKm = 5000, themeColor = ''text-teal-400'', imageUrl = ''https://images.unsplash.com/photo-1559511260-66a654ae98e2?auto=format&fit=crop&w=800&q=80'', lat = 49.2827, lng = - 123.1207, timezone = ''America/Vancouver''\<rparr>,
     \<lparr>dest_id = ''seoul'', dest_name = ''Seoul'', region = ''South Korea'', durationMinutes = 60, distanceKm = 8500, themeColor = ''text-indigo-400'', imageUrl = ''https://images.unsplash.com/photo-1517154421773-0529f29ea451?auto=format&fit=crop&w=800&q=80'', lat = 37.5665, lng = 126.9780, timezone = ''Asia/Seoul''\<rparr>,
     \<lparr>dest_id = ''dubai'', dest_name = ''Dubai'', region = ''UAE'', durationMinutes = 60, distanceKm = 6000, themeColor = ''text-amber-300'', imageUrl = ''https://images.unsplash.com/photo-1512453979798-5ea904ac66de?auto=format&fit=crop&w=800&q=80'', lat = 25.2048, lng = 55.2708, timezone = ''Asia/Dubai''\<rparr>,
     \<lparr>dest_id = ''prague'', dest_name = ''Prague'', region = ''Czech Republic'', durationMinutes = 60, distanceKm = 700, themeColor = ''text-orange-300'', imageUrl = ''https://images.unsplash.com/photo-1541849546-216549ae216d?auto=format&fit=crop&w=800&q=80'', lat = 50.0755, lng = 14.4378, timezone = ''Europe/Prague''\<rparr>,
     \<lparr>dest_id = ''athens'', dest_name = ''Athens'', region = ''Greece'', durationMinutes = 60, distanceKm = 2000, themeColor = ''text-blue-300'', imageUrl = ''https://images.unsplash.com/photo-1603565816030-6b389eeb23cb?auto=format&fit=crop&w=800&q=80'', lat = 37.9838, lng = 23.7275, timezone = ''Europe/Athens''\<rparr>]"

text \<open>
  The pool a freestyle journey draws from (\<open>confirmFreestyle\<close>): the hidden
  destinations, without the one just visited when the current selection is a surprise
  destination, and all of them again should that leave none.
\<close>

definition freestyle_prefix :: js_string where
  "freestyle_prefix = ''freestyle-''"

definition freestyle_pool :: "destination \<Rightarrow> destination list" where
  "freestyle_pool selected =
     (if js_starts_with (dest_id selected) freestyle_prefix then
        (let avail = filter (\<lambda>d. freestyle_prefix @ dest_id d \<noteq> dest_id selected) HIDDEN_DESTINATIONS
         in if length avail = 0 then HIDDEN_DESTINATIONS else avail)
      else HIDDEN_DESTINATIONS)"

text \<open>The surprise destination: the drawn one with the user's duration and a
  \<open>freestyle-\<close> identifier.\<close>

definition surprise_destination :: "destination \<Rightarrow> int \<Rightarrow> destination" where
  "surprise_destination randomDest totalMinutes =
     randomDest\<lparr>durationMinutes := totalMinutes, dest_name := dest_name randomDest,
                dest_id := freestyle_prefix @ dest_id randomDest\<rparr>"

lemmas catalog_defs = FREESTYLE_DESTINATION_def DESTINATIONS_def HIDDEN_DESTINATIONS_def

lemma catalog_durations_pos:
  "\<forall>d \<in> set (DESTINATIONS @ HIDDEN_DESTINATIONS). 0 < durationMinutes d"
  by (simp add: catalog_defs)

lemma catalog_ids_distinct:
  "distinct (map dest_id (FREESTYLE_DESTINATION # DESTINATIONS @ HIDDEN_DESTINATIONS))"
  by (simp add: catalog_defs)

lemma catalog_ids_not_surprise:
  "\<forall>d \<in> set (FREESTYLE_DESTINATION # DESTINATIONS @ HIDDEN_DESTINATIONS).
     \<not> js_starts_with (dest_id d) freestyle_prefix"
  by (simp add: catalog_defs js_starts_with_def freestyle_prefix_def)

lemma HIDDEN_DESTINATIONS_length: "length HIDDEN_DESTINATIONS = 11"
  by (simp add: HIDDEN_DESTINATIONS_def)

lemma FREESTYLE_DESTINATION_id [simp]: "dest_id FREESTYLE_DESTINATION = ''freestyle''"
  by (simp add: FREESTYLE_DESTINATION_def)

lemma freestyle_pool_of_non_surprise:
  "\<not> js_starts_with (dest_id d) freestyle_prefix \<Longrightarrow> freestyle_pool d = HIDDEN_DESTINATIONS"
  by (simp add: freestyle_pool_def)

lemma freestyle_pool_subset: "set (freestyle_pool d) \<subseteq> set HIDDEN_DESTINATIONS"
  by (auto simp: freestyle_pool_def Let_def)

lemma freestyle_pool_nonempty: "freestyle_pool d \<noteq> []"
  by (auto simp: freestyle_pool_def Let_def HIDDEN_DESTINATIONS_def)

lemma surprise_destination_fields [simp]:
  "dest_id (surprise_destination d m) = freestyle_prefix @ dest_id d"
  "durationMinutes (surprise_destination d m) = m"
  "dest_name (surprise_destination d m) = dest_name d"
  by (simp_all add: surprise_destination_def)

end
