(* ===== verification/Labels.thy ===== *)
theory Labels
  imports Types
begin

text \<open>
  The mission label registry of \<^verbatim>\<open>src/App.tsx\<close>: the preset labels, the state hooks
  \<open>availableLabels\<close>, \<open>activeLabel\<close>, \<open>activeSubLabel\<close> and the label-creation form
  (\<open>isCreatingLabel\<close>, \<open>newLabelName\<close>, \<open>newLabelColor\<close>, \<open>newLabelIcon\<close>) as the
  record \<open>label_state\<close>, and one definition per handler that changes them. The handlers
  are polymorphic in the record's extension, so the application state of theory
  \<open>App\<close>, which extends \<open>label_state\<close>, runs them unchanged.
  The lemmas: the registry invariant (the active label is one of the available labels, a
  sub-label is only set together with a label, a chosen subject belongs to the label's
  subject list) and its preservation by every handler; uniqueness of label identifiers
  for fresh timestamps; the effect of each handler on each branch.
\<close>

definition PRESET_LABELS :: "mission_label list" where
  "PRESET_LABELS = [
     \<lparr>label_id = ''study'', label_name = ''Study'', color = ''indigo'', icon = Some ''book'',
      subLabels = Some [''Math'', ''Physics'', ''Chemistry'', ''Biology'', ''History'', ''Literature'', ''CS''],
      isCustom = None, customSubLabelPrompt = None\<rparr>,
     \<lparr>label_id = ''work'', label_name = ''Work'', color = ''blue'', icon = Some ''briefcase'',
      subLabels = None, isCustom = None, customSubLabelPrompt = None\<rparr>,
     \<lparr>label_id = ''reading'', label_name = ''Reading'', color = ''yellow'', icon = Some ''coffee'',
      subLabels = None, isCustom = None, customSubLabelPrompt = Some ''Book Title''\<rparr>,
     \<lparr>label_id = ''code'', label_name = ''Code'', color = ''emerald'', icon = Some ''code'',
      subLabels = None, isCustom = None, customSubLabelPrompt = None\<rparr>,
     \<lparr>label_id = ''writing'', label_name = ''Writing'', color = ''pink'', icon = Some ''pen'',
      subLabels = None, isCustom = None, customSubLabelPrompt = None\<rparr>]"

definition AVAILABLE_COLORS :: "js_string list" where
  "AVAILABLE_COLORS = [''red'', ''orange'', ''amber'', ''yellow'', ''lime'', ''green'', ''emerald'',
     ''teal'', ''cyan'', ''sky'', ''blue'', ''indigo'', ''violet'', ''purple'', ''fuchsia'', ''pink'', ''rose'']"

text \<open>The keys of \<open>ICON_MAP\<close>, the icons the creation form offers.\<close>

definition ICON_KEYS :: "js_string list" where
  "ICON_KEYS = [''book'', ''briefcase'', ''code'', ''coffee'', ''pen'', ''brain'', ''music'', ''dumbbell'',
     ''gamepad'', ''cart'', ''camera'', ''calc'', ''heart'', ''globe'', ''zap'', ''tag'', ''palette'']"

record label_state =
  availableLabels :: "mission_label list"
  activeLabel :: "mission_label option"
  activeSubLabel :: "js_string option"
  isCreatingLabel :: bool
  newLabelName :: js_string
  newLabelColor :: js_string
  newLabelIcon :: js_string

subsection \<open>Handlers\<close>

text \<open>Clicking a label chip (the inline \<open>onClick\<close> of the selection button).\<close>

definition selectLabel :: "mission_label \<Rightarrow> 'a label_state_scheme \<Rightarrow> 'a label_state_scheme" where
  "selectLabel l s = s\<lparr>activeLabel := Some l, activeSubLabel := None\<rparr>"

text \<open>Choosing a subject button, or typing into the free-text sub-label input: both
  store the value as the active sub-label.\<close>

definition setActiveSubLabel :: "js_string \<Rightarrow> 'a label_state_scheme \<Rightarrow> 'a label_state_scheme" where
  "setActiveSubLabel v s = s\<lparr>activeSubLabel := Some v\<rparr>"

definition openCreateLabel :: "'a label_state_scheme \<Rightarrow> 'a label_state_scheme" where
  "openCreateLabel s = s\<lparr>isCreatingLabel := True\<rparr>"

definition closeCreateLabel :: "'a label_state_scheme \<Rightarrow> 'a label_state_scheme" where
  "closeCreateLabel s = s\<lparr>isCreatingLabel := False\<rparr>"

definition custom_label_id :: "timestamp \<Rightarrow> js_string" where
  "custom_label_id now = ''custom-'' @ nat_str now"

text \<open>\<open>handleAddCustomLabel\<close>: a blank name is ignored; otherwise the trimmed name becomes
  a new custom label, appended and made active, and the form is reset. Note that the
  active sub-label is left as it was.\<close>

definition handleAddCustomLabel :: "timestamp \<Rightarrow> 'a label_state_scheme \<Rightarrow> 'a label_state_scheme" where
  "handleAddCustomLabel now s =
     (if js_truthy (js_trim (newLabelName s)) then
        (let newLabel = \<lparr>label_id = custom_label_id now, label_name = js_trim (newLabelName s),
                         color = newLabelColor s, icon = Some (newLabelIcon s), subLabels = None,
                         isCustom = Some True, customSubLabelPrompt = None\<rparr>
         in s\<lparr>availableLabels := availableLabels s @ [newLabel], activeLabel := Some newLabel,
              newLabelName := [], newLabelColor := ''indigo'', newLabelIcon := ''tag'',
              isCreatingLabel := False\<rparr>)
      else s)"

text \<open>\<open>handleDeleteLabel\<close>, \<open>confirmed\<close> being the answer to \<open>window.confirm\<close>.\<close>

definition handleDeleteLabel :: "js_string \<Rightarrow> bool \<Rightarrow> 'a label_state_scheme \<Rightarrow> 'a label_state_scheme" where
  "handleDeleteLabel i confirmed s =
     (if confirmed then
        (let s' = s\<lparr>availableLabels := filter (\<lambda>l. label_id l \<noteq> i) (availableLabels s)\<rparr>
         in if (case activeLabel s of Some l \<Rightarrow> label_id l = i | None \<Rightarrow> False)
            then s'\<lparr>activeLabel := None, activeSubLabel := None\<rparr> else s')
      else s)"

subsection \<open>Invariant\<close>

text \<open>
  A sub-label choice fits a label when the label has a subject list containing it, or
  has no subject list (then it is free text or, for a label without a prompt, unused).
\<close>

definition subjects_ok :: "mission_label \<Rightarrow> js_string \<Rightarrow> bool" where
  "subjects_ok l v = (case subLabels l of Some subs \<Rightarrow> v \<in> set subs | None \<Rightarrow> True)"

definition label_inv :: "'a label_state_scheme \<Rightarrow> bool" where
  "label_inv s \<longleftrightarrow>
     (\<forall>l. activeLabel s = Some l \<longrightarrow> l \<in> set (availableLabels s)) \<and>
     (activeSubLabel s \<noteq> None \<longrightarrow> activeLabel s \<noteq> None) \<and>
     (\<forall>l v. activeLabel s = Some l \<longrightarrow> activeSubLabel s = Some v \<longrightarrow> subjects_ok l v)"

text \<open>Label identifiers are unique, and every custom label's timestamp is below \<open>t\<close>.\<close>

definition ids_below :: "timestamp \<Rightarrow> mission_label list \<Rightarrow> bool" where
  "ids_below t ls \<longleftrightarrow>
     distinct (map label_id ls) \<and>
     (\<forall>l \<in> set ls. \<forall>n. label_id l = custom_label_id n \<longrightarrow> n < t)"

declare label_inv_def [inv_defs] subjects_ok_def [inv_defs]

lemma custom_label_id_inj [simp]: "custom_label_id m = custom_label_id n \<longleftrightarrow> m = n"
  by (simp add: custom_label_id_def nat_str_inj)

lemma preset_ids_not_custom: "\<forall>l \<in> set PRESET_LABELS. \<forall>n. label_id l \<noteq> custom_label_id n"
  by (simp add: PRESET_LABELS_def custom_label_id_def)

lemma ids_below_PRESET: "ids_below t PRESET_LABELS"
  using preset_ids_not_custom by (simp add: ids_below_def PRESET_LABELS_def)

lemma label_inv_init: "activeLabel s = None \<Longrightarrow> activeSubLabel s = None \<Longrightarrow> label_inv s"
  by (simp add: label_inv_def)

lemma label_inv_selectLabel:
  "label_inv s \<Longrightarrow> l \<in> set (availableLabels s) \<Longrightarrow> label_inv (selectLabel l s)"
  by (simp add: label_inv_def selectLabel_def)

lemma label_inv_setActiveSubLabel:
  "label_inv s \<Longrightarrow> activeLabel s = Some l \<Longrightarrow> subjects_ok l v \<Longrightarrow> label_inv (setActiveSubLabel v s)"
  by (simp add: label_inv_def setActiveSubLabel_def)

lemma label_inv_form [simp]:
  "label_inv (openCreateLabel s) = label_inv s"
  "label_inv (closeCreateLabel s) = label_inv s"
  "label_inv (s\<lparr>newLabelName := x\<rparr>) = label_inv s"
  "label_inv (s\<lparr>newLabelColor := x\<rparr>) = label_inv s"
  "label_inv (s\<lparr>newLabelIcon := x\<rparr>) = label_inv s"
  by (simp_all add: label_inv_def openCreateLabel_def closeCreateLabel_def)

lemma label_inv_handleAddCustomLabel:
  "label_inv s \<Longrightarrow> label_inv (handleAddCustomLabel now s)"
  by (auto simp: label_inv_def handleAddCustomLabel_def subjects_ok_def Let_def)

lemma label_inv_handleDeleteLabel:
  "label_inv s \<Longrightarrow> label_inv (handleDeleteLabel i c s)"
  by (auto simp: label_inv_def handleDeleteLabel_def Let_def split: option.splits)

lemma ids_below_mono: "ids_below t ls \<Longrightarrow> t \<le> t' \<Longrightarrow> ids_below t' ls"
  by (fastforce simp: ids_below_def)

text \<open>
  C23. Custom label identifiers are unique: if the identifiers are distinct and every
  custom label was created before \<open>t\<close>, adding a label at a time \<open>now \<ge> t\<close> keeps
  them distinct (and every custom label then predates \<open>now + 1\<close>).
\<close>

theorem ids_below_handleAddCustomLabel:
  assumes "ids_below t (availableLabels s)" and "t \<le> now"
  shows "ids_below (Suc now) (availableLabels (handleAddCustomLabel now s))"
proof -
  have "custom_label_id now \<notin> label_id ` set (availableLabels s)"
  proof
    assume "custom_label_id now \<in> label_id ` set (availableLabels s)"
    then obtain l where "l \<in> set (availableLabels s)" and "label_id l = custom_label_id now"
      by auto
    with assms(1) have "now < t" by (auto simp: ids_below_def)
    with assms(2) show False by simp
  qed
  with assms show ?thesis
    by (auto simp: ids_below_def handleAddCustomLabel_def Let_def)
qed

lemma ids_below_handleDeleteLabel:
  "ids_below t (availableLabels s) \<Longrightarrow> ids_below t (availableLabels (handleDeleteLabel i c s))"
  by (auto simp: ids_below_def handleDeleteLabel_def Let_def distinct_map_filter)

text \<open>Deleting removes exactly the labels with that identifier, and clears the active
  label and sub-label together when the active label was deleted.\<close>

lemma handleDeleteLabel_available:
  "availableLabels (handleDeleteLabel i True s) = filter (\<lambda>l. label_id l \<noteq> i) (availableLabels s)"
  by (simp add: handleDeleteLabel_def Let_def)

lemma handleDeleteLabel_active:
  "activeLabel s = Some l \<Longrightarrow> label_id l = i \<Longrightarrow>
     activeLabel (handleDeleteLabel i True s) = None \<and> activeSubLabel (handleDeleteLabel i True s) = None"
  by (simp add: handleDeleteLabel_def Let_def)

lemma handleAddCustomLabel_blank:
  "js_trim (newLabelName s) = [] \<Longrightarrow> handleAddCustomLabel now s = s"
  by (simp add: handleAddCustomLabel_def)

theorem ids_below_handleAddCustomLabel_witness:
  "distinct (map label_id (availableLabels (handleAddCustomLabel 1000 \<lparr>availableLabels = PRESET_LABELS, activeLabel = None,
      activeSubLabel = None, isCreatingLabel = True, newLabelName = '' Gym '', newLabelColor = ''red'',
      newLabelIcon = ''tag''\<rparr>))) \<and>
   label_id (last (availableLabels (handleAddCustomLabel 1000 \<lparr>availableLabels = PRESET_LABELS, activeLabel = None,
      activeSubLabel = None, isCreatingLabel = True, newLabelName = '' Gym '', newLabelColor = ''red'',
      newLabelIcon = ''tag''\<rparr>))) = custom_label_id 1000"
proof -
  have h: "ids_below 0 (availableLabels (\<lparr>availableLabels = PRESET_LABELS, activeLabel = None,
      activeSubLabel = None, isCreatingLabel = True, newLabelName = '' Gym '', newLabelColor = ''red'',
      newLabelIcon = ''tag''\<rparr> :: label_state))"
    by (simp add: ids_below_PRESET)
  from ids_below_handleAddCustomLabel [OF h, of 1000]
  have "distinct (map label_id (availableLabels (handleAddCustomLabel 1000 \<lparr>availableLabels = PRESET_LABELS, activeLabel = None,
      activeSubLabel = None, isCreatingLabel = True, newLabelName = '' Gym '', newLabelColor = ''red'',
      newLabelIcon = ''tag''\<rparr>)))"
    by (simp add: ids_below_def)
  moreover have "label_id (last (availableLabels (handleAddCustomLabel 1000 \<lparr>availableLabels = PRESET_LABELS, activeLabel = None,
      activeSubLabel = None, isCreatingLabel = True, newLabelName = '' Gym '', newLabelColor = ''red'',
      newLabelIcon = ''tag''\<rparr>))) = custom_label_id 1000"
    by (simp add: handleAddCustomLabel_def js_trim_def js_is_ws_def Let_def)
  ultimately show ?thesis by simp
qed

end
