(* ===== verification/History.thy ===== *)
theory History
  imports Types "HOL-Library.Multiset"
begin

text \<open>
  The session history and its statistics: the newest-first list of \<open>FocusSession\<close>
  records that \<open>completeSession\<close> in \<^verbatim>\<open>src/App.tsx\<close> prepends to, and the three
  figures \<^verbatim>\<open>src/components/Stats.tsx\<close> derives from it on every render (minutes
  focused, stations reached, average session). The lemmas: the values on the empty and on
  a longer history; an abstract specification of the figures over the multiset of
  completed durations, with the refinement lemma that the list computation implements
  it (so the figures do not depend on the order of the history); the integer formula
  for the rounded average; bounds of the average.
\<close>

definition recordSession :: "focus_session \<Rightarrow> focus_session list \<Rightarrow> focus_session list" where
  "recordSession newSession prev = newSession # prev"

record stats =
  totalMinutes :: int
  totalStations :: nat
  avgSession :: int

text \<open>\<open>Stats\<close>: \<open>sessions.filter(s => s.completed)\<close>, the \<open>reduce\<close> summing
  \<open>durationMinutes\<close> from 0, the count, and \<open>Math.round(totalMinutes / count)\<close> when
  there is a session (else 0).\<close>

definition Stats :: "focus_session list \<Rightarrow> stats" where
  "Stats sessions =
     (let completedSessions = filter completed sessions;
          totalMinutes = foldl (\<lambda>acc curr. acc + fs_durationMinutes curr) 0 completedSessions;
          totalStations = length completedSessions
      in \<lparr>totalMinutes = totalMinutes, totalStations = totalStations,
          avgSession = (if length completedSessions > 0
                        then js_round (real_of_int totalMinutes / real (length completedSessions))
                        else 0)\<rparr>)"

subsection \<open>Abstract specification\<close>

text \<open>What the figures promise: a function of the multiset of the durations of the
  completed sessions only; the average is the sum over the count, rounded half up.\<close>

definition completed_durations :: "focus_session list \<Rightarrow> int multiset" where
  "completed_durations ss = image_mset fs_durationMinutes (filter_mset completed (mset ss))"

definition stats_spec :: "int multiset \<Rightarrow> stats" where
  "stats_spec M =
     \<lparr>totalMinutes = sum_mset M, totalStations = size M,
      avgSession = (if size M = 0 then 0 else (2 * sum_mset M + int (size M)) div (2 * int (size M)))\<rparr>"

lemma foldl_plus_duration:
  "foldl (\<lambda>acc curr. acc + fs_durationMinutes curr) a xs = a + sum_list (map fs_durationMinutes xs)"
  by (induction xs arbitrary: a) (simp_all add: algebra_simps)

lemma sum_list_completed:
  "sum_list (map fs_durationMinutes (filter completed ss)) = sum_mset (completed_durations ss)"
  by (simp add: completed_durations_def sum_mset_sum_list [symmetric] mset_filter)

lemma size_completed_durations: "size (completed_durations ss) = length (filter completed ss)"
  by (simp add: completed_durations_def mset_filter [symmetric] del: mset_filter)

text \<open>
  C9. \<open>Stats\<close> implements its specification: the figures it computes from the history
  list are those of the multiset of the completed sessions' durations (sum, count, and
  the average \<open>(2 * total + count) div (2 * count)\<close>, i.e. rounded half up, or 0 for an
  empty history). Hence they are recomputed from the whole history and do not depend on
  its order.
\<close>

theorem Stats_refines_spec: "Stats ss = stats_spec (completed_durations ss)"
proof (cases "filter completed ss = []")
  case True
  then have "completed_durations ss = {#}"
    by (simp add: completed_durations_def mset_filter [symmetric] del: mset_filter)
  with True show ?thesis by (simp add: Stats_def stats_spec_def)
next
  case False
  let ?c = "int (length (filter completed ss))"
  have c: "0 < ?c" using False by simp
  have "js_round (real_of_int (sum_mset (completed_durations ss)) / real (length (filter completed ss)))
        = (2 * sum_mset (completed_durations ss) + ?c) div (2 * ?c)"
    using js_round_int_div [OF c] by simp
  with False show ?thesis
    by (simp add: Stats_def stats_spec_def Let_def foldl_plus_duration sum_list_completed
        size_completed_durations)
qed

lemma Stats_mset_eq: "mset ss = mset ss' \<Longrightarrow> Stats ss = Stats ss'"
  by (simp add: Stats_refines_spec completed_durations_def)

lemma completed_durations_recordSession [simp]:
  "completed_durations (recordSession x ss) =
     (if completed x then add_mset (fs_durationMinutes x) (completed_durations ss) else completed_durations ss)"
  by (simp add: completed_durations_def recordSession_def)

lemma stats_spec_avg_bounds:
  assumes "\<forall>d \<in># M. 0 \<le> d \<and> d \<le> m" and "0 \<le> m"
  shows "0 \<le> avgSession (stats_spec M) \<and> avgSession (stats_spec M) \<le> m"
proof (cases "size M = 0")
  case True
  then show ?thesis using assms by (simp add: stats_spec_def)
next
  case False
  let ?c = "int (size M)"
  have c: "0 < ?c" using False by (simp add: nonempty_has_size)
  have "sum_mset (image_mset (\<lambda>_. 0) M) \<le> sum_mset (image_mset (\<lambda>x. x) M)"
    using assms(1) by (intro sum_mset_mono) simp
  then have lo: "0 \<le> sum_mset M" by simp
  have "sum_mset (image_mset (\<lambda>x. x) M) \<le> sum_mset (image_mset (\<lambda>_. m) M)"
    using assms(1) by (intro sum_mset_mono) simp
  then have hi: "sum_mset M \<le> ?c * m" by simp
  have "(2 * sum_mset M + ?c) div (2 * ?c) \<le> (2 * (?c * m) + ?c) div (2 * ?c)"
    using hi c by (intro zdiv_mono1) simp_all
  also have "(2 * (?c * m) + ?c) div (2 * ?c) = (?c + m * (2 * ?c)) div (2 * ?c)"
    by (simp add: algebra_simps)
  also have "\<dots> = m + ?c div (2 * ?c)"
    using c by (intro div_mult_self1) auto
  also have "?c div (2 * ?c) = 0" using c by simp
  finally have "(2 * sum_mset M + ?c) div (2 * ?c) \<le> m" by simp
  moreover have "0 \<le> (2 * sum_mset M + ?c) div (2 * ?c)"
    using lo c by (simp add: pos_imp_zdiv_nonneg_iff)
  ultimately show ?thesis using False by (simp add: stats_spec_def)
qed

text \<open>
  C20. When every completed session lasts between 0 and \<open>m\<close> minutes, the displayed
  average lies between 0 and \<open>m\<close>.
\<close>

theorem Stats_avg_bounds:
  assumes "\<forall>x \<in> set ss. completed x \<longrightarrow> 0 \<le> fs_durationMinutes x \<and> fs_durationMinutes x \<le> m" and "0 \<le> m"
  shows "0 \<le> avgSession (Stats ss) \<and> avgSession (Stats ss) \<le> m"
proof -
  have "\<forall>d \<in># completed_durations ss. 0 \<le> d \<and> d \<le> m"
    using assms(1) by (auto simp: completed_durations_def)
  from stats_spec_avg_bounds [OF this assms(2)] show ?thesis by (simp add: Stats_refines_spec)
qed

text \<open>Two completed sessions of 25 and 60 minutes: the average 42.5 is shown as 43.\<close>

theorem Stats_avg_bounds_witness:
  "0 \<le> avgSession (Stats [\<lparr>fs_id = ''1'', task = [], fs_label = None, subLabel = None, fs_durationMinutes = 25,
        actualDurationMinutes = Some 25, startTime = 0, completed = True, fs_station = None,
        fs_destination = None, seat = None\<rparr>,
      \<lparr>fs_id = ''2'', task = [], fs_label = None, subLabel = None, fs_durationMinutes = 60,
        actualDurationMinutes = Some 3, startTime = 1, completed = True, fs_station = None,
        fs_destination = None, seat = None\<rparr>]) \<and>
   avgSession (Stats [\<lparr>fs_id = ''1'', task = [], fs_label = None, subLabel = None, fs_durationMinutes = 25,
        actualDurationMinutes = Some 25, startTime = 0, completed = True, fs_station = None,
        fs_destination = None, seat = None\<rparr>,
      \<lparr>fs_id = ''2'', task = [], fs_label = None, subLabel = None, fs_durationMinutes = 60,
        actualDurationMinutes = Some 3, startTime = 1, completed = True, fs_station = None,
        fs_destination = None, seat = None\<rparr>]) \<le> 60 \<and>
   avgSession (Stats [\<lparr>fs_id = ''1'', task = [], fs_label = None, subLabel = None, fs_durationMinutes = 25,
        actualDurationMinutes = Some 25, startTime = 0, completed = True, fs_station = None,
        fs_destination = None, seat = None\<rparr>,
      \<lparr>fs_id = ''2'', task = [], fs_label = None, subLabel = None, fs_durationMinutes = 60,
        actualDurationMinutes = Some 3, startTime = 1, completed = True, fs_station = None,
        fs_destination = None, seat = None\<rparr>]) = 43"
proof -
  have "avgSession (Stats [\<lparr>fs_id = ''1'', task = [], fs_label = None, subLabel = None, fs_durationMinutes = 25,
        actualDurationMinutes = Some 25, startTime = 0, completed = True, fs_station = None,
        fs_destination = None, seat = None\<rparr>,
      \<lparr>fs_id = ''2'', task = [], fs_label = None, subLabel = None, fs_durationMinutes = 60,
        actualDurationMinutes = Some 3, startTime = 1, completed = True, fs_station = None,
        fs_destination = None, seat = None\<rparr>]) = 43"
    by (simp add: Stats_refines_spec stats_spec_def completed_durations_def)
  moreover have "0 \<le> avgSession (Stats [\<lparr>fs_id = ''1'', task = [], fs_label = None, subLabel = None, fs_durationMinutes = 25,
        actualDurationMinutes = Some 25, startTime = 0, completed = True, fs_station = None,
        fs_destination = None, seat = None\<rparr>,
      \<lparr>fs_id = ''2'', task = [], fs_label = None, subLabel = None, fs_durationMinutes = 60,
        actualDurationMinutes = Some 3, startTime = 1, completed = True, fs_station = None,
        fs_destination = None, seat = None\<rparr>]) \<and>
     avgSession (Stats [\<lparr>fs_id = ''1'', task = [], fs_label = None, subLabel = None, fs_durationMinutes = 25,
        actualDurationMinutes = Some 25, startTime = 0, completed = True, fs_station = None,
        fs_destination = None, seat = None\<rparr>,
      \<lparr>fs_id = ''2'', task = [], fs_label = None, subLabel = None, fs_durationMinutes = 60,
        actualDurationMinutes = Some 3, startTime = 1, completed = True, fs_station = None,
        fs_destination = None, seat = None\<rparr>]) \<le> 60"
    by (rule Stats_avg_bounds) simp_all
  ultimately show ?thesis by simp
qed


end
