(* ===== verification/App.thy ===== *)
theory App
  imports Catalog Labels History Fetcher
begin

text \<open>
  The application component \<open>App\<close> of \<^verbatim>\<open>src/App.tsx\<close> as a state machine.
  The state is the record \<open>app_state\<close>: the registry fields of \<open>label_state\<close> and one
  field per \<open>useState\<close> hook that a handler writes (the decorative tip, the audio
  elements and the colour helpers are not modelled), plus three fields for the
  callbacks the code has scheduled and not yet run: the \<open>setTimeout\<close> that disarms the
  abandon confirmation, the background fetches of \<open>fetchDataForDestination\<close>, and the
  awaited fetch of \<open>onTicketAnimationComplete\<close>.
  Every handler, inline \<open>onClick\<close>, interval callback and awaited continuation is an
  \<open>event\<close>; \<open>app_step\<close> runs its handler, \<open>enabled\<close> says when the event can happen
  (the button is rendered and no modal overlay covers it, the callback is scheduled), and
  \<open>run\<close> replays a list of events from \<open>init_state\<close>, skipping those not enabled.
\<close>

subsection \<open>State\<close>

record app_state = label_state +
  timerState :: TimerState
  selectedDestination :: destination
  timeLeft :: int
  initialDuration :: int
  showFreestyleModal :: bool
  customHours :: int
  customMinutes :: int
  taskDetail :: js_string
  currentStation :: "station option"
  preloadedStation :: "station option"
  sessions :: "focus_session list"
  loadingStation :: bool
  isBooking :: bool
  selectedSeat :: js_string
  confirmAbandon :: bool
  weather :: weather_state
  localTime :: "js_string option"
  groundingChunks :: "grounding_chunk list"
  isMusicOn :: bool
  currentTrackIndex :: nat
  pendingDisarms :: nat
  pendingPrefetch :: "js_string list"
  pendingStationFetch :: "js_string list"

definition MUSIC_TRACKS :: "(js_string \<times> js_string) list" where
  "MUSIC_TRACKS = [(''Chill Lo-Fi'', ''https://cdn.pixabay.com/audio/2022/05/27/audio_1808fbf07a.mp3''),
     (''Empty Mind'', ''https://cdn.pixabay.com/audio/2022/09/02/audio_72502a492a.mp3''),
     (''Study Beat'', ''https://cdn.pixabay.com/audio/2022/01/21/audio_31743c58bd.mp3'')]"

text \<open>The seats of the ticket modal: rows 1 to 3, columns A to D.\<close>

definition SEAT_IDS :: "js_string list" where
  "SEAT_IDS = concat (map (\<lambda>row. map (\<lambda>col. [digit_char row, col]) (''AB'' @ ''CD'')) [1, 2, 3])"

text \<open>The initial render: the hooks' initial values, and the fetch that the
  \<open>[selectedDestination]\<close> effect starts on mount for Kyoto.\<close>

definition init_state :: app_state where
  "init_state =
     \<lparr>availableLabels = PRESET_LABELS, activeLabel = None, activeSubLabel = None,
      isCreatingLabel = False, newLabelName = [], newLabelColor = ''indigo'', newLabelIcon = ''tag'',
      timerState = IDLE, selectedDestination = DESTINATIONS ! 1,
      timeLeft = durationMinutes (DESTINATIONS ! 1) * 60,
      initialDuration = durationMinutes (DESTINATIONS ! 1) * 60,
      showFreestyleModal = False, customHours = 0, customMinutes = 45, taskDetail = [],
      currentStation = None, preloadedStation = None, sessions = [], loadingStation = False,
      isBooking = False, selectedSeat = [], confirmAbandon = False, weather = initial_weather,
      localTime = Some [], groundingChunks = [], isMusicOn = False, currentTrackIndex = 0,
      pendingDisarms = 0, pendingPrefetch = [dest_name (DESTINATIONS ! 1)], pendingStationFetch = []\<rparr>"

subsection \<open>Handlers\<close>

text \<open>The \<open>[selectedDestination]\<close> effect: a changed selection starts a background
  fetch, except for the freestyle sentinel.\<close>

definition selection_effect :: "destination \<Rightarrow> app_state \<Rightarrow> app_state" where
  "selection_effect dest s =
     (if dest_id dest = ''freestyle'' then s
      else s\<lparr>pendingPrefetch := pendingPrefetch s @ [dest_name dest]\<rparr>)"

text \<open>The continuation of \<open>fetchDataForDestination\<close> once the service has answered.
  A missing \<open>weather\<close> or \<open>station\<close> member makes a property access throw, which the
  \<open>catch\<close> swallows before any state is set.\<close>

definition fetchDataForDestination_done :: "gemini_data option \<Rightarrow> app_state \<Rightarrow> app_state" where
  "fetchDataForDestination_done result s =
     (case result of
        None \<Rightarrow> s
      | Some r \<Rightarrow>
          (case (gd_weather r, gd_station r) of
             (Some w, Some st) \<Rightarrow>
               s\<lparr>weather := weather_of_result w st, localTime := gd_localTime r,
                 preloadedStation := Some st, groundingChunks := gd_groundingChunks r\<rparr>
           | _ \<Rightarrow> s))"

definition remove_nth :: "nat \<Rightarrow> 'a list \<Rightarrow> 'a list" where
  "remove_nth i xs = take i xs @ drop (Suc i) xs"

text \<open>The \<open>i\<close>-th background fetch in flight is answered with \<open>outcome\<close>.\<close>

definition prefetch_done :: "nat \<Rightarrow> api_outcome \<Rightarrow> app_state \<Rightarrow> app_state" where
  "prefetch_done i outcome s =
     fetchDataForDestination_done (getDestinationRealtimeData (pendingPrefetch s ! i) outcome)
       (s\<lparr>pendingPrefetch := remove_nth i (pendingPrefetch s)\<rparr>)"

definition handleSelectDestination :: "destination \<Rightarrow> app_state \<Rightarrow> app_state" where
  "handleSelectDestination dest s =
     (if timerState s = IDLE then
        (let s1 = s\<lparr>selectedDestination := dest\<rparr>;
             s2 = (if dest_id dest \<noteq> ''freestyle''
                   then s1\<lparr>initialDuration := durationMinutes dest * 60,
                           timeLeft := durationMinutes dest * 60\<rparr>
                   else s1)
         in if dest = selectedDestination s then s2 else selection_effect dest s2)
      else s)"

datatype depart_error = NoLabel | NoSubject js_string | NoCustomSubLabel js_string

datatype depart_action = OpenFreestyleModal | StartBooking

text \<open>The checks of \<open>handleDepartClick\<close>, in order, as a value: an error is the
  \<open>alert\<close> and early \<open>return\<close> of the source.\<close>

definition depart_check :: "app_state \<Rightarrow> depart_error + depart_action" where
  "depart_check s =
     (case activeLabel s of
        None \<Rightarrow> Inl NoLabel
      | Some l \<Rightarrow>
          if subLabels l \<noteq> None \<and> js_falsy_opt (activeSubLabel s) then Inl (NoSubject (label_name l))
          else if (case customSubLabelPrompt l of Some p \<Rightarrow> js_truthy p | None \<Rightarrow> False) \<and>
                  (js_falsy_opt (activeSubLabel s) \<or> js_trim (the (activeSubLabel s)) = [])
          then Inl (NoCustomSubLabel (the (customSubLabelPrompt l)))
          else if dest_id (selectedDestination s) = ''freestyle'' then Inr OpenFreestyleModal
          else Inr StartBooking)"

definition handleDepartClick :: "app_state \<Rightarrow> app_state" where
  "handleDepartClick s =
     (case depart_check s of
        Inl _ \<Rightarrow> s
      | Inr OpenFreestyleModal \<Rightarrow> s\<lparr>showFreestyleModal := True\<rparr>
      | Inr StartBooking \<Rightarrow> s\<lparr>isBooking := True\<rparr>)"

datatype freestyle_error = DurationNotPositive

definition freestyle_minutes :: "app_state \<Rightarrow> freestyle_error + int" where
  "freestyle_minutes s =
     (let totalMins = customHours s * 60 + customMinutes s
      in if totalMins \<le> 0 then Inl DurationNotPositive else Inr totalMins)"

text \<open>\<open>confirmFreestyle\<close>, \<open>rnd\<close> being \<open>Math.floor(Math.random() * length)\<close>. The
  new destination object always differs from the old one, so the selection effect runs.\<close>

definition confirmFreestyle :: "nat \<Rightarrow> app_state \<Rightarrow> app_state" where
  "confirmFreestyle rnd s =
     (case freestyle_minutes s of
        Inl _ \<Rightarrow> s
      | Inr totalMins \<Rightarrow>
          (let availableDestinations = freestyle_pool (selectedDestination s);
               randomDest = availableDestinations ! rnd;
               surpriseDestination = surprise_destination randomDest totalMins
           in selection_effect surpriseDestination
                (s\<lparr>selectedDestination := surpriseDestination, initialDuration := totalMins * 60,
                   timeLeft := totalMins * 60, showFreestyleModal := False, isBooking := True\<rparr>)))"

text \<open>\<open>onTicketAnimationComplete\<close> up to its \<open>await\<close>: the session starts; the
  prefetched station is shown, or a fetch for the destination is awaited.\<close>

definition onTicketAnimationComplete :: "js_string \<Rightarrow> app_state \<Rightarrow> app_state" where
  "onTicketAnimationComplete seatNumber s =
     (let s1 = s\<lparr>isBooking := False, selectedSeat := seatNumber, loadingStation := True,
                 timerState := RUNNING, confirmAbandon := False\<rparr>
      in case preloadedStation s of
           Some st \<Rightarrow> s1\<lparr>currentStation := Some st, loadingStation := False\<rparr>
         | None \<Rightarrow> s1\<lparr>pendingStationFetch := pendingStationFetch s @ [dest_name (selectedDestination s)]\<rparr>)"

definition central_station :: "js_string \<Rightarrow> station" where
  "central_station name =
     \<lparr>st_name = name @ '' Central'', st_description = ''You have arrived at your destination.'',
      st_environment = ''city''\<rparr>"

text \<open>The rest of \<open>onTicketAnimationComplete\<close> once the awaited fetch answers: with
  a station but no weather, reading \<open>result.weather.temp\<close> throws and the \<open>catch\<close>
  installs the \<open>Central\<close> station; \<open>finally\<close> clears the loading flag.\<close>

definition station_fetch_done :: "nat \<Rightarrow> api_outcome \<Rightarrow> app_state \<Rightarrow> app_state" where
  "station_fetch_done i outcome s =
     (let name = pendingStationFetch s ! i;
          s1 = s\<lparr>pendingStationFetch := remove_nth i (pendingStationFetch s), loadingStation := False\<rparr>
      in case getDestinationRealtimeData name outcome of
           None \<Rightarrow> s1
         | Some r \<Rightarrow>
             (case gd_station r of
                None \<Rightarrow> s1
              | Some st \<Rightarrow>
                  (case gd_weather r of
                     None \<Rightarrow> s1\<lparr>currentStation := Some (central_station name)\<rparr>
                   | Some w \<Rightarrow> s1\<lparr>currentStation := Some st,
                                  weather := (weather s)\<lparr>temp := temp w, condition := condition w\<rparr>,
                                  localTime := gd_localTime r\<rparr>)))"

definition pauseSession :: "app_state \<Rightarrow> app_state" where
  "pauseSession s = s\<lparr>timerState := PAUSED\<rparr>"

text \<open>The inline \<open>onClick\<close> of the resume button.\<close>

definition resumeSession :: "app_state \<Rightarrow> app_state" where
  "resumeSession s = s\<lparr>timerState := RUNNING\<rparr>"

text \<open>\<open>abandonSession\<close>: the first press arms the confirmation and schedules its
  disarming; a press while armed abandons.\<close>

definition abandonSession :: "app_state \<Rightarrow> app_state" where
  "abandonSession s =
     (if \<not> confirmAbandon s then s\<lparr>confirmAbandon := True, pendingDisarms := Suc (pendingDisarms s)\<rparr>
      else s\<lparr>timerState := IDLE, timeLeft := initialDuration s, currentStation := None,
             confirmAbandon := False\<rparr>)"

text \<open>The callback \<open>() => setConfirmAbandon(false)\<close> after 3 seconds.\<close>

definition abandon_disarm :: "app_state \<Rightarrow> app_state" where
  "abandon_disarm s = s\<lparr>confirmAbandon := False, pendingDisarms := pendingDisarms s - 1\<rparr>"

text \<open>\<open>activeSubLabel || undefined\<close>: the empty string is dropped as well.\<close>

definition js_or_undefined :: "js_string option \<Rightarrow> js_string option" where
  "js_or_undefined v = (case v of Some x \<Rightarrow> if x = [] then None else Some x | None \<Rightarrow> None)"

text \<open>\<open>completeSession\<close>: \<open>initialDuration\<close> is a whole number of minutes in every
  reachable state (lemma \<open>reachable_initialDuration\<close>), so \<open>initialDuration / 60\<close> is
  the integer quotient; \<open>Math.floor(timeSpentSeconds / 60)\<close> is floor division.\<close>

definition completeSession :: "bool \<Rightarrow> timestamp \<Rightarrow> app_state \<Rightarrow> app_state" where
  "completeSession early now s =
     (let timeSpentSeconds = initialDuration s - timeLeft s;
          timeSpentMinutes = timeSpentSeconds div 60;
          newSession = \<lparr>fs_id = nat_str now, task = taskDetail s, fs_label = activeLabel s,
                        subLabel = js_or_undefined (activeSubLabel s),
                        fs_durationMinutes = initialDuration s div 60,
                        actualDurationMinutes = Some (if early then timeSpentMinutes else initialDuration s div 60),
                        startTime = now, completed = True, fs_station = currentStation s,
                        fs_destination = Some (selectedDestination s), seat = Some (selectedSeat s)\<rparr>
      in s\<lparr>timerState := COMPLETED, sessions := recordSession newSession (sessions s)\<rparr>)"

definition finishEarly :: "timestamp \<Rightarrow> app_state \<Rightarrow> app_state" where
  "finishEarly now s = completeSession True now s"

text \<open>One second of the countdown: the interval callback \<open>prev => prev - 1\<close>, then the
  timer effect of the next render, which completes the session at zero.\<close>

definition timer_tick :: "timestamp \<Rightarrow> app_state \<Rightarrow> app_state" where
  "timer_tick now s =
     (let s1 = s\<lparr>timeLeft := timeLeft s - 1\<rparr>
      in if timeLeft s1 = 0 \<and> timerState s1 = RUNNING then completeSession False now s1 else s1)"

definition resetTimer :: "app_state \<Rightarrow> app_state" where
  "resetTimer s =
     s\<lparr>timerState := IDLE, timeLeft := initialDuration s, currentStation := None, taskDetail := [],
       selectedSeat := [], confirmAbandon := False\<rparr>"

definition toggleMusic :: "app_state \<Rightarrow> app_state" where
  "toggleMusic s = s\<lparr>isMusicOn := \<not> isMusicOn s\<rparr>"

definition nextTrack :: "app_state \<Rightarrow> app_state" where
  "nextTrack s = s\<lparr>currentTrackIndex := (currentTrackIndex s + 1) mod length MUSIC_TRACKS\<rparr>"

definition prevTrack :: "app_state \<Rightarrow> app_state" where
  "prevTrack s =
     s\<lparr>currentTrackIndex := nat ((int (currentTrackIndex s) - 1 + int (length MUSIC_TRACKS))
                                  mod int (length MUSIC_TRACKS))\<rparr>"

subsection \<open>Events\<close>

text \<open>
  One constructor per way the component's state changes: clicks and inputs of the
  main screen, of the label-creation modal and of the freestyle modal, the callback of
  the ticket modal, the timer's interval, the session controls, the disarm timeout, the
  answers of the service, and the music controls. \<open>parseInt(..) || 0\<close> of a number
  input is the \<open>int option\<close> parsed (\<open>None\<close> for \<open>NaN\<close>) mapped to 0 when absent.
\<close>

datatype event =
    SelectDestination destination
  | SelectLabel mission_label
  | DeleteLabel js_string bool
  | OpenCreateLabel
  | ChooseSubLabel js_string
  | TypeSubLabel js_string
  | TypeTaskDetail js_string
  | DepartClick
  | TypeNewLabelName js_string
  | PickNewLabelColor js_string
  | PickNewLabelIcon js_string
  | AddCustomLabel timestamp
  | CloseCreateLabel
  | TypeCustomHours "int option"
  | TypeCustomMinutes "int option"
  | CloseFreestyle
  | ConfirmFreestyle nat
  | TicketAnimationComplete js_string
  | Tick timestamp
  | Pause
  | Resume
  | FinishEarly timestamp
  | Abandon
  | AbandonTimeout
  | ResetTimer
  | PrefetchDone nat api_outcome
  | StationFetchDone nat api_outcome
  | ToggleMusic
  | NextTrack
  | PrevTrack

definition parsed_or_zero :: "int option \<Rightarrow> int" where
  "parsed_or_zero v = (case v of Some n \<Rightarrow> n | None \<Rightarrow> 0)"

fun app_step :: "app_state \<Rightarrow> event \<Rightarrow> app_state" where
  "app_step s (SelectDestination d) = handleSelectDestination d s"
| "app_step s (SelectLabel l) = selectLabel l s"
| "app_step s (DeleteLabel i c) = handleDeleteLabel i c s"
| "app_step s OpenCreateLabel = openCreateLabel s"
| "app_step s (ChooseSubLabel v) = setActiveSubLabel v s"
| "app_step s (TypeSubLabel v) = setActiveSubLabel v s"
| "app_step s (TypeTaskDetail t) = s\<lparr>taskDetail := t\<rparr>"
| "app_step s DepartClick = handleDepartClick s"
| "app_step s (TypeNewLabelName n) = s\<lparr>newLabelName := n\<rparr>"
| "app_step s (PickNewLabelColor c) = s\<lparr>newLabelColor := c\<rparr>"
| "app_step s (PickNewLabelIcon k) = s\<lparr>newLabelIcon := k\<rparr>"
| "app_step s (AddCustomLabel now) = handleAddCustomLabel now s"
| "app_step s CloseCreateLabel = closeCreateLabel s"
| "app_step s (TypeCustomHours v) = s\<lparr>customHours := parsed_or_zero v\<rparr>"
| "app_step s (TypeCustomMinutes v) = s\<lparr>customMinutes := parsed_or_zero v\<rparr>"
| "app_step s CloseFreestyle = s\<lparr>showFreestyleModal := False\<rparr>"
| "app_step s (ConfirmFreestyle r) = confirmFreestyle r s"
| "app_step s (TicketAnimationComplete seatNumber) = onTicketAnimationComplete seatNumber s"
| "app_step s (Tick now) = timer_tick now s"
| "app_step s Pause = pauseSession s"
| "app_step s Resume = resumeSession s"
| "app_step s (FinishEarly now) = finishEarly now s"
| "app_step s Abandon = abandonSession s"
| "app_step s AbandonTimeout = abandon_disarm s"
| "app_step s ResetTimer = resetTimer s"
| "app_step s (PrefetchDone i r) = prefetch_done i r s"
| "app_step s (StationFetchDone i r) = station_fetch_done i r s"
| "app_step s ToggleMusic = toggleMusic s"
| "app_step s NextTrack = nextTrack s"
| "app_step s PrevTrack = prevTrack s"

text \<open>
  When an event can happen. The three modals are full-screen overlays, so the main
  screen's controls are reachable only when none is open; the destination grid, the label
  chips, the inputs and the depart button are rendered only in \<open>IDLE\<close>, the session
  buttons only in their state. The interval exists only while \<open>RUNNING\<close> with time
  left (the timer effect creates it under that condition and its cleanup clears it on every
  other render); a scheduled callback or an outstanding request can fire at any time.
\<close>

definition no_modal :: "app_state \<Rightarrow> bool" where
  "no_modal s \<longleftrightarrow> \<not> isCreatingLabel s \<and> \<not> showFreestyleModal s \<and> \<not> isBooking s"

definition main_idle :: "app_state \<Rightarrow> bool" where
  "main_idle s \<longleftrightarrow> timerState s = IDLE \<and> no_modal s"

fun enabled :: "app_state \<Rightarrow> event \<Rightarrow> bool" where
  "enabled s (SelectDestination d) = (main_idle s \<and> d \<in> set (FREESTYLE_DESTINATION # DESTINATIONS))"
| "enabled s (SelectLabel l) = (main_idle s \<and> l \<in> set (availableLabels s))"
| "enabled s (DeleteLabel i c) = (main_idle s \<and> i \<in> set (map label_id (availableLabels s)))"
| "enabled s OpenCreateLabel = main_idle s"
| "enabled s (ChooseSubLabel v) =
     (main_idle s \<and>
      (case activeLabel s of
         Some l \<Rightarrow> (case subLabels l of Some subs \<Rightarrow> v \<in> set subs | None \<Rightarrow> False)
       | None \<Rightarrow> False))"
| "enabled s (TypeSubLabel v) =
     (main_idle s \<and>
      (case activeLabel s of
         Some l \<Rightarrow> subLabels l = None \<and>
                   (case customSubLabelPrompt l of Some p \<Rightarrow> js_truthy p | None \<Rightarrow> False)
       | None \<Rightarrow> False))"
| "enabled s (TypeTaskDetail t) = main_idle s"
| "enabled s DepartClick = main_idle s"
| "enabled s (TypeNewLabelName n) = isCreatingLabel s"
| "enabled s (PickNewLabelColor c) = (isCreatingLabel s \<and> c \<in> set AVAILABLE_COLORS)"
| "enabled s (PickNewLabelIcon k) = (isCreatingLabel s \<and> k \<in> set ICON_KEYS)"
| "enabled s (AddCustomLabel now) = isCreatingLabel s"
| "enabled s CloseCreateLabel = isCreatingLabel s"
| "enabled s (TypeCustomHours v) = showFreestyleModal s"
| "enabled s (TypeCustomMinutes v) = showFreestyleModal s"
| "enabled s CloseFreestyle = showFreestyleModal s"
| "enabled s (ConfirmFreestyle r) = (showFreestyleModal s \<and> r < length (freestyle_pool (selectedDestination s)))"
| "enabled s (TicketAnimationComplete seatNumber) = (isBooking s \<and> seatNumber \<in> set SEAT_IDS)"
| "enabled s (Tick now) = (timerState s = RUNNING \<and> 0 < timeLeft s)"
| "enabled s Pause = (timerState s = RUNNING \<and> no_modal s)"
| "enabled s Resume = (timerState s = PAUSED \<and> no_modal s)"
| "enabled s (FinishEarly now) = ((timerState s = RUNNING \<or> timerState s = PAUSED) \<and> no_modal s)"
| "enabled s Abandon = ((timerState s = RUNNING \<or> timerState s = PAUSED) \<and> no_modal s)"
| "enabled s AbandonTimeout = (0 < pendingDisarms s)"
| "enabled s ResetTimer = (timerState s = COMPLETED \<and> no_modal s)"
| "enabled s (PrefetchDone i r) = (i < length (pendingPrefetch s))"
| "enabled s (StationFetchDone i r) = (i < length (pendingStationFetch s))"
| "enabled s ToggleMusic = no_modal s"
| "enabled s NextTrack = no_modal s"
| "enabled s PrevTrack = no_modal s"

text \<open>A run: the events in order, each applied when enabled and ignored otherwise.\<close>

fun run :: "app_state \<Rightarrow> event list \<Rightarrow> app_state" where
  "run s [] = s"
| "run s (e # es) = run (if enabled s e then app_step s e else s) es"

inductive reachable :: "app_state \<Rightarrow> bool" where
  init: "reachable init_state"
| step: "reachable s \<Longrightarrow> enabled s e \<Longrightarrow> reachable (app_step s e)"

subsection \<open>Invariant\<close>

text \<open>A recorded session is completed, has a positive scheduled duration and an actual
  duration between 0 and it.\<close>

definition session_ok :: "focus_session \<Rightarrow> bool" where
  "session_ok x \<longleftrightarrow>
     completed x \<and> 0 < fs_durationMinutes x \<and>
     (case actualDurationMinutes x of Some a \<Rightarrow> 0 \<le> a \<and> a \<le> fs_durationMinutes x | None \<Rightarrow> False)"

text \<open>The destinations a selection can hold: the sentinel, a catalog entry, or a hidden
  destination relabelled with a positive freestyle duration.\<close>

definition dest_ok :: "destination \<Rightarrow> bool" where
  "dest_ok d \<longleftrightarrow>
     d \<in> set (FREESTYLE_DESTINATION # DESTINATIONS) \<or>
     (\<exists>h \<in> set HIDDEN_DESTINATIONS. \<exists>m > 0. d = surprise_destination h m)"

definition timer_inv :: "app_state \<Rightarrow> bool" where
  "timer_inv s \<longleftrightarrow>
     0 < initialDuration s \<and> 60 dvd initialDuration s \<and>
     0 \<le> timeLeft s \<and> timeLeft s \<le> initialDuration s \<and>
     (timerState s = IDLE \<longrightarrow> timeLeft s = initialDuration s) \<and>
     (timerState s = RUNNING \<or> timerState s = PAUSED \<longrightarrow> 0 < timeLeft s) \<and>
     (dest_id (selectedDestination s) \<noteq> ''freestyle'' \<longrightarrow>
        initialDuration s = durationMinutes (selectedDestination s) * 60) \<and>
     dest_ok (selectedDestination s)"

definition modal_inv :: "app_state \<Rightarrow> bool" where
  "modal_inv s \<longleftrightarrow>
     (showFreestyleModal s \<longrightarrow> timerState s = IDLE \<and> dest_id (selectedDestination s) = ''freestyle'' \<and>
        \<not> isBooking s \<and> \<not> isCreatingLabel s) \<and>
     (isBooking s \<longrightarrow> timerState s = IDLE \<and> dest_id (selectedDestination s) \<noteq> ''freestyle'' \<and>
        \<not> isCreatingLabel s) \<and>
     (isCreatingLabel s \<longrightarrow> timerState s = IDLE)"

definition history_inv :: "app_state \<Rightarrow> bool" where
  "history_inv s \<longleftrightarrow> (\<forall>x \<in> set (sessions s). session_ok x)"

definition app_inv :: "app_state \<Rightarrow> bool" where
  "app_inv s \<longleftrightarrow> label_inv s \<and> timer_inv s \<and> modal_inv s \<and> history_inv s"

text \<open>The events that write the fields each part of the invariant reads.\<close>

fun label_event :: "event \<Rightarrow> bool" where
  "label_event (SelectLabel l) = True"
| "label_event (DeleteLabel i c) = True"
| "label_event (ChooseSubLabel v) = True"
| "label_event (TypeSubLabel v) = True"
| "label_event (AddCustomLabel now) = True"
| "label_event _ = False"

fun timer_event :: "event \<Rightarrow> bool" where
  "timer_event (SelectDestination d) = True"
| "timer_event (ConfirmFreestyle r) = True"
| "timer_event (TicketAnimationComplete seatNumber) = True"
| "timer_event (Tick now) = True"
| "timer_event Pause = True"
| "timer_event Resume = True"
| "timer_event (FinishEarly now) = True"
| "timer_event Abandon = True"
| "timer_event ResetTimer = True"
| "timer_event _ = False"

fun modal_event :: "event \<Rightarrow> bool" where
  "modal_event (SelectDestination d) = True"
| "modal_event OpenCreateLabel = True"
| "modal_event DepartClick = True"
| "modal_event (AddCustomLabel now) = True"
| "modal_event CloseCreateLabel = True"
| "modal_event CloseFreestyle = True"
| "modal_event (ConfirmFreestyle r) = True"
| "modal_event (TicketAnimationComplete seatNumber) = True"
| "modal_event (Tick now) = True"
| "modal_event Pause = True"
| "modal_event Resume = True"
| "modal_event (FinishEarly now) = True"
| "modal_event Abandon = True"
| "modal_event ResetTimer = True"
| "modal_event _ = False"

text \<open>Sample runs used by the witnesses: the \<open>Work\<close> label (no subject) and a
  departure to the default destination, Kyoto (25 minutes).\<close>

abbreviation depart_kyoto :: "event list" where
  "depart_kyoto \<equiv> [SelectLabel (PRESET_LABELS ! 1), DepartClick, TicketAnimationComplete ''1A'']"

text \<open>A one-minute freestyle journey to the first hidden destination.\<close>

abbreviation depart_one_minute :: "event list" where
  "depart_one_minute \<equiv> [SelectLabel (PRESET_LABELS ! 1), SelectDestination FREESTYLE_DESTINATION,
     DepartClick, TypeCustomMinutes (Some 1), ConfirmFreestyle 0, TicketAnimationComplete ''1A'']"

text \<open>Runs exhibiting the behaviours of properties C12 to C16.\<close>

abbreviation open_freestyle :: "event list" where
  "open_freestyle \<equiv> [SelectLabel (PRESET_LABELS ! 1), SelectDestination FREESTYLE_DESTINATION, DepartClick]"

abbreviation second_surprise :: "event list" where
  "second_surprise \<equiv> depart_one_minute @ [FinishEarly 5, ResetTimer, SelectDestination FREESTYLE_DESTINATION,
     DepartClick, ConfirmFreestyle 0]"

abbreviation stale_sublabel_run :: "event list" where
  "stale_sublabel_run \<equiv> [SelectLabel (PRESET_LABELS ! 0), ChooseSubLabel ''Math'', OpenCreateLabel,
     TypeNewLabelName ''Gym'', AddCustomLabel 1000, DepartClick, TicketAnimationComplete ''1A'', FinishEarly 2000]"

abbreviation stale_prefetch_run :: "event list" where
  "stale_prefetch_run \<equiv> [SelectDestination (DESTINATIONS ! 3), PrefetchDone 0 ApiThrows,
     SelectLabel (PRESET_LABELS ! 1), DepartClick, TicketAnimationComplete ''1A'']"

abbreviation bad_json_run :: "event list" where
  "bad_json_run \<equiv> [SelectLabel (PRESET_LABELS ! 1), PrefetchDone 0 ApiBadJson, DepartClick,
     TicketAnimationComplete ''1A'', StationFetchDone 0 ApiBadJson]"

declare session_ok_def [inv_defs] dest_ok_def [inv_defs] timer_inv_def [inv_defs]
  modal_inv_def [inv_defs] history_inv_def [inv_defs]

declare selection_effect_def [handler_defs] fetchDataForDestination_done_def [handler_defs]
  prefetch_done_def [handler_defs] handleSelectDestination_def [handler_defs]
  handleDepartClick_def [handler_defs] confirmFreestyle_def [handler_defs]
  onTicketAnimationComplete_def [handler_defs] station_fetch_done_def [handler_defs]
  pauseSession_def [handler_defs] resumeSession_def [handler_defs] abandonSession_def [handler_defs]
  abandon_disarm_def [handler_defs] completeSession_def [handler_defs] finishEarly_def [handler_defs]
  timer_tick_def [handler_defs] resetTimer_def [handler_defs] toggleMusic_def [handler_defs]
  nextTrack_def [handler_defs] prevTrack_def [handler_defs]
  selectLabel_def [handler_defs] setActiveSubLabel_def [handler_defs] openCreateLabel_def [handler_defs]
  closeCreateLabel_def [handler_defs] handleAddCustomLabel_def [handler_defs]
  handleDeleteLabel_def [handler_defs]

lemma reachable_run: "reachable s \<Longrightarrow> reachable (run s es)"
  by (induction es arbitrary: s) (auto intro: reachable.step)

lemma label_inv_init_state: "label_inv init_state"
  by (simp add: init_state_def label_inv_def)

lemma timer_inv_init_state: "timer_inv init_state"
  by (simp add: init_state_def timer_inv_def dest_ok_def catalog_defs)

lemma modal_inv_init_state: "modal_inv init_state"
  by (simp add: init_state_def modal_inv_def)

lemma history_inv_init_state: "history_inv init_state"
  by (simp add: init_state_def history_inv_def)

subsection \<open>Preservation of the invariant\<close>

text \<open>Each part of the invariant reads a few fields; the events that write none of them
  keep it by a frame lemma, the others by one lemma per handler.\<close>

lemma app_step_label_frame:
  assumes "\<not> label_event e"
  shows "availableLabels (app_step s e) = availableLabels s \<and> activeLabel (app_step s e) = activeLabel s \<and>
         activeSubLabel (app_step s e) = activeSubLabel s"
  using assms
  by (cases e) (simp_all add: handler_defs Let_def split: option.splits sum.splits depart_action.splits)

lemma label_inv_frame:
  "availableLabels t = availableLabels s \<Longrightarrow> activeLabel t = activeLabel s \<Longrightarrow>
   activeSubLabel t = activeSubLabel s \<Longrightarrow> label_inv t = label_inv s"
  by (simp add: label_inv_def)

lemma label_inv_step: "label_inv s \<Longrightarrow> enabled s e \<Longrightarrow> label_inv (app_step s e)"
proof (cases "label_event e")
  case True
  assume "label_inv s" "enabled s e"
  with True show ?thesis
    by (cases e) (auto simp: label_inv_selectLabel label_inv_setActiveSubLabel label_inv_handleAddCustomLabel
        label_inv_handleDeleteLabel subjects_ok_def split: option.splits)
next
  case False
  assume "label_inv s"
  with app_step_label_frame [OF False] show ?thesis using label_inv_frame by metis
qed

lemma app_step_timer_frame:
  assumes "\<not> timer_event e"
  shows "timerState (app_step s e) = timerState s \<and> selectedDestination (app_step s e) = selectedDestination s \<and>
         timeLeft (app_step s e) = timeLeft s \<and> initialDuration (app_step s e) = initialDuration s"
  using assms
  by (cases e) (simp_all add: handler_defs Let_def split: option.splits sum.splits depart_action.splits)

lemma timer_inv_frame:
  "timerState t = timerState s \<Longrightarrow> selectedDestination t = selectedDestination s \<Longrightarrow>
   timeLeft t = timeLeft s \<Longrightarrow> initialDuration t = initialDuration s \<Longrightarrow> timer_inv t = timer_inv s"
  by (simp add: timer_inv_def)

lemma timer_inv_handleSelectDestination:
  assumes "timer_inv s" and "d \<in> set (FREESTYLE_DESTINATION # DESTINATIONS)"
  shows "timer_inv (handleSelectDestination d s)"
proof (cases "dest_id d = ''freestyle''")
  case True
  with assms show ?thesis
    by (auto simp: timer_inv_def dest_ok_def handleSelectDestination_def selection_effect_def Let_def)
next
  case False
  with assms(2) have "d \<in> set DESTINATIONS" by auto
  with catalog_durations_pos have "0 < durationMinutes d" by auto
  with False assms show ?thesis
    by (auto simp: timer_inv_def dest_ok_def handleSelectDestination_def selection_effect_def Let_def)
qed

lemma surprise_dest_ok:
  "r < length (freestyle_pool d) \<Longrightarrow> 0 < m \<Longrightarrow> dest_ok (surprise_destination (freestyle_pool d ! r) m)"
  using freestyle_pool_subset nth_mem unfolding dest_ok_def by blast

lemma timer_inv_confirmFreestyle:
  assumes "timer_inv s" and "r < length (freestyle_pool (selectedDestination s))"
  shows "timer_inv (confirmFreestyle r s)"
proof (cases "freestyle_minutes s")
  case (Inl err)
  with assms show ?thesis by (simp add: confirmFreestyle_def)
next
  case (Inr m)
  then have "0 < m" by (simp add: freestyle_minutes_def Let_def split: if_splits)
  with Inr assms surprise_dest_ok [OF assms(2) \<open>0 < m\<close>] show ?thesis
    by (simp add: timer_inv_def confirmFreestyle_def selection_effect_def freestyle_prefix_def Let_def)
qed

lemma timer_inv_onTicketAnimationComplete:
  "timer_inv s \<Longrightarrow> timerState s = IDLE \<Longrightarrow> timer_inv (onTicketAnimationComplete seatNumber s)"
  by (simp add: timer_inv_def onTicketAnimationComplete_def Let_def split: option.splits)

lemma timer_inv_completeSession: "timer_inv s \<Longrightarrow> timer_inv (completeSession early now s)"
  by (simp add: timer_inv_def completeSession_def Let_def)

lemma timer_inv_timer_tick:
  "timer_inv s \<Longrightarrow> timerState s = RUNNING \<Longrightarrow> 0 < timeLeft s \<Longrightarrow> timer_inv (timer_tick now s)"
  by (auto simp: timer_inv_def timer_tick_def completeSession_def Let_def)

lemma timer_inv_session_controls:
  "timer_inv s \<Longrightarrow> timerState s = RUNNING \<Longrightarrow> timer_inv (pauseSession s)"
  "timer_inv s \<Longrightarrow> timerState s = PAUSED \<Longrightarrow> timer_inv (resumeSession s)"
  "timer_inv s \<Longrightarrow> timer_inv (abandonSession s)"
  "timer_inv s \<Longrightarrow> timer_inv (resetTimer s)"
  by (auto simp: timer_inv_def pauseSession_def resumeSession_def abandonSession_def resetTimer_def)

lemma timer_inv_step: "timer_inv s \<Longrightarrow> modal_inv s \<Longrightarrow> enabled s e \<Longrightarrow> timer_inv (app_step s e)"
proof (cases "timer_event e")
  case True
  assume "timer_inv s" "modal_inv s" "enabled s e"
  with True show ?thesis
    by (cases e) (auto simp: timer_inv_handleSelectDestination timer_inv_confirmFreestyle
        timer_inv_onTicketAnimationComplete timer_inv_timer_tick timer_inv_session_controls
        timer_inv_completeSession finishEarly_def modal_inv_def)
next
  case False
  assume "timer_inv s"
  with app_step_timer_frame [OF False] show ?thesis using timer_inv_frame by metis
qed

lemma app_step_modal_frame:
  assumes "\<not> modal_event e"
  shows "showFreestyleModal (app_step s e) = showFreestyleModal s \<and> isBooking (app_step s e) = isBooking s \<and>
         isCreatingLabel (app_step s e) = isCreatingLabel s \<and> timerState (app_step s e) = timerState s \<and>
         selectedDestination (app_step s e) = selectedDestination s"
  using assms
  by (cases e) (simp_all add: handler_defs Let_def split: option.splits sum.splits depart_action.splits)

lemma modal_inv_frame:
  "showFreestyleModal t = showFreestyleModal s \<Longrightarrow> isBooking t = isBooking s \<Longrightarrow>
   isCreatingLabel t = isCreatingLabel s \<Longrightarrow> timerState t = timerState s \<Longrightarrow>
   selectedDestination t = selectedDestination s \<Longrightarrow> modal_inv t = modal_inv s"
  by (simp add: modal_inv_def)

lemma modal_inv_no_modal: "\<not> showFreestyleModal s \<Longrightarrow> \<not> isBooking s \<Longrightarrow> \<not> isCreatingLabel s \<Longrightarrow> modal_inv s"
  by (simp add: modal_inv_def)

lemma modal_inv_handleDepartClick: "main_idle s \<Longrightarrow> modal_inv (handleDepartClick s)"
  by (simp add: handleDepartClick_def modal_inv_def main_idle_def no_modal_def depart_check_def
      split: option.splits sum.splits depart_action.splits if_splits)

lemma modal_inv_confirmFreestyle:
  "modal_inv s \<Longrightarrow> showFreestyleModal s \<Longrightarrow> modal_inv (confirmFreestyle r s)"
  by (auto simp: confirmFreestyle_def modal_inv_def selection_effect_def freestyle_prefix_def Let_def
      split: sum.splits)

lemma completeSession_modal [simp]:
  "showFreestyleModal (completeSession b n s) = showFreestyleModal s"
  "isBooking (completeSession b n s) = isBooking s"
  "isCreatingLabel (completeSession b n s) = isCreatingLabel s"
  "timerState (completeSession b n s) = COMPLETED"
  by (simp_all add: completeSession_def Let_def)

lemma modal_inv_step: "modal_inv s \<Longrightarrow> enabled s e \<Longrightarrow> modal_inv (app_step s e)"
proof (cases "modal_event e")
  case True
  assume "modal_inv s" "enabled s e"
  with True show ?thesis
  proof (cases e)
    case DepartClick
    with \<open>enabled s e\<close> show ?thesis by (simp add: modal_inv_handleDepartClick)
  next
    case (ConfirmFreestyle r)
    with \<open>modal_inv s\<close> \<open>enabled s e\<close> show ?thesis by (simp add: modal_inv_confirmFreestyle)
  qed (auto simp: modal_inv_def main_idle_def no_modal_def handler_defs Let_def split: option.splits)
next
  case False
  assume "modal_inv s"
  with app_step_modal_frame [OF False] show ?thesis using modal_inv_frame by metis
qed

lemma app_step_sessions_frame:
  "(\<forall>now. e \<noteq> Tick now \<and> e \<noteq> FinishEarly now) \<Longrightarrow> sessions (app_step s e) = sessions s"
  by (cases e) (simp_all add: handler_defs Let_def split: option.splits sum.splits depart_action.splits)

lemma session_ok_completeSession:
  assumes pos: "0 < initialDuration s" and dvd: "60 dvd initialDuration s"
    and lo: "0 \<le> timeLeft s" and hi: "timeLeft s \<le> initialDuration s"
  shows "\<forall>x \<in> set (sessions (completeSession early now s)). x \<in> set (sessions s) \<or> session_ok x"
proof -
  from pos dvd have "60 \<le> initialDuration s" by (auto elim!: dvdE)
  then have d: "0 < initialDuration s div 60" by simp
  have "(initialDuration s - timeLeft s) div 60 \<le> initialDuration s div 60"
    using lo by (intro zdiv_mono1) simp_all
  moreover have "0 \<le> (initialDuration s - timeLeft s) div 60" using hi by simp
  ultimately show ?thesis using d
    by (simp add: completeSession_def session_ok_def recordSession_def Let_def)
qed

lemma history_inv_step: "history_inv s \<Longrightarrow> timer_inv s \<Longrightarrow> enabled s e \<Longrightarrow> history_inv (app_step s e)"
proof (cases "\<exists>now. e = Tick now \<or> e = FinishEarly now")
  case True
  assume h: "history_inv s" and t: "timer_inv s" and en: "enabled s e"
  from True obtain now where "e = Tick now \<or> e = FinishEarly now" by blast
  then show ?thesis
  proof
    assume e: "e = Tick now"
    show ?thesis
    proof (cases "timeLeft s - 1 = 0")
      case True
      from t have "0 < initialDuration s" "60 dvd initialDuration s" by (simp_all add: timer_inv_def)
      from session_ok_completeSession [of "s\<lparr>timeLeft := 0\<rparr>" False now, simplified, OF this] h e True en
      show ?thesis
        by (auto simp: history_inv_def timer_tick_def Let_def)
    next
      case False
      with h e show ?thesis by (simp add: history_inv_def timer_tick_def Let_def)
    qed
  next
    assume e: "e = FinishEarly now"
    with en t have "0 < timeLeft s" "0 < initialDuration s" "60 dvd initialDuration s"
      "timeLeft s \<le> initialDuration s" by (auto simp: timer_inv_def)
    from session_ok_completeSession [of s True now] this h e show ?thesis
      by (auto simp: history_inv_def finishEarly_def)
  qed
next
  case False
  assume "history_inv s"
  with app_step_sessions_frame [of e s] False show ?thesis by (simp add: history_inv_def)
qed

theorem app_inv_step: "app_inv s \<Longrightarrow> enabled s e \<Longrightarrow> app_inv (app_step s e)"
  unfolding app_inv_def
  using label_inv_step timer_inv_step modal_inv_step history_inv_step by blast

lemma app_inv_init_state: "app_inv init_state"
  by (simp add: app_inv_def label_inv_init_state timer_inv_init_state modal_inv_init_state
      history_inv_init_state)

lemma reachable_app_inv: "reachable s \<Longrightarrow> app_inv s"
proof (induction rule: reachable.induct)
  case init
  show ?case by (rule app_inv_init_state)
next
  case (step s e)
  then show ?case by (blast intro: app_inv_step)
qed

subsection \<open>Properties of the timer\<close>

lemma completeSession_fields [simp]:
  "timerState (completeSession early now s) = COMPLETED"
  "timeLeft (completeSession early now s) = timeLeft s"
  "initialDuration (completeSession early now s) = initialDuration s"
  "sessions (completeSession early now s) =
     \<lparr>fs_id = nat_str now, task = taskDetail s, fs_label = activeLabel s,
      subLabel = js_or_undefined (activeSubLabel s), fs_durationMinutes = initialDuration s div 60,
      actualDurationMinutes = Some (if early then (initialDuration s - timeLeft s) div 60 else initialDuration s div 60),
      startTime = now, completed = True, fs_station = currentStation s,
      fs_destination = Some (selectedDestination s), seat = Some (selectedSeat s)\<rparr> # sessions s"
  by (simp_all add: completeSession_def recordSession_def Let_def)

lemma depart_kyoto_facts:
  "timerState (run init_state depart_kyoto) = RUNNING \<and> timeLeft (run init_state depart_kyoto) = 1500 \<and>
   initialDuration (run init_state depart_kyoto) = 1500 \<and> \<not> confirmAbandon (run init_state depart_kyoto) \<and>
   isBooking (run init_state depart_kyoto) = False"
  by code_simp

lemma reachable_depart_kyoto: "reachable (run init_state depart_kyoto)"
  by (rule reachable_run [OF reachable.init])

lemma handleDepartClick_error: "isl (depart_check s) \<Longrightarrow> handleDepartClick s = s"
  by (cases "depart_check s") (simp_all add: handleDepartClick_def)

lemma int_div_less_of_less_mult:
  fixes a k :: int
  assumes "a < 60 * k"
  shows "a div 60 < k"
proof -
  have "a = 60 * (a div 60) + a mod 60" by simp
  moreover have "0 \<le> a mod 60" by simp
  ultimately have "60 * (a div 60) < 60 * k" using assms by linarith
  then show ?thesis by simp
qed

lemma app_step_timeLeft_cases:
  assumes "(\<forall>now. e \<noteq> Tick now) \<and> (\<forall>d. e \<noteq> SelectDestination d) \<and> (\<forall>r. e \<noteq> ConfirmFreestyle r)"
    and "e \<noteq> Abandon" and "e \<noteq> ResetTimer"
  shows "timeLeft (app_step s e) = timeLeft s"
  using assms
  by (cases e) (simp_all add: handler_defs Let_def split: option.splits sum.splits depart_action.splits)

lemma app_step_completed_only_by_completion:
  assumes "\<forall>now. e \<noteq> Tick now \<and> e \<noteq> FinishEarly now" and "timerState (app_step s e) = COMPLETED"
  shows "timerState s = COMPLETED"
  using assms
  by (cases e) (simp_all add: handler_defs Let_def split: option.splits sum.splits depart_action.splits if_splits)

text \<open>
  C1. In every reachable state the seconds left lie between 0 and the session's initial
  duration, and while idle they equal it.
\<close>

theorem reachable_timeLeft_bounds:
  assumes "reachable s"
  shows "0 \<le> timeLeft s \<and> timeLeft s \<le> initialDuration s \<and>
         (timerState s = IDLE \<longrightarrow> timeLeft s = initialDuration s)"
  using reachable_app_inv [OF assms] by (simp add: app_inv_def timer_inv_def)

theorem reachable_timeLeft_bounds_witness:
  "reachable (run init_state (depart_kyoto @ [Tick 0])) \<and>
   timeLeft (run init_state (depart_kyoto @ [Tick 0])) = 1499 \<and>
   1499 \<le> initialDuration (run init_state (depart_kyoto @ [Tick 0]))"
proof -
  let ?s = "run init_state (depart_kyoto @ [Tick 0])"
  have r: "reachable ?s" by (rule reachable_run [OF reachable.init])
  have t: "timeLeft ?s = 1499" by code_simp
  from reachable_timeLeft_bounds [OF r] t r show ?thesis by simp
qed

text \<open>
  C2. Every session in the history of a reachable state is completed, has a positive
  scheduled duration, and an actual duration between 0 and the scheduled one.
\<close>

theorem reachable_sessions_ok:
  assumes "reachable s" and "x \<in> set (sessions s)"
  shows "completed x \<and> 0 < fs_durationMinutes x \<and>
         (\<exists>a. actualDurationMinutes x = Some a \<and> 0 \<le> a \<and> a \<le> fs_durationMinutes x)"
  using reachable_app_inv [OF assms(1)] assms(2)
  by (auto simp: app_inv_def history_inv_def session_ok_def split: option.splits)

theorem reachable_sessions_ok_witness:
  "reachable (run init_state (depart_kyoto @ [Tick 0, Tick 0, FinishEarly 7])) \<and>
   hd (sessions (run init_state (depart_kyoto @ [Tick 0, Tick 0, FinishEarly 7])))
     \<in> set (sessions (run init_state (depart_kyoto @ [Tick 0, Tick 0, FinishEarly 7]))) \<and>
   actualDurationMinutes (hd (sessions (run init_state (depart_kyoto @ [Tick 0, Tick 0, FinishEarly 7])))) = Some 0 \<and>
   fs_durationMinutes (hd (sessions (run init_state (depart_kyoto @ [Tick 0, Tick 0, FinishEarly 7])))) = 25"
proof -
  let ?s = "run init_state (depart_kyoto @ [Tick 0, Tick 0, FinishEarly 7])"
  have r: "reachable ?s" by (rule reachable_run [OF reachable.init])
  have ne: "sessions ?s \<noteq> []" by code_simp
  have a: "actualDurationMinutes (hd (sessions ?s)) = Some 0" by code_simp
  have d: "fs_durationMinutes (hd (sessions ?s)) = 25" by code_simp
  from reachable_sessions_ok [OF r hd_in_set [OF ne]] r ne a d show ?thesis by simp
qed

text \<open>
  C3. From a running session with \<open>n > 0\<close> seconds left, \<open>n\<close> ticks of the interval
  complete it: the state is \<open>COMPLETED\<close> and exactly one session has been recorded, with
  the full scheduled duration as its actual duration.
\<close>

theorem ticks_complete_session:
  assumes "timerState s = RUNNING" and "timeLeft s = int (length ts)" and "0 < timeLeft s"
  shows "timerState (run s (map Tick ts)) = COMPLETED \<and> tl (sessions (run s (map Tick ts))) = sessions s \<and>
         actualDurationMinutes (hd (sessions (run s (map Tick ts)))) = Some (initialDuration s div 60)"
  using assms
proof (induction ts arbitrary: s)
  case Nil
  then show ?case by simp
next
  case (Cons t ts)
  show ?case
  proof (cases ts)
    case Nil
    with Cons.prems show ?thesis by (simp add: timer_tick_def Let_def)
  next
    case (Cons t' ts')
    let ?s1 = "timer_tick t s"
    have e: "enabled s (Tick t)" using Cons.prems by simp
    have s1: "?s1 = s\<lparr>timeLeft := timeLeft s - 1\<rparr>"
      using Cons.prems \<open>ts = t' # ts'\<close> by (simp add: timer_tick_def Let_def)
    have "timerState ?s1 = RUNNING" "timeLeft ?s1 = int (length ts)" "0 < timeLeft ?s1"
      using Cons.prems \<open>ts = t' # ts'\<close> s1 by simp_all
    from Cons.IH [OF this] e s1 show ?thesis by simp
  qed
qed

theorem ticks_complete_session_witness:
  "timerState (run init_state depart_one_minute) = RUNNING \<and>
   timeLeft (run init_state depart_one_minute) = 60 \<and>
   timerState (run (run init_state depart_one_minute) (map Tick (replicate 60 0))) = COMPLETED \<and>
   actualDurationMinutes (hd (sessions (run (run init_state depart_one_minute) (map Tick (replicate 60 0))))) = Some 1"
proof -
  let ?s = "run init_state depart_one_minute"
  have st: "timerState ?s = RUNNING" by code_simp
  have tl: "timeLeft ?s = int (length (replicate 60 (0::nat)))" by code_simp
  have i: "initialDuration ?s = 60" by code_simp
  from ticks_complete_session [OF st tl] st tl i show ?thesis by simp
qed

text \<open>
  C4. Abandoning needs two presses: while running or paused and not armed, a press only
  arms the confirmation (state, time and history unchanged); a second press abandons to
  \<open>IDLE\<close> with the full duration restored and no session recorded; if the disarm
  timeout fires in between, the next press only arms again.
\<close>

theorem abandon_needs_two_presses:
  assumes "timerState s = RUNNING \<or> timerState s = PAUSED" and "\<not> confirmAbandon s"
  shows "timerState (abandonSession s) = timerState s \<and> timeLeft (abandonSession s) = timeLeft s \<and>
         sessions (abandonSession s) = sessions s \<and> confirmAbandon (abandonSession s) \<and>
         timerState (abandonSession (abandonSession s)) = IDLE \<and>
         timeLeft (abandonSession (abandonSession s)) = initialDuration s \<and>
         sessions (abandonSession (abandonSession s)) = sessions s \<and>
         timerState (abandonSession (abandon_disarm (abandonSession s))) = timerState s"
  using assms by (simp add: abandonSession_def abandon_disarm_def)

theorem abandon_needs_two_presses_witness:
  "timerState (run init_state depart_kyoto) = RUNNING \<and> \<not> confirmAbandon (run init_state depart_kyoto) \<and>
   timerState (abandonSession (abandonSession (run init_state depart_kyoto))) = IDLE"
  using abandon_needs_two_presses [of "run init_state depart_kyoto"] depart_kyoto_facts by simp

text \<open>
  C5. A tick of the interval while running with more than one second left decrements
  \<open>timeLeft\<close> by exactly one and changes nothing else.
\<close>

theorem timer_tick_counts_down:
  assumes "timerState s = RUNNING" and "1 < timeLeft s"
  shows "timer_tick now s = s\<lparr>timeLeft := timeLeft s - 1\<rparr>"
  using assms by (simp add: timer_tick_def Let_def)

theorem timer_tick_counts_down_witness:
  "timerState (run init_state depart_kyoto) = RUNNING \<and> timeLeft (run init_state depart_kyoto) = 1500 \<and>
   timeLeft (timer_tick 0 (run init_state depart_kyoto)) = 1499"
  using timer_tick_counts_down [of "run init_state depart_kyoto"] depart_kyoto_facts by simp

text \<open>
  C6. The tick that brings \<open>timeLeft\<close> to 0 completes the session in the same step and
  records it with its actual duration equal to the scheduled one.
\<close>

theorem timer_tick_completes_at_zero:
  assumes "timerState s = RUNNING" and "timeLeft s = 1"
  shows "timerState (timer_tick now s) = COMPLETED \<and> timeLeft (timer_tick now s) = 0 \<and>
         tl (sessions (timer_tick now s)) = sessions s \<and>
         actualDurationMinutes (hd (sessions (timer_tick now s))) = Some (initialDuration s div 60) \<and>
         fs_durationMinutes (hd (sessions (timer_tick now s))) = initialDuration s div 60"
  using assms by (simp add: timer_tick_def Let_def)

theorem timer_tick_completes_at_zero_witness:
  "timerState (run init_state (depart_one_minute @ map Tick (replicate 59 0))) = RUNNING \<and>
   timeLeft (run init_state (depart_one_minute @ map Tick (replicate 59 0))) = 1 \<and>
   timerState (timer_tick 0 (run init_state (depart_one_minute @ map Tick (replicate 59 0)))) = COMPLETED"
proof -
  let ?s = "run init_state (depart_one_minute @ map Tick (replicate 59 0))"
  have h: "timerState ?s = RUNNING \<and> timeLeft ?s = 1" by code_simp
  from timer_tick_completes_at_zero [of ?s] h show ?thesis by simp
qed

text \<open>
  C7. Departure is refused, with an error value and no change of state, when no mission
  label is selected, when the label has a subject list and no subject is chosen, or when
  the label asks for free text and none (or only blanks) was typed.
\<close>

theorem depart_rejects_incomplete_mission:
  assumes "activeLabel s = None \<or>
           (\<exists>l. activeLabel s = Some l \<and> subLabels l \<noteq> None \<and> activeSubLabel s = None) \<or>
           (\<exists>l p. activeLabel s = Some l \<and> customSubLabelPrompt l = Some p \<and> p \<noteq> [] \<and>
                  (\<forall>v. activeSubLabel s = Some v \<longrightarrow> js_trim v = []))"
  shows "isl (depart_check s) \<and> handleDepartClick s = s"
proof -
  have "isl (depart_check s)"
    using assms
  proof (elim disjE exE conjE)
    assume "activeLabel s = None"
    then show ?thesis by (simp add: depart_check_def)
  next
    fix l assume "activeLabel s = Some l" "subLabels l \<noteq> None" "activeSubLabel s = None"
    then show ?thesis by (simp add: depart_check_def)
  next
    fix l p assume l: "activeLabel s = Some l" and p: "customSubLabelPrompt l = Some p" "p \<noteq> []"
      and v: "\<forall>v. activeSubLabel s = Some v \<longrightarrow> js_trim v = []"
    have "js_falsy_opt (activeSubLabel s) \<or> js_trim (the (activeSubLabel s)) = []"
      using v by (cases "activeSubLabel s") simp_all
    with l p show ?thesis by (simp add: depart_check_def)
  qed
  then show ?thesis by (simp add: handleDepartClick_error)
qed

theorem depart_rejects_incomplete_mission_witness:
  "activeLabel (run init_state [SelectLabel (PRESET_LABELS ! 0)]) = Some (PRESET_LABELS ! 0) \<and>
   subLabels (PRESET_LABELS ! 0) \<noteq> None \<and> activeSubLabel (run init_state [SelectLabel (PRESET_LABELS ! 0)]) = None \<and>
   handleDepartClick (run init_state [SelectLabel (PRESET_LABELS ! 0)]) = run init_state [SelectLabel (PRESET_LABELS ! 0)]"
proof -
  let ?s = "run init_state [SelectLabel (PRESET_LABELS ! 0)]"
  have h: "activeLabel ?s = Some (PRESET_LABELS ! 0) \<and> subLabels (PRESET_LABELS ! 0) \<noteq> None \<and> activeSubLabel ?s = None"
    by code_simp
  then have "\<exists>l. activeLabel ?s = Some l \<and> subLabels l \<noteq> None \<and> activeSubLabel ?s = None" by blast
  then have "isl (depart_check ?s) \<and> handleDepartClick ?s = ?s"
    using depart_rejects_incomplete_mission [of ?s] by blast
  with h show ?thesis by blast
qed

text \<open>
  C8. Finishing early from a running or paused session records the elapsed whole
  minutes, \<open>floor((initialDuration - timeLeft) / 60)\<close>, which is strictly less than the
  scheduled duration.
\<close>

theorem finishEarly_records_elapsed:
  assumes "reachable s" and "timerState s = RUNNING \<or> timerState s = PAUSED"
  shows "timerState (finishEarly now s) = COMPLETED \<and> tl (sessions (finishEarly now s)) = sessions s \<and>
         fs_durationMinutes (hd (sessions (finishEarly now s))) = initialDuration s div 60 \<and>
         actualDurationMinutes (hd (sessions (finishEarly now s))) = Some ((initialDuration s - timeLeft s) div 60) \<and>
         (initialDuration s - timeLeft s) div 60 < initialDuration s div 60"
proof -
  from reachable_app_inv [OF assms(1)] assms(2) have
    pos: "0 < timeLeft s" and dvd: "60 dvd initialDuration s"
    by (auto simp: app_inv_def timer_inv_def)
  from dvd obtain k where k: "initialDuration s = 60 * k" by (auto elim: dvdE)
  have "(initialDuration s - timeLeft s) div 60 < k"
    using pos k by (intro int_div_less_of_less_mult) simp
  with k show ?thesis by (simp add: finishEarly_def)
qed

theorem finishEarly_records_elapsed_witness:
  "reachable (run init_state depart_kyoto) \<and> timerState (run init_state depart_kyoto) = RUNNING \<and>
   actualDurationMinutes (hd (sessions (finishEarly 0 (run init_state depart_kyoto)))) = Some 0 \<and>
   fs_durationMinutes (hd (sessions (finishEarly 0 (run init_state depart_kyoto)))) = 25"
  using finishEarly_records_elapsed [OF reachable_depart_kyoto, of 0] reachable_depart_kyoto depart_kyoto_facts
  by simp

text \<open>
  C10. While paused the countdown is frozen: no enabled event changes \<open>timeLeft\<close>,
  except the confirmed abandon, which leaves for \<open>IDLE\<close> with the full duration.
\<close>

theorem paused_time_frozen:
  assumes "reachable s" and "timerState s = PAUSED" and "enabled s e"
  shows "timeLeft (app_step s e) = timeLeft s \<or>
         (timerState (app_step s e) = IDLE \<and> timeLeft (app_step s e) = initialDuration s)"
proof -
  have "modal_inv s" using reachable_app_inv [OF assms(1)] by (simp add: app_inv_def)
  then have nm: "\<not> showFreestyleModal s" using assms(2) by (auto simp: modal_inv_def)
  show ?thesis
  proof (cases "e = Abandon")
    case True
    then show ?thesis by (simp add: abandonSession_def)
  next
    case False
    have "(\<forall>now. e \<noteq> Tick now) \<and> (\<forall>d. e \<noteq> SelectDestination d) \<and> (\<forall>r. e \<noteq> ConfirmFreestyle r) \<and>
          e \<noteq> ResetTimer"
      using assms(2,3) nm by (cases e) (auto simp: main_idle_def)
    with False show ?thesis using app_step_timeLeft_cases by blast
  qed
qed

theorem paused_time_frozen_witness:
  "reachable (run init_state (depart_kyoto @ [Pause])) \<and> timerState (run init_state (depart_kyoto @ [Pause])) = PAUSED \<and>
   enabled (run init_state (depart_kyoto @ [Pause])) Resume \<and>
   timeLeft (app_step (run init_state (depart_kyoto @ [Pause])) Resume) = 1500"
proof -
  let ?s = "run init_state (depart_kyoto @ [Pause])"
  have r: "reachable ?s" by (rule reachable_run [OF reachable.init])
  have h: "timerState ?s = PAUSED \<and> enabled ?s Resume \<and> timeLeft ?s = 1500 \<and> initialDuration ?s = 1500"
    by code_simp
  from paused_time_frozen [OF r _ , of Resume] r h show ?thesis by auto
qed

text \<open>
  C11. A session is recorded exactly when a running or paused session enters
  \<open>COMPLETED\<close>: then one record is prepended (newest first); every other step leaves
  the history unchanged.
\<close>

theorem session_recorded_on_completion:
  assumes "reachable s" and "enabled s e"
  shows "(timerState s \<noteq> COMPLETED \<and> timerState (app_step s e) = COMPLETED \<longrightarrow>
            (timerState s = RUNNING \<or> timerState s = PAUSED) \<and> sessions (app_step s e) \<noteq> [] \<and>
            tl (sessions (app_step s e)) = sessions s) \<and>
         (\<not> (timerState s \<noteq> COMPLETED \<and> timerState (app_step s e) = COMPLETED) \<longrightarrow>
            sessions (app_step s e) = sessions s)"
proof (cases "\<exists>now. e = Tick now \<or> e = FinishEarly now")
  case True
  then obtain now where "e = Tick now \<or> e = FinishEarly now" by blast
  with assms(2) show ?thesis
    by (auto simp: timer_tick_def finishEarly_def Let_def split: if_splits)
next
  case False
  then have "sessions (app_step s e) = sessions s" using app_step_sessions_frame by blast
  with False show ?thesis using app_step_completed_only_by_completion by blast
qed

theorem session_recorded_on_completion_witness:
  "reachable (run init_state depart_kyoto) \<and> enabled (run init_state depart_kyoto) (FinishEarly 0) \<and>
   timerState (app_step (run init_state depart_kyoto) (FinishEarly 0)) = COMPLETED \<and>
   tl (sessions (app_step (run init_state depart_kyoto) (FinishEarly 0))) = sessions (run init_state depart_kyoto)"
proof -
  let ?s = "run init_state depart_kyoto"
  have e: "enabled ?s (FinishEarly 0)" by code_simp
  have c: "timerState (app_step ?s (FinishEarly 0)) = COMPLETED" by (simp add: finishEarly_def)
  from session_recorded_on_completion [OF reachable_depart_kyoto e] depart_kyoto_facts c e reachable_depart_kyoto
  show ?thesis by simp
qed


subsection \<open>Findings and further properties\<close>


text \<open>
  C12. The freestyle modal is only ever open while the freestyle sentinel is selected,
  so the pool of surprise destinations is always the whole hidden list: the filter of
  \<open>confirmFreestyle\<close> that avoids the destination just visited never applies.
\<close>
theorem freestyle_pool_unfiltered:
  assumes "reachable s" and "showFreestyleModal s"
  shows "dest_id (selectedDestination s) = ''freestyle'' \<and>
         freestyle_pool (selectedDestination s) = HIDDEN_DESTINATIONS"
proof -
  have "modal_inv s" using reachable_app_inv [OF assms(1)] by (simp add: app_inv_def)
  with assms(2) have d: "dest_id (selectedDestination s) = ''freestyle''" by (simp add: modal_inv_def)
  then have "\<not> js_starts_with (dest_id (selectedDestination s)) freestyle_prefix"
    by (simp add: js_starts_with_def freestyle_prefix_def)
  with d show ?thesis by (simp add: freestyle_pool_of_non_surprise)
qed

theorem freestyle_pool_unfiltered_witness:
  "reachable (run init_state open_freestyle) \<and> showFreestyleModal (run init_state open_freestyle) \<and>
   freestyle_pool (selectedDestination (run init_state open_freestyle)) = HIDDEN_DESTINATIONS"
proof -
  have r: "reachable (run init_state open_freestyle)" by (rule reachable_run [OF reachable.init])
  have m: "showFreestyleModal (run init_state open_freestyle)" by code_simp
  from freestyle_pool_unfiltered [OF r m] r m show ?thesis by simp
qed

text \<open>
  C13. Consequently two consecutive freestyle journeys can go to the same hidden
  destination: after a surprise trip to Rome, booking another surprise draws Rome again.
\<close>
theorem surprise_destination_repeats:
  "reachable (run init_state depart_one_minute) \<and> reachable (run init_state second_surprise) \<and>
   dest_id (selectedDestination (run init_state depart_one_minute)) = ''freestyle-rome'' \<and>
   dest_id (selectedDestination (run init_state second_surprise)) = ''freestyle-rome'' \<and>
   isBooking (run init_state second_surprise)"
proof -
  have "reachable (run init_state depart_one_minute)" "reachable (run init_state second_surprise)"
    by (rule reachable_run [OF reachable.init])+
  moreover have "dest_id (selectedDestination (run init_state depart_one_minute)) = ''freestyle-rome'' \<and>
     dest_id (selectedDestination (run init_state second_surprise)) = ''freestyle-rome'' \<and>
     isBooking (run init_state second_surprise)"
    by code_simp
  ultimately show ?thesis by blast
qed

text \<open>
  C14. Creating a custom label does not clear the active sub-label: after choosing the
  subject Math for Study and then adding a label Gym, the session is recorded with the
  label Gym, which has neither subjects nor a prompt, and the sub-label Math.
\<close>
theorem sublabel_survives_new_label:
  "reachable (run init_state stale_sublabel_run) \<and>
   map_option label_name (fs_label (hd (sessions (run init_state stale_sublabel_run)))) = Some ''Gym'' \<and>
   map_option subLabels (fs_label (hd (sessions (run init_state stale_sublabel_run)))) = Some None \<and>
   map_option customSubLabelPrompt (fs_label (hd (sessions (run init_state stale_sublabel_run)))) = Some None \<and>
   subLabel (hd (sessions (run init_state stale_sublabel_run))) = Some ''Math''"
proof -
  have "reachable (run init_state stale_sublabel_run)" by (rule reachable_run [OF reachable.init])
  moreover have "map_option label_name (fs_label (hd (sessions (run init_state stale_sublabel_run)))) = Some ''Gym'' \<and>
   map_option subLabels (fs_label (hd (sessions (run init_state stale_sublabel_run)))) = Some None \<and>
   map_option customSubLabelPrompt (fs_label (hd (sessions (run init_state stale_sublabel_run)))) = Some None \<and>
   subLabel (hd (sessions (run init_state stale_sublabel_run))) = Some ''Math''"
    by code_simp
  ultimately show ?thesis by blast
qed

text \<open>
  C15. A background fetch is applied without checking that its destination is still the
  selected one: the answer of the fetch started for Kyoto, arriving after Paris was
  selected, becomes the station shown on the journey to Paris.
\<close>
theorem prefetch_station_stale:
  "reachable (run init_state stale_prefetch_run) \<and>
   timerState (run init_state stale_prefetch_run) = RUNNING \<and>
   dest_name (selectedDestination (run init_state stale_prefetch_run)) = ''Paris'' \<and>
   map_option st_name (currentStation (run init_state stale_prefetch_run)) = Some ''Kyoto Terminal''"
proof -
  have "reachable (run init_state stale_prefetch_run)" by (rule reachable_run [OF reachable.init])
  moreover have "timerState (run init_state stale_prefetch_run) = RUNNING \<and>
   dest_name (selectedDestination (run init_state stale_prefetch_run)) = ''Paris'' \<and>
   map_option st_name (currentStation (run init_state stale_prefetch_run)) = Some ''Kyoto Terminal''"
    by code_simp
  ultimately show ?thesis by blast
qed

text \<open>
  C16. When the service's answer is not valid JSON, the service returns \<open>null\<close> and the
  departure's awaited fetch ends with no station at all; the session runs with
  \<open>currentStation\<close> unset and no fallback station.
\<close>
theorem station_fetch_bad_json:
  "reachable (run init_state bad_json_run) \<and> timerState (run init_state bad_json_run) = RUNNING \<and>
   currentStation (run init_state bad_json_run) = None \<and> \<not> loadingStation (run init_state bad_json_run) \<and>
   pendingStationFetch (run init_state bad_json_run) = [] \<and> pendingPrefetch (run init_state bad_json_run) = []"
proof -
  have "reachable (run init_state bad_json_run)" by (rule reachable_run [OF reachable.init])
  moreover have "timerState (run init_state bad_json_run) = RUNNING \<and>
   currentStation (run init_state bad_json_run) = None \<and> \<not> loadingStation (run init_state bad_json_run) \<and>
   pendingStationFetch (run init_state bad_json_run) = [] \<and> pendingPrefetch (run init_state bad_json_run) = []"
    by code_simp
  ultimately show ?thesis by blast
qed
text \<open>
  C17. In every reachable state the active label is one of the available labels, a
  sub-label is set only together with a label, and a chosen subject belongs to the label's
  subject list.
\<close>
theorem reachable_label_consistency:
  assumes "reachable s"
  shows "(\<forall>l. activeLabel s = Some l \<longrightarrow> l \<in> set (availableLabels s)) \<and>
         (activeSubLabel s \<noteq> None \<longrightarrow> activeLabel s \<noteq> None) \<and>
         (\<forall>l v. activeLabel s = Some l \<longrightarrow> activeSubLabel s = Some v \<longrightarrow> subjects_ok l v)"
  using reachable_app_inv [OF assms] by (simp add: app_inv_def label_inv_def)

theorem reachable_label_consistency_witness:
  "reachable (run init_state [SelectLabel (PRESET_LABELS ! 0), ChooseSubLabel ''Math'']) \<and>
   activeSubLabel (run init_state [SelectLabel (PRESET_LABELS ! 0), ChooseSubLabel ''Math'']) = Some ''Math'' \<and>
   PRESET_LABELS ! 0 \<in> set (availableLabels (run init_state [SelectLabel (PRESET_LABELS ! 0), ChooseSubLabel ''Math'']))"
proof -
  let ?s = "run init_state [SelectLabel (PRESET_LABELS ! 0), ChooseSubLabel ''Math'']"
  have r: "reachable ?s" by (rule reachable_run [OF reachable.init])
  have h: "activeLabel ?s = Some (PRESET_LABELS ! 0) \<and> activeSubLabel ?s = Some ''Math''" by code_simp
  from reachable_label_consistency [OF r] r h show ?thesis by simp
qed

text \<open>
  C18. While a ticket is being booked the timer is idle and its duration is fixed from
  the selected destination: a positive number of minutes times 60, all of it left.
\<close>
theorem booking_duration_from_destination:
  assumes "reachable s" and "isBooking s"
  shows "timerState s = IDLE \<and> 0 < durationMinutes (selectedDestination s) \<and>
         initialDuration s = durationMinutes (selectedDestination s) * 60 \<and> timeLeft s = initialDuration s"
proof -
  from reachable_app_inv [OF assms(1)] have t: "timer_inv s" and m: "modal_inv s"
    by (simp_all add: app_inv_def)
  from m assms(2) have "timerState s = IDLE" "dest_id (selectedDestination s) \<noteq> ''freestyle''"
    by (simp_all add: modal_inv_def)
  with t show ?thesis by (auto simp: timer_inv_def zero_less_mult_iff)
qed

theorem booking_duration_from_destination_witness:
  "reachable (run init_state [SelectLabel (PRESET_LABELS ! 1), DepartClick]) \<and>
   isBooking (run init_state [SelectLabel (PRESET_LABELS ! 1), DepartClick]) \<and>
   initialDuration (run init_state [SelectLabel (PRESET_LABELS ! 1), DepartClick]) =
     durationMinutes (selectedDestination (run init_state [SelectLabel (PRESET_LABELS ! 1), DepartClick])) * 60"
proof -
  let ?s = "run init_state [SelectLabel (PRESET_LABELS ! 1), DepartClick]"
  have r: "reachable ?s" by (rule reachable_run [OF reachable.init])
  have b: "isBooking ?s" by code_simp
  from booking_duration_from_destination [OF r b] r b show ?thesis by simp
qed

text \<open>
  C19. In every reachable state the initial duration is a positive whole number of
  minutes, so the integer quotient \<open>initialDuration div 60\<close> that the model records is
  exactly the JavaScript division \<open>initialDuration / 60\<close>.
\<close>
theorem duration_division_exact:
  assumes "reachable s"
  shows "real_of_int (initialDuration s div 60) = real_of_int (initialDuration s) / 60 \<and>
         0 < initialDuration s div 60"
proof -
  from reachable_app_inv [OF assms] have "0 < initialDuration s" "60 dvd initialDuration s"
    by (simp_all add: app_inv_def timer_inv_def)
  then obtain k where k: "initialDuration s = 60 * k" "0 < k" by (auto elim!: dvdE)
  then show ?thesis by simp
qed

theorem duration_division_exact_witness:
  "reachable init_state \<and> initialDuration init_state div 60 = 25 \<and>
   real_of_int (initialDuration init_state div 60) = real_of_int (initialDuration init_state) / 60"
proof -
  have i: "initialDuration init_state = 1500" by (simp add: init_state_def DESTINATIONS_def)
  from duration_division_exact [OF reachable.init] reachable.init i show ?thesis by simp
qed

text \<open>
  C21. Track navigation stays within the play list, and the previous and next buttons
  undo each other.
\<close>
theorem track_navigation_roundtrip:
  assumes "currentTrackIndex s < length MUSIC_TRACKS"
  shows "currentTrackIndex (prevTrack (nextTrack s)) = currentTrackIndex s \<and>
         currentTrackIndex (nextTrack (prevTrack s)) = currentTrackIndex s \<and>
         currentTrackIndex (nextTrack s) < length MUSIC_TRACKS \<and>
         currentTrackIndex (prevTrack s) < length MUSIC_TRACKS"
proof -
  have "currentTrackIndex s = 0 \<or> currentTrackIndex s = 1 \<or> currentTrackIndex s = 2"
    using assms by (auto simp: MUSIC_TRACKS_def)
  then show ?thesis by (auto simp: nextTrack_def prevTrack_def MUSIC_TRACKS_def)
qed

theorem track_navigation_roundtrip_witness:
  "currentTrackIndex init_state < length MUSIC_TRACKS \<and>
   currentTrackIndex (prevTrack init_state) = 2"
proof -
  have h: "currentTrackIndex init_state < length MUSIC_TRACKS" by (simp add: init_state_def MUSIC_TRACKS_def)
  from track_navigation_roundtrip [OF h] h show ?thesis
    by (simp add: init_state_def prevTrack_def MUSIC_TRACKS_def)
qed

end
