(* ===== verification/Music.thy ===== *)
theory Music
  imports App
begin

text \<open>
  The sound of the component \<open>App\<close> in \<^verbatim>\<open>src/App.tsx\<close> and its motivational tips: the
  one-shot effects of the handlers (\<open>playClick\<close>, \<open>playSfx\<close>, lines 346--361, with the
  URLs of \<open>AUDIO_URLS\<close>, lines 36--40), the background-music element held in
  \<open>musicRef\<close> (created by the mount effect, lines 320--327, switched by the
  \<open>[currentTrackIndex]\<close> effect, lines 330--343, and started or paused by the
  \<open>[timerState, isMusicOn]\<close> effect, lines 364--378), and the tip rotation of lines
  446--456 over \<open>MOTIVATIONAL_TIPS\<close> (lines 252--263).

  The player's state wraps the App's state (\<open>ps_app\<close>) with the audio element, the tip
  and the log of one-shot sounds. A user-interface event is the App's step of theory
  \<open>App\<close>; after it the effects whose dependencies changed run in their order of
  declaration, comparing the state before and after the step (React's dependency check),
  and the sounds the handler plays are appended to the log. The browser's answer to
  \<open>play()\<close> is the parameter \<open>allowed\<close>, fixed for a run (an autoplay policy: music can
  only be switched on by a click, after which browsers allow playback; a refused
  \<open>play()\<close> rejects its promise, which the code catches and logs, and leaves the element
  paused). It flows only into the audio element, never into the App's state, as the
  specification asks of playback failures. \<open>Math.random()\<close> is a real in \<open>[0, 1)\<close>.
  The lemmas: the music plays exactly while a session runs with music on (when the
  browser allows it), always from the current track; every arrival chime stands for one
  recorded session and follows a departure whistle; the tip shown is always a tip of the
  list.
\<close>

subsection \<open>One-shot sounds\<close>

datatype sfx = CLICK | DEPARTURE | ARRIVAL

definition AUDIO_URLS :: "sfx \<Rightarrow> js_string" where
  "AUDIO_URLS x =
     (case x of
        CLICK \<Rightarrow> ''https://assets.mixkit.co/active_storage/sfx/2571/2571-preview.mp3''
      | DEPARTURE \<Rightarrow> ''https://assets.mixkit.co/active_storage/sfx/2737/2737-preview.mp3''
      | ARRIVAL \<Rightarrow> ''https://assets.mixkit.co/active_storage/sfx/1381/1381-preview.mp3'')"

text \<open>A one-shot \<open>new Audio(url)\<close> started at a volume; the promise's rejection is
  caught by both helpers.\<close>

record sfx_play =
  sfx_src :: js_string
  sfx_volume :: real

definition playClick :: sfx_play where
  "playClick = \<lparr>sfx_src = AUDIO_URLS CLICK, sfx_volume = 0.5\<rparr>"

definition playSfx :: "js_string \<Rightarrow> sfx_play" where
  "playSfx url = \<lparr>sfx_src = url, sfx_volume = 0.6\<rparr>"

text \<open>The sounds an event's handler plays, in order: a click for every button (the
  handlers of lines 510--727 and the inline \<open>onClick\<close>s of the modals and the label
  chips), none for a text input, the whistle on boarding and the chime from
  \<open>completeSession\<close>, which the countdown reaches when its decrement leaves no time.\<close>

fun event_sounds :: "app_state \<Rightarrow> event \<Rightarrow> sfx_play list" where
  "event_sounds s (SelectDestination d) = [playClick]"
| "event_sounds s (SelectLabel l) = [playClick]"
| "event_sounds s (DeleteLabel i c) = [playClick]"
| "event_sounds s OpenCreateLabel = [playClick]"
| "event_sounds s (ChooseSubLabel v) = [playClick]"
| "event_sounds s (TypeSubLabel v) = []"
| "event_sounds s (TypeTaskDetail t) = []"
| "event_sounds s DepartClick = [playClick]"
| "event_sounds s (TypeNewLabelName n) = []"
| "event_sounds s (PickNewLabelColor c) = [playClick]"
| "event_sounds s (PickNewLabelIcon k) = [playClick]"
| "event_sounds s (AddCustomLabel now) = [playClick]"
| "event_sounds s CloseCreateLabel = [playClick]"
| "event_sounds s (TypeCustomHours v) = []"
| "event_sounds s (TypeCustomMinutes v) = []"
| "event_sounds s CloseFreestyle = [playClick]"
| "event_sounds s (ConfirmFreestyle r) = [playClick]"
| "event_sounds s (TicketAnimationComplete seatNumber) = [playSfx (AUDIO_URLS DEPARTURE)]"
| "event_sounds s (Tick now) =
     (if timeLeft s - 1 = 0 \<and> timerState s = RUNNING then [playSfx (AUDIO_URLS ARRIVAL)] else [])"
| "event_sounds s Pause = [playClick]"
| "event_sounds s Resume = [playClick]"
| "event_sounds s (FinishEarly now) = [playClick, playSfx (AUDIO_URLS ARRIVAL)]"
| "event_sounds s Abandon = [playClick]"
| "event_sounds s AbandonTimeout = []"
| "event_sounds s ResetTimer = [playClick]"
| "event_sounds s (PrefetchDone i r) = []"
| "event_sounds s (StationFetchDone i r) = []"
| "event_sounds s ToggleMusic = [playClick]"
| "event_sounds s NextTrack = [playClick]"
| "event_sounds s PrevTrack = [playClick]"

subsection \<open>The music element\<close>

text \<open>The observable attributes of an \<open>HTMLAudioElement\<close>.\<close>

record audio_element =
  a_paused :: bool
  a_src :: js_string
  a_loop :: bool
  a_volume :: real

definition new_Audio :: audio_element where
  "new_Audio = \<lparr>a_paused = True, a_src = [], a_loop = False, a_volume = 1\<rparr>"

text \<open>\<open>play()\<close> starts the element when the browser allows it and otherwise leaves it as
  it is; \<open>pause()\<close> stops it; \<open>load()\<close> restarts the resource selection, which sets
  \<open>paused\<close> (the media element load algorithm).\<close>

definition audio_play :: "bool \<Rightarrow> audio_element \<Rightarrow> audio_element" where
  "audio_play allowed a = (if allowed then a\<lparr>a_paused := False\<rparr> else a)"

definition audio_pause :: "audio_element \<Rightarrow> audio_element" where
  "audio_pause a = a\<lparr>a_paused := True\<rparr>"

definition audio_load :: "audio_element \<Rightarrow> audio_element" where
  "audio_load a = a\<lparr>a_paused := True\<rparr>"

text \<open>The mount effect (\<open>[]\<close>): a looping element at volume 0.4 on the first track.\<close>

definition initAudio :: audio_element where
  "initAudio = new_Audio\<lparr>a_loop := True, a_volume := 0.4, a_src := snd (MUSIC_TRACKS ! 0)\<rparr>"

text \<open>The \<open>[currentTrackIndex]\<close> effect. \<open>musicRef.current\<close> is set by the mount effect,
  which runs first, so the \<open>if (musicRef.current)\<close> guards always hold.\<close>

definition trackChangeEffect :: "bool \<Rightarrow> app_state \<Rightarrow> audio_element \<Rightarrow> audio_element" where
  "trackChangeEffect allowed s a =
     (let wasPlaying = (\<not> a_paused a \<or> (timerState s = RUNNING \<and> isMusicOn s));
          a1 = audio_load ((audio_pause a)\<lparr>a_src := snd (MUSIC_TRACKS ! currentTrackIndex s)\<rparr>)
      in if isMusicOn s \<and> wasPlaying then audio_play allowed a1 else a1)"

text \<open>The \<open>[timerState, isMusicOn]\<close> effect.\<close>

definition musicEffect :: "bool \<Rightarrow> app_state \<Rightarrow> audio_element \<Rightarrow> audio_element" where
  "musicEffect allowed s a =
     (if timerState s = RUNNING then (if isMusicOn s then audio_play allowed a else audio_pause a)
      else audio_pause a)"

text \<open>The effects of a commit from the render of \<open>s\<close> to the render of \<open>t\<close>: each runs
  when one of its dependencies changed, in the order of declaration.\<close>

definition commit_effects :: "bool \<Rightarrow> app_state \<Rightarrow> app_state \<Rightarrow> audio_element \<Rightarrow> audio_element" where
  "commit_effects allowed s t a =
     (let a1 = (if currentTrackIndex t \<noteq> currentTrackIndex s then trackChangeEffect allowed t a else a)
      in if timerState t \<noteq> timerState s \<or> isMusicOn t \<noteq> isMusicOn s then musicEffect allowed t a1 else a1)"

text \<open>On mount every effect runs once, in order.\<close>

definition mount_audio :: "bool \<Rightarrow> app_state \<Rightarrow> audio_element" where
  "mount_audio allowed s = musicEffect allowed s (trackChangeEffect allowed s initAudio)"

subsection \<open>Motivational tips\<close>

definition MOTIVATIONAL_TIPS :: "js_string list" where
  "MOTIVATIONAL_TIPS =
     [''Deep Work is a superpower in the 21st century.'',
      ''Focus isn't about saying yes, it's about saying no to good ideas.'',
      ''The train is moving. Don't jump off.'',
      ''Momentum creates motivation, not the other way around.'',
      ''Just one more minute of focus.'',
      ''You are building mental muscle right now.'',
      ''Distraction is the enemy of depth.'',
      ''Keep your eyes on the rails.'',
      ''Flow state is just around the corner.'',
      ''Every mile counts.'']"

text \<open>\<open>Math.floor(Math.random() * MOTIVATIONAL_TIPS.length)\<close> for the random number
  \<open>r\<close>.\<close>

definition tip_index :: "real \<Rightarrow> nat" where
  "tip_index r = nat \<lfloor>r * real (length MOTIVATIONAL_TIPS)\<rfloor>"

subsection \<open>The player\<close>

record player_state =
  ps_app :: app_state
  musicRef :: audio_element
  currentTip :: js_string
  sfx_log :: "sfx_play list"

datatype player_event = UI event | TipInterval real

text \<open>The interval of the \<open>[timerState]\<close> effect exists while \<open>RUNNING\<close>; its callback
  replaces the tip.\<close>

fun player_step :: "bool \<Rightarrow> player_state \<Rightarrow> player_event \<Rightarrow> player_state" where
  "player_step allowed p (UI e) =
     (let s = ps_app p; t = app_step s e
      in p\<lparr>ps_app := t, musicRef := commit_effects allowed s t (musicRef p),
           sfx_log := sfx_log p @ event_sounds s e\<rparr>)"
| "player_step allowed p (TipInterval r) = p\<lparr>currentTip := MOTIVATIONAL_TIPS ! tip_index r\<rparr>"

fun player_enabled :: "player_state \<Rightarrow> player_event \<Rightarrow> bool" where
  "player_enabled p (UI e) = enabled (ps_app p) e"
| "player_enabled p (TipInterval r) = (timerState (ps_app p) = RUNNING \<and> 0 \<le> r \<and> r < 1)"

definition player_init :: "bool \<Rightarrow> player_state" where
  "player_init allowed =
     \<lparr>ps_app = init_state, musicRef = mount_audio allowed init_state,
      currentTip = MOTIVATIONAL_TIPS ! 0, sfx_log = []\<rparr>"

fun player_run :: "bool \<Rightarrow> player_state \<Rightarrow> player_event list \<Rightarrow> player_state" where
  "player_run allowed p [] = p"
| "player_run allowed p (e # es) =
     player_run allowed (if player_enabled p e then player_step allowed p e else p) es"

inductive player_reachable :: "bool \<Rightarrow> player_state \<Rightarrow> bool" for allowed where
  init: "player_reachable allowed (player_init allowed)"
| step: "player_reachable allowed p \<Longrightarrow> player_enabled p e \<Longrightarrow>
         player_reachable allowed (player_step allowed p e)"

text \<open>The element's contract: it plays exactly when the browser allows it and a session
  runs with music on, from the current track, looping at volume 0.4.\<close>

definition music_inv :: "bool \<Rightarrow> app_state \<Rightarrow> audio_element \<Rightarrow> bool" where
  "music_inv allowed s a \<longleftrightarrow>
     (\<not> a_paused a \<longleftrightarrow> allowed \<and> timerState s = RUNNING \<and> isMusicOn s) \<and>
     a_src a = snd (MUSIC_TRACKS ! currentTrackIndex s) \<and> a_loop a \<and> a_volume a = 0.4"

subsection \<open>Lemmas\<close>

lemmas audio_defs = audio_play_def audio_pause_def audio_load_def

lemma music_inv_musicEffect: "music_inv allowed s a \<Longrightarrow> music_inv allowed s (musicEffect allowed s a)"
  by (auto simp: music_inv_def musicEffect_def audio_defs)

lemma music_inv_trackChangeEffect:
  assumes "music_inv allowed s a" and "timerState t = timerState s" and "isMusicOn t = isMusicOn s"
  shows "music_inv allowed t (trackChangeEffect allowed t a)"
  using assms by (auto simp: music_inv_def trackChangeEffect_def audio_defs Let_def)

lemma music_inv_musicEffect_any:
  "a_src a = snd (MUSIC_TRACKS ! currentTrackIndex t) \<Longrightarrow> a_loop a \<Longrightarrow> a_volume a = 0.4 \<Longrightarrow>
   (\<not> a_paused a \<longrightarrow> allowed) \<Longrightarrow> music_inv allowed t (musicEffect allowed t a)"
  by (auto simp: music_inv_def musicEffect_def audio_defs)

lemma trackChangeEffect_fields:
  "a_src (trackChangeEffect allowed t a) = snd (MUSIC_TRACKS ! currentTrackIndex t) \<and>
   a_loop (trackChangeEffect allowed t a) = a_loop a \<and> a_volume (trackChangeEffect allowed t a) = a_volume a \<and>
   (\<not> a_paused (trackChangeEffect allowed t a) \<longrightarrow> allowed)"
  by (simp add: trackChangeEffect_def audio_defs Let_def)

text \<open>The effects keep the element's contract across any commit: the proof needs no
  knowledge of the event, only of which dependencies changed.\<close>

lemma music_inv_commit:
  assumes inv: "music_inv allowed s a"
  shows "music_inv allowed t (commit_effects allowed s t a)"
proof (cases "timerState t \<noteq> timerState s \<or> isMusicOn t \<noteq> isMusicOn s")
  case True
  have l: "a_loop a" and v: "a_volume a = 0.4" and p: "\<not> a_paused a \<longrightarrow> allowed"
    using inv by (simp_all add: music_inv_def)
  show ?thesis
  proof (cases "currentTrackIndex t = currentTrackIndex s")
    case same: True
    have "music_inv allowed t (musicEffect allowed t a)"
      using inv same l v p by (intro music_inv_musicEffect_any) (simp_all add: music_inv_def)
    with True same show ?thesis unfolding commit_effects_def Let_def by simp
  next
    case False
    have "music_inv allowed t (musicEffect allowed t (trackChangeEffect allowed t a))"
      using trackChangeEffect_fields [of allowed t a] l v by (intro music_inv_musicEffect_any) auto
    with True False show ?thesis unfolding commit_effects_def Let_def by simp
  qed
next
  case False
  then have ts: "timerState t = timerState s" and ms: "isMusicOn t = isMusicOn s" by simp_all
  show ?thesis
  proof (cases "currentTrackIndex t = currentTrackIndex s")
    case True
    with inv ts ms have "music_inv allowed t a" by (simp add: music_inv_def)
    with True False show ?thesis unfolding commit_effects_def Let_def by simp
  next
    case changed: False
    from music_inv_trackChangeEffect [OF inv ts ms] changed False show ?thesis
      unfolding commit_effects_def Let_def by simp
  qed
qed

lemma music_inv_mount: "music_inv allowed s (mount_audio allowed s)"
proof -
  have "a_loop initAudio" "a_volume initAudio = 0.4" by (simp_all add: initAudio_def new_Audio_def)
  with trackChangeEffect_fields [of allowed s initAudio] show ?thesis
    unfolding mount_audio_def by (intro music_inv_musicEffect_any) auto
qed

lemma currentTrackIndex_step:
  "currentTrackIndex s < length MUSIC_TRACKS \<Longrightarrow> currentTrackIndex (app_step s e) < length MUSIC_TRACKS"
  by (cases e) (simp_all add: handler_defs Let_def MUSIC_TRACKS_def nat_less_iff
                split: option.splits sum.splits depart_action.splits)

lemma player_reachable_app: "player_reachable allowed p \<Longrightarrow> reachable (ps_app p)"
proof (induction rule: player_reachable.induct)
  case init
  then show ?case by (simp add: player_init_def reachable.init)
next
  case (step p e)
  then show ?case by (cases e) (simp_all add: Let_def reachable.step)
qed

lemma player_reachable_run: "player_reachable allowed p \<Longrightarrow> player_reachable allowed (player_run allowed p es)"
  by (induction es arbitrary: p) (auto intro: player_reachable.step)

lemma sfx_distinct [simp]:
  "playClick \<noteq> playSfx (AUDIO_URLS ARRIVAL)" "playClick \<noteq> playSfx (AUDIO_URLS DEPARTURE)"
  "playSfx (AUDIO_URLS DEPARTURE) \<noteq> playSfx (AUDIO_URLS ARRIVAL)"
  "playSfx (AUDIO_URLS ARRIVAL) \<noteq> playSfx (AUDIO_URLS DEPARTURE)"
  by (simp_all add: playClick_def playSfx_def AUDIO_URLS_def)

lemma player_music_inv:
  "player_reachable allowed p \<Longrightarrow>
   music_inv allowed (ps_app p) (musicRef p) \<and> currentTrackIndex (ps_app p) < length MUSIC_TRACKS"
proof (induction rule: player_reachable.induct)
  case init
  then show ?case by (simp add: player_init_def music_inv_mount init_state_def MUSIC_TRACKS_def)
next
  case (step p e)
  then show ?case by (cases e) (simp_all add: Let_def music_inv_commit currentTrackIndex_step)
qed

text \<open>Each recorded session has its chime: only a completion adds a session, and only a
  completion plays the arrival sound.\<close>

lemma arrivals_step:
  "length (sessions (app_step s e)) =
   length (sessions s) + count_list (event_sounds s e) (playSfx (AUDIO_URLS ARRIVAL))"
proof (cases "\<exists>now. e = Tick now \<or> e = FinishEarly now")
  case True
  then obtain now where "e = Tick now \<or> e = FinishEarly now" by blast
  then show ?thesis by (auto simp: timer_tick_def finishEarly_def Let_def)
next
  case False
  then have "sessions (app_step s e) = sessions s" by (intro app_step_sessions_frame) blast
  with False show ?thesis by (cases e) simp_all
qed

text \<open>A session becomes active only by boarding, which whistles, and stops being
  active with a chime or without a sound (abandoned).\<close>

lemma departures_step:
  assumes "modal_inv s" and "enabled s e"
  shows "count_list (event_sounds s e) (playSfx (AUDIO_URLS ARRIVAL)) +
           (if timerState (app_step s e) = RUNNING \<or> timerState (app_step s e) = PAUSED then 1 else 0)
         \<le> (if timerState s = RUNNING \<or> timerState s = PAUSED then 1 else 0) +
           count_list (event_sounds s e) (playSfx (AUDIO_URLS DEPARTURE))"
proof (cases "timer_event e")
  case False
  with app_step_timer_frame [OF False] show ?thesis by (cases e) simp_all
next
  case True
  with assms show ?thesis
    by (cases e) (auto simp: modal_inv_def handleSelectDestination_def confirmFreestyle_def
        selection_effect_def onTicketAnimationComplete_def timer_tick_def pauseSession_def
        resumeSession_def finishEarly_def abandonSession_def resetTimer_def Let_def
        split: option.splits sum.splits)
qed

lemma tip_index_bound: "0 \<le> r \<Longrightarrow> r < 1 \<Longrightarrow> tip_index r < length MOTIVATIONAL_TIPS"
proof -
  assume "0 \<le> r" "r < 1"
  then have "\<lfloor>r * 10\<rfloor> < 10" "0 \<le> \<lfloor>r * 10\<rfloor>" by (simp_all add: floor_less_iff)
  then show ?thesis by (simp add: tip_index_def MOTIVATIONAL_TIPS_def nat_less_iff)
qed

lemma tip_index_of_nat: "i < length MOTIVATIONAL_TIPS \<Longrightarrow> tip_index (real i / 10) = i"
  by (simp add: tip_index_def MOTIVATIONAL_TIPS_def)

subsection \<open>Properties\<close>

text \<open>
  C38. The background music follows the session: in every reachable state the music
  element is playing exactly when the browser allows playback, a session is running and
  music is switched on; it always holds the current track's URL (the track index staying
  within the play list), loops and plays at volume 0.4. With playback refused it never
  plays.
\<close>

theorem music_follows_session:
  assumes "player_reachable allowed p"
  shows "(\<not> a_paused (musicRef p) \<longleftrightarrow>
            allowed \<and> timerState (ps_app p) = RUNNING \<and> isMusicOn (ps_app p)) \<and>
         currentTrackIndex (ps_app p) < length MUSIC_TRACKS \<and>
         a_src (musicRef p) = snd (MUSIC_TRACKS ! currentTrackIndex (ps_app p)) \<and>
         a_loop (musicRef p) \<and> a_volume (musicRef p) = 0.4"
  using player_music_inv [OF assms] by (simp add: music_inv_def)

theorem music_follows_session_witness:
  "\<not> a_paused (musicRef (player_run True (player_init True) (UI ToggleMusic # map UI depart_kyoto))) \<and>
   a_src (musicRef (player_run True (player_init True) (UI ToggleMusic # map UI depart_kyoto))) =
     ''https://cdn.pixabay.com/audio/2022/05/27/audio_1808fbf07a.mp3''"
proof -
  let ?p = "player_run True (player_init True) (UI ToggleMusic # map UI depart_kyoto)"
  have r: "player_reachable True ?p" by (rule player_reachable_run [OF player_reachable.init])
  have s: "timerState (ps_app ?p) = RUNNING \<and> isMusicOn (ps_app ?p) \<and> currentTrackIndex (ps_app ?p) = 0"
    by code_simp
  from music_follows_session [OF r] s show ?thesis by (simp del: player_run.simps add: MUSIC_TRACKS_def)
qed

text \<open>
  C39. The arrival chime announces the recorded sessions: in every reachable state the
  chimes played so far are exactly as many as the sessions in the history, and the chimes
  plus the session still running or paused are at most the departure whistles played:
  every arrival follows its own departure.
\<close>

theorem arrival_chime_per_session:
  assumes "player_reachable allowed p"
  shows "count_list (sfx_log p) (playSfx (AUDIO_URLS ARRIVAL)) = length (sessions (ps_app p)) \<and>
         count_list (sfx_log p) (playSfx (AUDIO_URLS ARRIVAL)) +
           (if timerState (ps_app p) = RUNNING \<or> timerState (ps_app p) = PAUSED then 1 else 0)
         \<le> count_list (sfx_log p) (playSfx (AUDIO_URLS DEPARTURE))"
  using assms
proof (induction rule: player_reachable.induct)
  case init
  then show ?case by (simp add: player_init_def init_state_def)
next
  case (step p e)
  then show ?case
  proof (cases e)
    case (UI ev)
    have "modal_inv (ps_app p)" using player_reachable_app [OF step.hyps(1)] reachable_app_inv
      by (simp add: app_inv_def)
    with step UI have "enabled (ps_app p) ev" "modal_inv (ps_app p)" by simp_all
    from departures_step [OF this(2,1)] arrivals_step [of "ps_app p" ev] step.IH UI show ?thesis
      by (simp add: Let_def)
  qed simp
qed

theorem arrival_chime_per_session_witness:
  "count_list (sfx_log (player_run True (player_init True) (map UI (depart_kyoto @ [FinishEarly 5]))))
     (playSfx (AUDIO_URLS ARRIVAL)) = 1 \<and>
   count_list (sfx_log (player_run True (player_init True) (map UI (depart_kyoto @ [FinishEarly 5]))))
     (playSfx (AUDIO_URLS DEPARTURE)) = 1"
proof -
  let ?p = "player_run True (player_init True) (map UI (depart_kyoto @ [FinishEarly 5]))"
  have r: "player_reachable True ?p" by (rule player_reachable_run [OF player_reachable.init])
  have l: "length (sessions (ps_app ?p)) = 1 \<and> timerState (ps_app ?p) = COMPLETED" by code_simp
  have d: "count_list (sfx_log ?p) (playSfx (AUDIO_URLS DEPARTURE)) = 1" by code_simp
  from arrival_chime_per_session [OF r] l d show ?thesis by (simp del: player_run.simps)
qed

text \<open>
  C40. The tip shown is always one of the motivational tips: the index
  \<open>Math.floor(Math.random() * MOTIVATIONAL_TIPS.length)\<close> stays within the list for every
  random number in \<open>[0, 1)\<close>; and while a session runs, the next rotation can show any
  of the tips.
\<close>

theorem tip_always_listed:
  assumes "player_reachable allowed p"
  shows "currentTip p \<in> set MOTIVATIONAL_TIPS \<and>
         (timerState (ps_app p) = RUNNING \<longrightarrow>
            (\<forall>i < length MOTIVATIONAL_TIPS. \<exists>r. player_enabled p (TipInterval r) \<and>
               currentTip (player_step allowed p (TipInterval r)) = MOTIVATIONAL_TIPS ! i))"
proof
  show "currentTip p \<in> set MOTIVATIONAL_TIPS"
    using assms
  proof (induction rule: player_reachable.induct)
    case init
    then show ?case by (simp add: player_init_def MOTIVATIONAL_TIPS_def)
  next
    case (step p e)
    then show ?case by (cases e) (simp_all add: Let_def tip_index_bound)
  qed
next
  show "timerState (ps_app p) = RUNNING \<longrightarrow>
          (\<forall>i < length MOTIVATIONAL_TIPS. \<exists>r. player_enabled p (TipInterval r) \<and>
             currentTip (player_step allowed p (TipInterval r)) = MOTIVATIONAL_TIPS ! i)"
  proof (intro impI allI)
    fix i
    assume run: "timerState (ps_app p) = RUNNING" and i: "i < length MOTIVATIONAL_TIPS"
    then have "player_enabled p (TipInterval (real i / 10))" by (simp add: MOTIVATIONAL_TIPS_def)
    moreover have "currentTip (player_step allowed p (TipInterval (real i / 10))) = MOTIVATIONAL_TIPS ! i"
      using tip_index_of_nat [OF i] by simp
    ultimately show "\<exists>r. player_enabled p (TipInterval r) \<and>
                      currentTip (player_step allowed p (TipInterval r)) = MOTIVATIONAL_TIPS ! i"
      by blast
  qed
qed

theorem tip_always_listed_witness:
  "currentTip (player_run True (player_init True) (map UI depart_kyoto @ [TipInterval (3 / 4)])) =
     ''Keep your eyes on the rails.'' \<and>
   currentTip (player_run True (player_init True) (map UI depart_kyoto)) \<in> set MOTIVATIONAL_TIPS"
proof -
  let ?p = "player_run True (player_init True) (map UI depart_kyoto)"
  have r: "player_reachable True ?p" by (rule player_reachable_run [OF player_reachable.init])
  have "currentTip (player_run True (player_init True) (map UI depart_kyoto @ [TipInterval (3 / 4)])) =
     ''Keep your eyes on the rails.''" by code_simp
  with tip_always_listed [OF r] show ?thesis by (simp del: player_run.simps)
qed

end
