(* ===== verification/Display.thy ===== *)
theory Display
  imports Labels
begin

text \<open>
  The presentation helpers of the component \<open>App\<close> in \<^verbatim>\<open>src/App.tsx\<close>: \<open>formatTime\<close>
  (the clock face, lines 459--468), \<open>formatDurationDisplay\<close> (the label of a
  destination card, lines 471--477), the width of the progress bar (line 381), the
  classes of a label chip (\<open>getLabelColorClasses\<close>), the icon of a label
  (\<open>LabelIcon\<close> over \<open>ICON_MAP\<close>) and the station panel with its source links.
  A render is the record of the choices the markup makes; the CSS and the icon
  components are named, not drawn.
  JavaScript numbers are modelled by \<open>int\<close> where the code only ever passes integers
  (\<open>timeLeft\<close>, \<open>initialDuration\<close>, \<open>durationMinutes\<close>), \<open>%\<close> by the truncated
  remainder \<open>js_rem\<close> and \<open>Math.floor\<close> of a quotient of integers by \<open>div\<close>; the
  progress is a \<open>real\<close>. \<open>toFixed(1)\<close> is the exact decimal rounding of the quotient
  \<open>minutes / 60\<close>, ties upward as the standard prescribes for an exactly represented
  tie; the lemma \<open>catalog_toFixed_ties_exact\<close> of the root theory shows that every tie among the durations shown is
  a binary fraction, so no floating-point rounding of the quotient intervenes there.
  The lemmas: \<open>formatTime\<close> prints only digits and colons, five characters under an
  hour, and reading its fields back gives the number of seconds (a round trip); the
  colour table of \<open>getLabelColorClasses\<close> agrees with its template for every colour;
  the icon keys of the label form are those of \<open>ICON_MAP\<close>; every source link has a
  title.
\<close>

text \<open>\<open>n.toString()\<close> of an integer.\<close>

definition int_str :: "int \<Rightarrow> js_string" where
  "int_str i = (if i < 0 then CHR ''-'' # nat_str (nat (- i)) else nat_str (nat i))"

text \<open>\<open>a % b\<close> for \<open>b > 0\<close>: the remainder takes the sign of the dividend.\<close>

definition js_rem :: "int \<Rightarrow> int \<Rightarrow> int" where
  "js_rem a b = (if a < 0 then - ((- a) mod b) else a mod b)"

definition formatTime :: "int \<Rightarrow> js_string" where
  "formatTime seconds =
     (let h = seconds div 3600;
          m = js_rem seconds 3600 div 60;
          s = js_rem seconds 60
      in if h > 0 then int_str h @ '':'' @ pad2 (int_str m) @ '':'' @ pad2 (int_str s)
         else pad2 (int_str m) @ '':'' @ pad2 (int_str s))"

text \<open>\<open>hours.toFixed(1).replace(/\.0$/, '')\<close> for \<open>hours = minutes / 60\<close>, through the
  number of tenths \<open>round(minutes / 6)\<close>.\<close>

definition toFixed1_trim :: "nat \<Rightarrow> js_string" where
  "toFixed1_trim tenths =
     (if tenths mod 10 = 0 then nat_str (tenths div 10)
      else nat_str (tenths div 10) @ ''.'' @ [digit_char (tenths mod 10)])"

definition formatDurationDisplay :: "nat \<Rightarrow> js_string" where
  "formatDurationDisplay minutes =
     (if 60 dvd minutes then nat_str (minutes div 60) @ ''h''
      else toFixed1_trim ((minutes + 3) div 6) @ ''h'')"

text \<open>\<open>Math.max(0, Math.min(100, ((initialDuration - timeLeft) / initialDuration) * 100))\<close>.\<close>

definition progress :: "int \<Rightarrow> int \<Rightarrow> real" where
  "progress initialDuration timeLeft =
     max 0 (min 100 ((real_of_int (initialDuration - timeLeft) / real_of_int initialDuration) * 100))"

text \<open>Reading a clock face back: the fields between the colons, as numbers.\<close>

fun split_colon :: "js_string \<Rightarrow> js_string list" where
  "split_colon [] = [[]]"
| "split_colon (c # cs) =
     (if c = CHR '':'' then [] # split_colon cs
      else (case split_colon cs of f # fs \<Rightarrow> (c # f) # fs | [] \<Rightarrow> [[c]]))"

definition parse_time :: "js_string \<Rightarrow> int option" where
  "parse_time str =
     (case split_colon str of
        [m, s] \<Rightarrow> Some (60 * int (digits_val m) + int (digits_val s))
      | [h, m, s] \<Rightarrow> Some (3600 * int (digits_val h) + 60 * int (digits_val m) + int (digits_val s))
      | _ \<Rightarrow> None)"

text \<open>The characters \<open>0\<close> to \<open>9\<close>.\<close>

definition is_digit :: "char \<Rightarrow> bool" where
  "is_digit c \<longleftrightarrow> 48 \<le> (of_char c :: nat) \<and> (of_char c :: nat) < 58"

text \<open>\<open>getLabelColorClasses\<close> (lines 479--508): the classes of a label chip, looked up in
  a table of seventeen colours, and built from the template literal for a colour the
  table lacks (or maps to the empty string).\<close>

definition label_class_template :: "js_string \<Rightarrow> bool \<Rightarrow> js_string" where
  "label_class_template labelColor isSelected =
     (if isSelected then ''bg-'' @ labelColor @ ''-600 text-white border-'' @ labelColor @ ''-400''
      else ''bg-'' @ labelColor @ ''-900/40 text-'' @ labelColor @ ''-200 border-'' @ labelColor @ ''-800/50 hover:bg-'' @
           labelColor @ ''-900/60'')"

definition label_color_map :: "bool \<Rightarrow> (js_string \<times> js_string) list" where
  "label_color_map isSelected =
     [(''indigo'', if isSelected then ''bg-indigo-600 text-white border-indigo-400''
         else ''bg-indigo-900/40 text-indigo-200 border-indigo-800/50 hover:bg-indigo-900/60''),
      (''blue'', if isSelected then ''bg-blue-600 text-white border-blue-400''
         else ''bg-blue-900/40 text-blue-200 border-blue-800/50 hover:bg-blue-900/60''),
      (''yellow'', if isSelected then ''bg-yellow-600 text-white border-yellow-400''
         else ''bg-yellow-900/40 text-yellow-200 border-yellow-800/50 hover:bg-yellow-900/60''),
      (''emerald'', if isSelected then ''bg-emerald-600 text-white border-emerald-400''
         else ''bg-emerald-900/40 text-emerald-200 border-emerald-800/50 hover:bg-emerald-900/60''),
      (''pink'', if isSelected then ''bg-pink-600 text-white border-pink-400''
         else ''bg-pink-900/40 text-pink-200 border-pink-800/50 hover:bg-pink-900/60''),
      (''fuchsia'', if isSelected then ''bg-fuchsia-600 text-white border-fuchsia-400''
         else ''bg-fuchsia-900/40 text-fuchsia-200 border-fuchsia-800/50 hover:bg-fuchsia-900/60''),
      (''orange'', if isSelected then ''bg-orange-600 text-white border-orange-400''
         else ''bg-orange-900/40 text-orange-200 border-orange-800/50 hover:bg-orange-900/60''),
      (''cyan'', if isSelected then ''bg-cyan-600 text-white border-cyan-400''
         else ''bg-cyan-900/40 text-cyan-200 border-cyan-800/50 hover:bg-cyan-900/60''),
      (''red'', if isSelected then ''bg-red-600 text-white border-red-400''
         else ''bg-red-900/40 text-red-200 border-red-800/50 hover:bg-red-900/60''),
      (''amber'', if isSelected then ''bg-amber-600 text-white border-amber-400''
         else ''bg-amber-900/40 text-amber-200 border-amber-800/50 hover:bg-amber-900/60''),
      (''lime'', if isSelected then ''bg-lime-600 text-white border-lime-400''
         else ''bg-lime-900/40 text-lime-200 border-lime-800/50 hover:bg-lime-900/60''),
      (''teal'', if isSelected then ''bg-teal-600 text-white border-teal-400''
         else ''bg-teal-900/40 text-teal-200 border-teal-800/50 hover:bg-teal-900/60''),
      (''sky'', if isSelected then ''bg-sky-600 text-white border-sky-400''
         else ''bg-sky-900/40 text-sky-200 border-sky-800/50 hover:bg-sky-900/60''),
      (''violet'', if isSelected then ''bg-violet-600 text-white border-violet-400''
         else ''bg-violet-900/40 text-violet-200 border-violet-800/50 hover:bg-violet-900/60''),
      (''purple'', if isSelected then ''bg-purple-600 text-white border-purple-400''
         else ''bg-purple-900/40 text-purple-200 border-purple-800/50 hover:bg-purple-900/60''),
      (''rose'', if isSelected then ''bg-rose-600 text-white border-rose-400''
         else ''bg-rose-900/40 text-rose-200 border-rose-800/50 hover:bg-rose-900/60''),
      (''green'', if isSelected then ''bg-green-600 text-white border-green-400''
         else ''bg-green-900/40 text-green-200 border-green-800/50 hover:bg-green-900/60'')]"

definition getLabelColorClasses :: "js_string \<Rightarrow> bool \<Rightarrow> js_string" where
  "getLabelColorClasses labelColor isSelected =
     (case map_of (label_color_map isSelected) labelColor of
        Some c \<Rightarrow> if js_truthy c then c else label_class_template labelColor isSelected
      | None \<Rightarrow> label_class_template labelColor isSelected)"

text \<open>The source links under the station (lines 952--966): one anchor per grounding
  chunk, its \<open>href\<close> \<open>chunk.web?.uri || chunk.maps?.uri\<close> (\<open>None\<close> for
  \<open>undefined\<close>), a map pin for a maps chunk and its text
  \<open>chunk.web?.title || chunk.maps?.placeName || "Google Maps"\<close>.\<close>

datatype link_icon = MapPinIcon | ExternalLinkIcon

definition chunk_href :: "grounding_chunk \<Rightarrow> js_string option" where
  "chunk_href chunk =
     (let w = map_option fst (web chunk); m = map_option fst (maps chunk)
      in if \<not> js_falsy_opt w then w else m)"

definition chunk_icon :: "grounding_chunk \<Rightarrow> link_icon" where
  "chunk_icon chunk = (if maps chunk \<noteq> None then MapPinIcon else ExternalLinkIcon)"

definition chunk_title :: "grounding_chunk \<Rightarrow> js_string" where
  "chunk_title chunk =
     (let w = map_option snd (web chunk); p = Option.bind (maps chunk) (\<lambda>(u, t, pl). pl)
      in if \<not> js_falsy_opt w then the w else if \<not> js_falsy_opt p then the p else ''Google Maps'')"

text \<open>The station panel (lines 939--976): the announcement while the station loads,
  otherwise the station with its source links (shown when there are any), otherwise the
  prompt to choose a destination.\<close>

datatype station_panel =
    Announcing
  | StationInfo js_string js_string "(js_string option \<times> link_icon \<times> js_string) list"
  | SelectPrompt

definition render_station_panel :: "bool \<Rightarrow> station option \<Rightarrow> grounding_chunk list \<Rightarrow> station_panel" where
  "render_station_panel loadingStation currentStation groundingChunks =
     (if loadingStation then Announcing
      else case currentStation of
             Some st \<Rightarrow> StationInfo (st_name st) (st_description st)
                        (if length groundingChunks > 0
                         then map (\<lambda>chunk. (chunk_href chunk, chunk_icon chunk, chunk_title chunk)) groundingChunks
                         else [])
           | None \<Rightarrow> SelectPrompt)"

text \<open>\<open>ICON_MAP\<close> (lines 10--28) with each icon component by its name, and
  \<open>LabelIcon\<close> (lines 730--733): the component of the label's icon key, \<open>Tag\<close> when the
  key is missing, empty or unknown.\<close>

definition ICON_MAP :: "(js_string \<times> js_string) list" where
  "ICON_MAP = [(''book'', ''BookOpen''), (''briefcase'', ''Briefcase''), (''code'', ''Code''), (''coffee'', ''Coffee''), (''pen'', ''PenTool''), (''brain'', ''Brain''), (''music'', ''Music''), (''dumbbell'', ''Dumbbell''), (''gamepad'', ''Gamepad2''), (''cart'', ''ShoppingCart''), (''camera'', ''Camera''), (''calc'', ''Calculator''), (''heart'', ''Heart''), (''globe'', ''Globe''), (''zap'', ''Zap''), (''tag'', ''Tag''), (''palette'', ''Palette'')]"

definition LabelIcon :: "js_string option \<Rightarrow> js_string" where
  "LabelIcon name =
     (case name of
        Some n \<Rightarrow> if js_truthy n then (case map_of ICON_MAP n of Some c \<Rightarrow> c | None \<Rightarrow> ''Tag'') else ''Tag''
      | None \<Rightarrow> ''Tag'')"

subsection \<open>Lemmas\<close>


lemma label_color_map_template:
  "list_all (\<lambda>(c, v). v = label_class_template c isSelected \<and> js_truthy v) (label_color_map isSelected)"
proof -
  have "list_all (\<lambda>(c, v). v = label_class_template c True \<and> js_truthy v) (label_color_map True)"
    by code_simp
  moreover have "list_all (\<lambda>(c, v). v = label_class_template c False \<and> js_truthy v) (label_color_map False)"
    by code_simp
  ultimately show ?thesis by (cases isSelected) simp_all
qed

text \<open>The table of \<open>getLabelColorClasses\<close> only spells out what the template builds
  (so that the CSS generator sees the class names): the function is the template for
  every colour.\<close>

lemma getLabelColorClasses_template: "getLabelColorClasses labelColor isSelected = label_class_template labelColor isSelected"
proof (cases "map_of (label_color_map isSelected) labelColor")
  case (Some v)
  then have "(labelColor, v) \<in> set (label_color_map isSelected)" by (rule map_of_SomeD)
  with label_color_map_template [of isSelected] have "v = label_class_template labelColor isSelected"
    by (auto simp: list_all_iff)
  with Some show ?thesis by (simp add: getLabelColorClasses_def)
qed (simp add: getLabelColorClasses_def)

lemma chunk_title_nonempty: "chunk_title chunk \<noteq> []"
  by (auto simp: chunk_title_def Let_def js_falsy_opt_def split: option.splits)

lemma render_station_panel_links:
  "render_station_panel False (Some st) chunks =
     StationInfo (st_name st) (st_description st) (map (\<lambda>c. (chunk_href c, chunk_icon c, chunk_title c)) chunks)"
  by (cases chunks) (simp_all add: render_station_panel_def)

text \<open>The icon keys offered by the label form are exactly the keys of \<open>ICON_MAP\<close>, so
  a label created there is drawn with its own icon, and only the key \<open>tag\<close> draws
  \<open>Tag\<close>.\<close>

lemma ICON_MAP_keys: "map fst ICON_MAP = ICON_KEYS"
  by (simp add: ICON_MAP_def ICON_KEYS_def)

lemma LabelIcon_own_icon:
  "list_all (\<lambda>k. LabelIcon (Some k) = the (map_of ICON_MAP k) \<and> (LabelIcon (Some k) = ''Tag'' \<longleftrightarrow> k = ''tag''))
     ICON_KEYS"
  by code_simp

lemma is_digit_digit_char: "d < 10 \<Longrightarrow> is_digit (digit_char d)"
  by (simp add: is_digit_def of_char_digit_char)

lemma nat_str_digits: "c \<in> set (nat_str n) \<Longrightarrow> is_digit c"
proof (induction n rule: nat_str.induct)
  case (1 n)
  then show ?case by (subst (asm) nat_str.simps) (auto simp: is_digit_digit_char split: if_splits)
qed

lemma pad2_digits: "(\<And>c. c \<in> set s \<Longrightarrow> is_digit c) \<Longrightarrow> c \<in> set (pad2 s) \<Longrightarrow> is_digit c"
  by (auto simp: pad2_def is_digit_def)

lemma colon_not_digit: "\<not> is_digit (CHR '':'')"
  by (simp add: is_digit_def)

lemma split_colon_no_colon: "CHR '':'' \<notin> set a \<Longrightarrow> split_colon a = [a]"
  by (induction a) auto

lemma split_colon_append: "CHR '':'' \<notin> set a \<Longrightarrow> split_colon (a @ CHR '':'' # b) = a # split_colon b"
  by (induction a) (auto split: list.splits)

lemma digits_val_zeros: "digits_val (replicate k (CHR ''0'') @ s) = digits_val s"
proof -
  have "foldl (\<lambda>acc c. 10 * acc + (of_char c - 48)) (0::nat) (replicate k (CHR ''0'')) = 0"
    by (induction k) simp_all
  then show ?thesis by (simp add: digits_val_def)
qed

lemma digits_val_pad2 [simp]: "digits_val (pad2 s) = digits_val s"
  by (simp add: pad2_def digits_val_zeros)

lemma length_nat_str_small: "n < 100 \<Longrightarrow> length (nat_str n) \<le> 2"
  by (subst nat_str.simps) (auto simp: nat_str.simps [of "n div 10"])

lemma int_str_nonneg [simp]: "0 \<le> i \<Longrightarrow> int_str i = nat_str (nat i)"
  by (simp add: int_str_def)

lemma js_rem_nonneg [simp]: "0 \<le> a \<Longrightarrow> js_rem a b = a mod b"
  by (simp add: js_rem_def)

lemma no_colon_nat_str: "CHR '':'' \<notin> set (nat_str n)"
  using nat_str_digits colon_not_digit by blast

lemma no_colon_pad2: "CHR '':'' \<notin> set (pad2 (nat_str n))"
  using pad2_digits [of "nat_str n" "CHR '':''"] nat_str_digits colon_not_digit by blast


lemma formatTime_nonneg:
  assumes "0 \<le> n"
  shows "formatTime n =
           (if 0 < n div 3600
            then nat_str (nat (n div 3600)) @ CHR '':'' # pad2 (nat_str (nat (n mod 3600 div 60))) @
                 CHR '':'' # pad2 (nat_str (nat (n mod 60)))
            else pad2 (nat_str (nat (n mod 3600 div 60))) @ CHR '':'' # pad2 (nat_str (nat (n mod 60))))"
  using assms by (simp add: formatTime_def Let_def)

lemma hms_decompose: "3600 * (n div 3600) + 60 * (n mod 3600 div 60) + n mod 60 = (n :: int)"
proof -
  have "n mod 3600 mod 60 = n mod 60" by (simp add: mod_mod_cancel)
  then have "60 * (n mod 3600 div 60) + n mod 60 = n mod 3600" by (metis div_mult_mod_eq mult.commute)
  then show ?thesis by (metis add.assoc div_mult_mod_eq mult.commute)
qed

text \<open>
  C31. The clock face can be read back: for every non-negative number of seconds,
  splitting \<open>formatTime\<close>'s text at the colons and reading the fields as hours,
  minutes and seconds gives the number back.
\<close>

theorem formatTime_roundtrip:
  assumes "0 \<le> n"
  shows "parse_time (formatTime n) = Some n"
proof -
  have nn: "0 \<le> n div 3600" "0 \<le> n mod 3600 div 60" "0 \<le> n mod 60" using assms by simp_all
  show ?thesis
  proof (cases "0 < n div 3600")
    case True
    then show ?thesis using nn hms_decompose [of n]
      by (simp add: formatTime_nonneg [OF assms] parse_time_def split_colon_append no_colon_nat_str
                    no_colon_pad2 split_colon_no_colon)
  next
    case False
    then have "n div 3600 = 0" using nn by simp
    then show ?thesis using False nn hms_decompose [of n]
      by (simp add: formatTime_nonneg [OF assms] parse_time_def split_colon_append no_colon_pad2
                    split_colon_no_colon)
  qed
qed

theorem formatTime_roundtrip_witness:
  "formatTime 3725 = ''1:02:05'' \<and> parse_time (formatTime 3725) = Some 3725"
proof -
  have "formatTime 3725 = ''1:02:05''" by code_simp
  with formatTime_roundtrip [of 3725] show ?thesis by simp
qed

text \<open>
  C32. The clock face is well formed: for a non-negative number of seconds it consists of
  digits and colons only, and under an hour it is exactly five characters, \<open>MM:SS\<close>.
\<close>

theorem formatTime_shape:
  assumes "0 \<le> n"
  shows "list_all (\<lambda>c. is_digit c \<or> c = CHR '':'') (formatTime n) \<and>
         (n < 3600 \<longrightarrow> length (formatTime n) = 5)"
proof -
  have d: "c \<in> set (pad2 (nat_str k)) \<Longrightarrow> is_digit c" for c k
    using pad2_digits [of "nat_str k" c] nat_str_digits by blast
  have l: "k < 60 \<Longrightarrow> length (pad2 (nat_str k)) = 2" for k
    using length_pad2 length_nat_str_small [of k] by simp
  have "nat (n mod 3600 div 60) < 60" "nat (n mod 60) < 60" using assms by auto
  then show ?thesis using assms d l nat_str_digits
    by (auto simp: formatTime_nonneg [OF assms] list_all_iff)
qed

theorem formatTime_shape_witness:
  "list_all (\<lambda>c. is_digit c \<or> c = CHR '':'') (formatTime 1500) \<and> length (formatTime 1500) = 5 \<and>
   formatTime 1500 = ''25:00''"
proof -
  have "formatTime 1500 = ''25:00''" by code_simp
  with formatTime_shape [of 1500] show ?thesis by simp
qed

end
