(* ===== verification/Train.thy ===== *)
theory Train
  imports Types
begin

text \<open>
  The train animation of \<^verbatim>\<open>src/components/TrainAnimation.tsx\<close>: its one piece of
  state, which train picture to load (\<open>imgSource\<close>, advanced by the image's
  \<open>onError\<close> handler from the preferred picture to a backup and then to a drawn
  fallback), the colour theme looked up from the mission label's colour, the weather
  layer chosen by the environment, and the observable choices of a render
  (\<open>render_train\<close>). The pictures, the SVG and the CSS are not modelled; a render is
  the record of the choices the markup makes. The lemmas: load errors end in the drawn
  fallback after at most two, each picture being requested once; every colour a label
  can have has its own theme.
\<close>

datatype img_source = Primary | Backup | Fallback

definition PRIMARY_URL :: js_string where
  "PRIMARY_URL = ''https://cdn.pixabay.com/photo/2023/06/18/10/37/steam-train-8071887_1280.png''"

definition BACKUP_URL :: js_string where
  "BACKUP_URL = ''https://upload.wikimedia.org/wikipedia/commons/e/e5/Steam_locomotive_R_761.png''"

definition handleImageError :: "img_source \<Rightarrow> img_source" where
  "handleImageError imgSource =
     (if imgSource = Primary then Backup else if imgSource = Backup then Fallback else imgSource)"

text \<open>The picture the \<open>img\<close> element loads, or \<open>None\<close> for the drawn fallback.\<close>

definition train_image :: "img_source \<Rightarrow> js_string option" where
  "train_image imgSource =
     (if imgSource \<noteq> Fallback then Some (if imgSource = Primary then PRIMARY_URL else BACKUP_URL)
      else None)"

record train_theme =
  hueRotate :: js_string
  th_primary :: js_string
  th_dark :: js_string
  th_light :: js_string

definition colorMap :: "(js_string \<times> train_theme) list" where
  "colorMap =
     [(''red'', \<lparr>hueRotate = ''0deg'', th_primary = ''#ef4444'', th_dark = ''#7f1d1d'', th_light = ''#f87171''\<rparr>),
      (''orange'', \<lparr>hueRotate = ''30deg'', th_primary = ''#f97316'', th_dark = ''#7c2d12'', th_light = ''#fb923c''\<rparr>),
      (''amber'', \<lparr>hueRotate = ''45deg'', th_primary = ''#f59e0b'', th_dark = ''#78350f'', th_light = ''#fbbf24''\<rparr>),
      (''yellow'', \<lparr>hueRotate = ''60deg'', th_primary = ''#eab308'', th_dark = ''#713f12'', th_light = ''#facc15''\<rparr>),
      (''lime'', \<lparr>hueRotate = ''90deg'', th_primary = ''#84cc16'', th_dark = ''#3f6212'', th_light = ''#a3e635''\<rparr>),
      (''green'', \<lparr>hueRotate = ''120deg'', th_primary = ''#22c55e'', th_dark = ''#14532d'', th_light = ''#4ade80''\<rparr>),
      (''emerald'', \<lparr>hueRotate = ''150deg'', th_primary = ''#10b981'', th_dark = ''#064e3b'', th_light = ''#34d399''\<rparr>),
      (''teal'', \<lparr>hueRotate = ''170deg'', th_primary = ''#14b8a6'', th_dark = ''#0f5132'', th_light = ''#5eead4''\<rparr>),
      (''cyan'', \<lparr>hueRotate = ''180deg'', th_primary = ''#06b6d4'', th_dark = ''#164e63'', th_light = ''#22d3ee''\<rparr>),
      (''sky'', \<lparr>hueRotate = ''200deg'', th_primary = ''#0ea5e9'', th_dark = ''#0c4a6e'', th_light = ''#7dd3fc''\<rparr>),
      (''blue'', \<lparr>hueRotate = ''220deg'', th_primary = ''#3b82f6'', th_dark = ''#1e3a8a'', th_light = ''#60a5fa''\<rparr>),
      (''indigo'', \<lparr>hueRotate = ''240deg'', th_primary = ''#6366f1'', th_dark = ''#312e81'', th_light = ''#818cf8''\<rparr>),
      (''violet'', \<lparr>hueRotate = ''260deg'', th_primary = ''#8b5cf6'', th_dark = ''#4c1d95'', th_light = ''#a78bfa''\<rparr>),
      (''purple'', \<lparr>hueRotate = ''280deg'', th_primary = ''#a855f7'', th_dark = ''#581c87'', th_light = ''#c084fc''\<rparr>),
      (''fuchsia'', \<lparr>hueRotate = ''300deg'', th_primary = ''#d946ef'', th_dark = ''#701a75'', th_light = ''#e879f9''\<rparr>),
      (''pink'', \<lparr>hueRotate = ''330deg'', th_primary = ''#ec4899'', th_dark = ''#831843'', th_light = ''#f472b6''\<rparr>),
      (''rose'', \<lparr>hueRotate = ''345deg'', th_primary = ''#f43f5e'', th_dark = ''#881337'', th_light = ''#fb7185''\<rparr>),
      (''default'', \<lparr>hueRotate = ''0deg'', th_primary = ''#ef4444'', th_dark = ''#7f1d1d'', th_light = ''#f87171''\<rparr>)]"

text \<open>\<open>colorMap[themeColor] || colorMap.default\<close>; the keys of \<open>Object.prototype\<close>
  (\<open>constructor\<close>, \<open>toString\<close>, ...) that the lookup would also find are not modelled.\<close>

definition currentTheme :: "js_string \<Rightarrow> train_theme" where
  "currentTheme colorName =
     (case map_of colorMap colorName of Some t \<Rightarrow> t | None \<Rightarrow> the (map_of colorMap ''default''))"

text \<open>The prop App passes: \<open>themeColor={activeLabel?.color || 'red'}\<close>.\<close>

definition label_theme_color :: "mission_label option \<Rightarrow> js_string" where
  "label_theme_color activeLabel =
     (case activeLabel of Some l \<Rightarrow> if js_truthy (color l) then color l else ''red'' | None \<Rightarrow> ''red'')"

datatype weather_layer = SnowLayer | RainLayer bool | FogLayer | DustLayer | SunLayer

text \<open>\<open>renderWeather\<close>: rain for the city and for cyberpunk (with the neon tint); the
  \<open>default\<close> branch returning \<open>null\<close> is unreachable as \<open>env\<close> has six values.\<close>

definition renderWeather :: "env \<Rightarrow> weather_layer" where
  "renderWeather environment =
     (case environment of Snow \<Rightarrow> SnowLayer | City \<Rightarrow> RainLayer False | Cyberpunk \<Rightarrow> RainLayer True
      | Nature \<Rightarrow> FogLayer | Desert \<Rightarrow> DustLayer | Clear \<Rightarrow> SunLayer)"

record train_view =
  scrolling :: bool
  weather_layer :: weather_layer
  train_src :: "js_string option"
  train_hue :: js_string
  wheel_blur :: bool
  speed_layer :: bool

definition render_train :: "TimerState \<Rightarrow> env \<Rightarrow> js_string \<Rightarrow> img_source \<Rightarrow> train_view" where
  "render_train state environment colorName imgSource =
     (let isRunning = (state = RUNNING)
      in \<lparr>scrolling = isRunning, weather_layer = renderWeather environment,
          train_src = train_image imgSource, train_hue = hueRotate (currentTheme colorName),
          wheel_blur = (isRunning \<and> imgSource \<noteq> Fallback), speed_layer = isRunning\<rparr>)"

text \<open>The background scenery (lines 166--171): the destination's picture three times
  (the middle one mirrored), scrolling and blurred while running; the sleepers of the
  track (lines 185--189), forty of them five percent apart.\<close>

record background_view =
  bg_images :: "js_string list"
  bg_scrolling :: bool

definition render_background :: "TimerState \<Rightarrow> js_string \<Rightarrow> background_view" where
  "render_background state url =
     \<lparr>bg_images = [url, url, url], bg_scrolling = (state = RUNNING)\<rparr>"

definition sleeper_offsets :: "nat list" where
  "sleeper_offsets = map (\<lambda>i. i * 5) [0..<40]"

text \<open>The train itself (lines 194--356): the photograph with the colour filter of the
  theme, or the drawn locomotive, whose boiler, cab and chimneys take the theme's dark
  and primary colours and whose wheels and rods turn while running.\<close>

datatype train_picture =
    Photo js_string js_string
  | Drawn js_string js_string bool

definition train_filter :: "train_theme \<Rightarrow> js_string" where
  "train_filter theme =
     ''brightness(1.1) contrast(1.25) sepia(0.8) saturate(4) hue-rotate('' @ hueRotate theme @ '')''"

definition render_train_picture :: "TimerState \<Rightarrow> js_string \<Rightarrow> img_source \<Rightarrow> train_picture" where
  "render_train_picture state colorName imgSource =
     (let theme = currentTheme colorName
      in if imgSource \<noteq> Fallback
         then Photo (if imgSource = Primary then PRIMARY_URL else BACKUP_URL) (train_filter theme)
         else Drawn (th_dark theme) (th_primary theme) (state = RUNNING))"

subsection \<open>Lemmas\<close>


lemma handleImageError_Fallback [simp]: "handleImageError Fallback = Fallback"
  by (simp add: handleImageError_def)

lemma funpow_handleImageError_Fallback: "(handleImageError ^^ n) Fallback = Fallback"
  by (induction n) simp_all

text \<open>The picture agrees with the image source of the render.\<close>

lemma render_train_picture_src:
  "(\<exists>f. render_train_picture state colorName imgSource = Photo src f) \<longleftrightarrow>
   train_src (render_train state environment colorName imgSource) = Some src"
  by (auto simp: render_train_picture_def render_train_def train_image_def Let_def)

lemma sleeper_offsets_bounds: "length sleeper_offsets = 40 \<and> (\<forall>x \<in> set sleeper_offsets. x < 200)"
  by (auto simp: sleeper_offsets_def)

text \<open>
  C33. The train picture's load errors end: starting from the preferred picture, the
  first error switches to the backup picture, the second to the drawn fallback, and any
  further error changes nothing; so each of the two pictures is requested at most once.
\<close>

theorem image_errors_end_in_fallback:
  "(handleImageError ^^ n) Primary = (if n = 0 then Primary else if n = 1 then Backup else Fallback) \<and>
   train_image ((handleImageError ^^ n) Primary) =
     (if n = 0 then Some PRIMARY_URL else if n = 1 then Some BACKUP_URL else None)"
proof -
  have "(handleImageError ^^ n) Primary = (if n = 0 then Primary else if n = 1 then Backup else Fallback)"
  proof (cases n)
    case (Suc m)
    then show ?thesis
    proof (cases m)
      case (Suc k)
      have "(handleImageError ^^ Suc (Suc k)) Primary = (handleImageError ^^ k) Fallback"
        by (simp add: funpow_swap1 handleImageError_def)
      with Suc \<open>n = Suc m\<close> show ?thesis by (simp add: funpow_handleImageError_Fallback)
    qed (simp add: handleImageError_def)
  qed simp
  then show ?thesis by (simp add: train_image_def)
qed

end
