(* ===== verification/App_View.thy ===== *)
theory App_View
  imports Music Display Train
begin

text \<open>
  What the main screen of the component \<open>App\<close> (\<^verbatim>\<open>src/App.tsx\<close>, lines 861--1303)
  shows of the state: the music widget, the weather widget, the props of the train
  animation, the tip bar and the destination line under the train, the clock, the destination cards, the label chips and the travel log. As for the
  other components, a render is the record of what the markup displays and of the
  choices its class names make; fixed texts, icons' shapes and CSS are not modelled.
  \<open>Math.round\<close> of the integer minutes of a session is the identity.
  \<open>new Date(s.startTime).toLocaleTimeString(..)\<close> depends on the browser's locale; an
  entry keeps the time stamp it formats.
  The lemmas: the track name shown is one of the play list; the destination line never
  says SURPRISE once a session is under way (the invariant \<open>active_dest_inv\<close>); exactly
  the selected destination's card is highlighted, none after a freestyle journey; the
  chips highlight the active label; the travel log shows the scheduled minutes of a
  session finished early within its first minute.
\<close>

subsection \<open>Music widget and status line\<close>

text \<open>The music widget (lines 867--886): the on/off look and the current track's name.\<close>

record audio_widget =
  aw_on :: bool
  aw_track_name :: js_string

definition render_audio_widget :: "app_state \<Rightarrow> audio_widget" where
  "render_audio_widget s = \<lparr>aw_on = isMusicOn s, aw_track_name = fst (MUSIC_TRACKS ! currentTrackIndex s)\<rparr>"

text \<open>The tip bar, shown while running (lines 917--922).\<close>

definition tip_bar :: "player_state \<Rightarrow> js_string option" where
  "tip_bar p = (if timerState (ps_app p) = RUNNING then Some (currentTip p) else None)"

text \<open>The destination line under the progress bar (lines 931--935):
  \<open>name.toUpperCase()\<close> and \<open>SURPRISE\<close> for the sentinel, its distance otherwise.\<close>

definition status_label :: "destination \<Rightarrow> js_string" where
  "status_label d =
     js_upper (dest_name d) @ '' ('' @
     (if dest_id d = ''freestyle'' then ''SURPRISE'' else int_str (distanceKm d) @ '' km'') @ '')''"

text \<open>The weather and time widget (lines 888--907): the weather's icon, tinted yellow in
  clear weather, the temperature, the condition and the local time (\<open>undefined\<close>
  renders as nothing).\<close>

record weather_widget =
  ww_icon :: weather_icon
  ww_sunny :: bool
  ww_temp :: real
  ww_condition :: js_string
  ww_local_time :: js_string

definition render_weather_widget :: "app_state \<Rightarrow> weather_widget" where
  "render_weather_widget s =
     \<lparr>ww_icon = Icon (weather s), ww_sunny = (environment (weather s) = Clear), ww_temp = temp (weather s),
      ww_condition = condition (weather s),
      ww_local_time = (case localTime s of Some t \<Rightarrow> t | None \<Rightarrow> [])\<rparr>"

text \<open>The props App passes to the train animation (lines 910--916), composed with its
  render.\<close>

definition app_train_view :: "app_state \<Rightarrow> img_source \<Rightarrow> train_view" where
  "app_train_view s imgSource =
     render_train (timerState s) (environment (weather s)) (label_theme_color (activeLabel s)) imgSource"

text \<open>The clock (lines 978--983): the formatted time, bright while running.\<close>

definition render_clock :: "app_state \<Rightarrow> js_string \<times> bool" where
  "render_clock s = (formatTime (timeLeft s), timerState s = RUNNING)"

subsection \<open>Destination cards and label chips\<close>

text \<open>The accent of a card, \<open>dest.themeColor.split('-')[1]\<close>; an absent piece is
  printed as \<open>undefined\<close> by the template literal.\<close>

definition card_accent :: "destination \<Rightarrow> js_string" where
  "card_accent d = (case js_split CHR ''-'' (themeColor d) of _ # x # _ \<Rightarrow> x | _ \<Rightarrow> ''undefined'')"

record dest_card =
  dc_name :: js_string
  dc_selected :: bool
  dc_accent :: "js_string option"
  dc_region :: js_string
  dc_duration :: js_string

text \<open>The freestyle card, then one card per destination (lines 995--1063); a card is
  highlighted when its id is the selected destination's.\<close>

definition freestyle_card :: "destination \<Rightarrow> dest_card" where
  "freestyle_card selected =
     \<lparr>dc_name = ''Freestyle'', dc_selected = (dest_id selected = ''freestyle''), dc_accent = None,
      dc_region = ''Anywhere'', dc_duration = ''?''\<rparr>"

definition destination_card :: "destination \<Rightarrow> destination \<Rightarrow> dest_card" where
  "destination_card selected dest =
     \<lparr>dc_name = dest_name dest, dc_selected = (dest_id selected = dest_id dest),
      dc_accent = Some (card_accent dest), dc_region = region dest,
      dc_duration = formatDurationDisplay (nat (durationMinutes dest))\<rparr>"

definition render_destination_cards :: "destination \<Rightarrow> dest_card list" where
  "render_destination_cards selected =
     freestyle_card selected # map (destination_card selected) DESTINATIONS"

text \<open>A label chip (lines 1067--1094): its name, icon and classes.\<close>

record label_chip =
  chip_name :: js_string
  chip_icon :: js_string
  chip_classes :: js_string
  chip_selected :: bool

definition render_label_chip :: "mission_label option \<Rightarrow> mission_label \<Rightarrow> label_chip" where
  "render_label_chip active l =
     (let isSelected = (map_option label_id active = Some (label_id l))
      in \<lparr>chip_name = label_name l, chip_icon = LabelIcon (icon l),
          chip_classes = getLabelColorClasses (color l) isSelected, chip_selected = isSelected\<rparr>)"

definition render_label_chips :: "app_state \<Rightarrow> label_chip list" where
  "render_label_chips s = map (render_label_chip (activeLabel s)) (availableLabels s)"

subsection \<open>Travel log\<close>

text \<open>The bullet U+2022, as its UTF-8 bytes.\<close>

definition bullet :: js_string where
  "bullet = [CHR 0xE2, CHR 0x80, CHR 0xA2]"

text \<open>\<open>Math.round(s.actualDurationMinutes || s.durationMinutes)\<close> (line 1275): an
  actual duration of 0 is falsy.\<close>

definition log_minutes :: "focus_session \<Rightarrow> int" where
  "log_minutes s =
     (case actualDurationMinutes s of
        Some a \<Rightarrow> if a \<noteq> 0 then a else fs_durationMinutes s
      | None \<Rightarrow> fs_durationMinutes s)"

record log_entry =
  le_image :: "js_string option"
  le_pill :: "(js_string \<times> js_string \<times> js_string) option"
  le_minutes :: int
  le_title :: js_string
  le_title_class :: js_string
  le_seat :: "js_string option"
  le_task :: "js_string option"
  le_time :: timestamp

text \<open>One entry of the log (lines 1255--1297): the destination's picture or the map
  icon, the label pill, the minutes, the title
  \<open>s.destination?.name || s.station?.name || "Unknown"\<close>, the seat and the task.\<close>

definition render_log_entry :: "focus_session \<Rightarrow> log_entry" where
  "render_log_entry s =
     \<lparr>le_image = (case fs_destination s of
                    Some d \<Rightarrow> if imageUrl d \<noteq> [] then Some (imageUrl d) else None | None \<Rightarrow> None),
      le_pill = map_option (\<lambda>l. (getLabelColorClasses (color l) False, LabelIcon (icon l),
                    label_name l @ '' '' @
                    (case subLabel s of Some v \<Rightarrow> if v \<noteq> [] then bullet @ '' '' @ v else [] | None \<Rightarrow> [])))
                  (fs_label s),
      le_minutes = log_minutes s,
      le_title = js_or_default [map_option dest_name (fs_destination s), map_option st_name (fs_station s)]
                   ''Unknown'',
      le_title_class = js_or_default [map_option themeColor (fs_destination s)] ''text-white'',
      le_seat = (case seat s of Some x \<Rightarrow> if x \<noteq> [] then Some x else None | None \<Rightarrow> None),
      le_task = (if task s \<noteq> [] then Some (task s) else None),
      le_time = startTime s\<rparr>"

text \<open>The log is shown while idle with at least one session (line 1249).\<close>

definition render_travel_log :: "app_state \<Rightarrow> log_entry list" where
  "render_travel_log s =
     (if sessions s \<noteq> [] \<and> timerState s = IDLE then map render_log_entry (sessions s) else [])"

text \<open>Once a session is under way the sentinel is no longer selected.\<close>

definition active_dest_inv :: "app_state \<Rightarrow> bool" where
  "active_dest_inv s \<longleftrightarrow> (timerState s \<noteq> IDLE \<longrightarrow> dest_id (selectedDestination s) \<noteq> ''freestyle'')"

subsection \<open>Lemmas\<close>

text \<open>The widget and the scene agree on the weather: the sun layer is drawn exactly
  when the widget shows clear weather, and the scenery moves exactly while running.\<close>

lemma weather_widget_scene:
  "weather_layer (app_train_view s imgSource) = SunLayer \<longleftrightarrow> ww_sunny (render_weather_widget s)"
  "scrolling (app_train_view s imgSource) \<longleftrightarrow> snd (render_clock s)"
  by (cases "environment (weather s)")
     (simp_all add: app_train_view_def render_train_def renderWeather_def render_weather_widget_def
       render_clock_def Let_def)

lemma reachable_track_index: "reachable s \<Longrightarrow> currentTrackIndex s < length MUSIC_TRACKS"
proof (induction rule: reachable.induct)
  case init
  then show ?case by (simp add: init_state_def MUSIC_TRACKS_def)
next
  case (step s e)
  then show ?case using currentTrackIndex_step by blast
qed

lemma audio_widget_track:
  "reachable s \<Longrightarrow> aw_track_name (render_audio_widget s) \<in> set (map fst MUSIC_TRACKS)"
  using reachable_track_index [of s] by (simp add: render_audio_widget_def)

lemma active_dest_step:
  assumes "active_dest_inv s" and "modal_inv s" and "enabled s e"
  shows "active_dest_inv (app_step s e)"
proof (cases "timer_event e")
  case False
  with app_step_timer_frame [OF False] assms(1) show ?thesis by (simp add: active_dest_inv_def)
next
  case True
  with assms show ?thesis
    by (cases e) (auto simp: active_dest_inv_def modal_inv_def handleSelectDestination_def
        confirmFreestyle_def selection_effect_def onTicketAnimationComplete_def timer_tick_def
        pauseSession_def resumeSession_def finishEarly_def abandonSession_def resetTimer_def
        completeSession_def freestyle_prefix_def Let_def split: option.splits sum.splits)
qed

lemma reachable_active_dest: "reachable s \<Longrightarrow> active_dest_inv s"
proof (induction rule: reachable.induct)
  case init
  then show ?case by (simp add: active_dest_inv_def init_state_def)
next
  case (step s e)
  have "modal_inv s" using reachable_app_inv [OF step.hyps(1)] by (simp add: app_inv_def)
  with step show ?case by (blast intro: active_dest_step)
qed

text \<open>Under way, the destination line gives the distance, never \<open>SURPRISE\<close>.\<close>

lemma status_label_active:
  "reachable s \<Longrightarrow> timerState s \<noteq> IDLE \<Longrightarrow>
   status_label (selectedDestination s) =
     js_upper (dest_name (selectedDestination s)) @ '' ('' @ int_str (distanceKm (selectedDestination s)) @ '' km)''"
  using reachable_active_dest [of s] by (simp add: active_dest_inv_def status_label_def)

lemma length_filter_distinct_key:
  "distinct (map f xs) \<Longrightarrow> length (filter (\<lambda>x. k = f x) xs) = (if k \<in> f ` set xs then 1 else 0)"
  by (induction xs) (auto simp: filter_empty_conv)

text \<open>The cards highlight exactly the selected destination when it is one of the
  catalogue, and none when it is a surprise destination (whose id carries the
  \<open>freestyle-\<close> prefix): after a freestyle journey no card shows the destination that
  the next departure books.\<close>

lemma destination_cards_highlight:
  "length (filter dc_selected (render_destination_cards selected)) =
     (if dest_id selected \<in> set (map dest_id (FREESTYLE_DESTINATION # DESTINATIONS)) then 1 else 0)"
proof -
  have d: "distinct (map dest_id (FREESTYLE_DESTINATION # DESTINATIONS))"
    using catalog_ids_distinct by simp
  have "filter dc_selected (render_destination_cards selected) =
        (if dest_id selected = ''freestyle'' then [freestyle_card selected] else []) @
        map (destination_card selected) (filter (\<lambda>d. dest_id selected = dest_id d) DESTINATIONS)"
    by (simp add: render_destination_cards_def freestyle_card_def destination_card_def filter_map comp_def)
  then show ?thesis
    using d length_filter_distinct_key [of dest_id DESTINATIONS "dest_id selected"] by auto
qed

lemma surprise_card_unhighlighted:
  "h \<in> set HIDDEN_DESTINATIONS \<Longrightarrow>
   filter dc_selected (render_destination_cards (surprise_destination h m)) = []"
proof -
  assume h: "h \<in> set HIDDEN_DESTINATIONS"
  have "\<not> prefix freestyle_prefix (dest_id d)" if "d \<in> set (FREESTYLE_DESTINATION # DESTINATIONS)" for d
    using catalog_ids_not_surprise that by (auto simp: js_starts_with_def)
  then have "\<forall>d \<in> set (FREESTYLE_DESTINATION # DESTINATIONS). \<forall>y. dest_id d \<noteq> freestyle_prefix @ y"
    by (metis prefixI)
  then have "dest_id (surprise_destination h m) \<notin> set (map dest_id (FREESTYLE_DESTINATION # DESTINATIONS))"
    by (auto; metis)
  then have "length (filter dc_selected (render_destination_cards (surprise_destination h m))) = 0"
    by (simp only: destination_cards_highlight) simp
  then show ?thesis by simp
qed

lemma destination_card_accents:
  "map card_accent DESTINATIONS =
     [''blue'', ''pink'', ''cyan'', ''amber'', ''red'', ''yellow'', ''orange'', ''orange'', ''fuchsia'',
      ''emerald'', ''green'', ''indigo'']"
  by code_simp

lemma card_accents_available: "set (map card_accent DESTINATIONS) \<subseteq> set AVAILABLE_COLORS"
  by (simp only: destination_card_accents) (simp add: AVAILABLE_COLORS_def)

text \<open>The chips highlight the active label, and only chips sharing its id.\<close>

lemma label_chips_selected:
  "chip_selected (render_label_chip active l) \<longleftrightarrow>
   (\<exists>a. active = Some a \<and> label_id a = label_id l)"
  by (cases active) (auto simp: render_label_chip_def Let_def)

lemma log_title_nonempty: "le_title (render_log_entry s) \<noteq> []"
  unfolding render_log_entry_def by (simp del: js_or_default.simps add: js_or_default_truthy)

subsection \<open>Properties\<close>

text \<open>
  C37. The travel log misreports a short early finish: when a session is finished early
  before its first minute has passed, the session is recorded with 0 actual minutes, but
  back at the idle screen its entry in the travel log shows the full scheduled duration,
  because \<open>actualDurationMinutes || durationMinutes\<close> treats 0 as missing.
\<close>

theorem travel_log_short_early_finish:
  assumes "0 \<le> initialDuration s - timeLeft s" and "initialDuration s - timeLeft s < 60"
  shows "actualDurationMinutes (hd (sessions (finishEarly now s))) = Some 0 \<and>
         le_minutes (hd (render_travel_log (resetTimer (finishEarly now s)))) = initialDuration s div 60"
proof -
  have "(initialDuration s - timeLeft s) div 60 = 0" using assms by simp
  then show ?thesis
    by (simp add: finishEarly_def render_travel_log_def resetTimer_def render_log_entry_def log_minutes_def)
qed

theorem travel_log_short_early_finish_witness:
  "actualDurationMinutes (hd (sessions (finishEarly 5 (run init_state depart_kyoto)))) = Some 0 \<and>
   le_minutes (hd (render_travel_log (resetTimer (finishEarly 5 (run init_state depart_kyoto))))) = 25"
proof -
  let ?s = "run init_state depart_kyoto"
  have "timeLeft ?s = 1500" "initialDuration ?s = 1500" using depart_kyoto_facts by simp_all
  with travel_log_short_early_finish [of ?s 5] show ?thesis by (simp del: run.simps)
qed

end
