(* ===== verification/Ticket.thy ===== *)
theory Ticket
  imports Types
begin

text \<open>
  The boarding-pass modal of \<^verbatim>\<open>src/components/TicketModal.tsx\<close>: a seat grid and a
  sequence of animation stages driven by \<open>setTimeout\<close>. The model keeps time: the state
  holds a clock in milliseconds and the browser's queue of pending timeouts, each with
  its identifier, its due time and its callback. The effect on \<open>[stage,
  onAnimationComplete, selectedSeat]\<close> is re-run after every render that changes one of
  them; as the parent passes a new \<open>onAnimationComplete\<close> closure on each of its renders,
  a render of the parent re-runs it too (the event \<open>ParentRender\<close>). A re-run first
  clears the one timeout its previous run stored in \<open>timer\<close>, then schedules the next
  stage's. The callback \<open>onAnimationComplete\<close> makes the parent close the modal, which
  unmounts it (the field \<open>mounted\<close>); a \<open>setStage\<close> after that does nothing.
  The lemmas: the pending timeouts always run out (\<open>settle\<close> terminates), an invariant of
  the reachable states, that a chosen seat always ends in exactly one call of the callback
  with that seat, after 7.3 seconds when the parent does not re-render, and that the
  callback is never called twice.
\<close>

datatype stage = SeatSelection | Passport | Printing | Visible | Tearing | Complete

datatype sound = ClickSound | StampSound | TearSound

text \<open>The callbacks passed to \<open>setTimeout\<close>; the completion callback carries the seat
  its closure captured.\<close>

datatype ticket_cb =
    ToPassport | Stamp | ToPrinting | ToVisible | ToTearing | ToComplete
  | Finish "js_string option"

record timeout =
  t_id :: nat
  due :: nat
  cb :: ticket_cb

record ticket_state =
  stage :: stage
  tk_selectedSeat :: "js_string option"
  timer :: "nat option"
  timeouts :: "timeout list"
  clock :: nat
  next_id :: nat
  mounted :: bool
  played :: "sound list"
  completions :: "js_string list"

text \<open>The seat grid: rows 1 to 3, columns A and B left of the aisle, C and D right of it,
  each button's id the template \<open>`${row}${col}`\<close>.\<close>

definition rows :: "nat list" where
  "rows = [1, 2, 3]"

definition seat_ids :: "js_string list" where
  "seat_ids = concat (map (\<lambda>row. map (\<lambda>col. nat_str row @ [col]) ''AB'') rows) @
              concat (map (\<lambda>row. map (\<lambda>col. nat_str row @ [col]) ''CD'') rows)"

definition ticket_init :: ticket_state where
  "ticket_init =
     \<lparr>stage = SeatSelection, tk_selectedSeat = None, timer = None, timeouts = [], clock = 0,
      next_id = 0, mounted = True, played = [], completions = []\<rparr>"

subsection \<open>The browser's timers\<close>

definition schedule :: "nat \<Rightarrow> ticket_cb \<Rightarrow> ticket_state \<Rightarrow> ticket_state" where
  "schedule d c s =
     s\<lparr>timeouts := timeouts s @ [\<lparr>t_id = next_id s, due = clock s + d, cb = c\<rparr>],
       next_id := Suc (next_id s)\<rparr>"

text \<open>\<open>timer = window.setTimeout(...)\<close>: scheduled and remembered for the cleanup.\<close>

definition arm :: "nat \<Rightarrow> ticket_cb \<Rightarrow> ticket_state \<Rightarrow> ticket_state" where
  "arm d c s = (schedule d c s)\<lparr>timer := Some (next_id s)\<rparr>"

definition clearTimeout :: "nat option \<Rightarrow> ticket_state \<Rightarrow> ticket_state" where
  "clearTimeout i s =
     (case i of None \<Rightarrow> s | Some n \<Rightarrow> s\<lparr>timeouts := filter (\<lambda>t. t_id t \<noteq> n) (timeouts s)\<rparr>)"

definition playSound :: "sound \<Rightarrow> ticket_state \<Rightarrow> ticket_state" where
  "playSound x s = s\<lparr>played := played s @ [x]\<rparr>"

text \<open>The first pending timeout with the least due time: timers due at the same
  millisecond fire in the order they were scheduled.\<close>

fun earliest :: "timeout list \<Rightarrow> timeout option" where
  "earliest [] = None"
| "earliest (t # ts) =
     (case earliest ts of None \<Rightarrow> Some t | Some u \<Rightarrow> if due u < due t then Some u else Some t)"

subsection \<open>The component\<close>

text \<open>The body of the effect, by stage (the \<open>switch\<close>); the seat-selection stage
  leaves \<open>timer\<close> undefined.\<close>

definition effect_body :: "ticket_state \<Rightarrow> ticket_state" where
  "effect_body s =
     (case stage s of
        SeatSelection \<Rightarrow> s\<lparr>timer := None\<rparr>
      | Passport \<Rightarrow> arm 1000 Stamp s
      | Printing \<Rightarrow> arm 100 ToVisible s
      | Visible \<Rightarrow> arm 2500 ToTearing s
      | Tearing \<Rightarrow> arm 1000 ToComplete (playSound TearSound s)
      | Complete \<Rightarrow> arm 200 (Finish (tk_selectedSeat s)) s)"

text \<open>A re-run of the effect: the cleanup \<open>window.clearTimeout(timer)\<close>, then the body.\<close>

definition rerun_effect :: "ticket_state \<Rightarrow> ticket_state" where
  "rerun_effect s = effect_body (clearTimeout (timer s) s)"

text \<open>\<open>setStage\<close>: no render when the value is unchanged or the modal is unmounted.\<close>

definition setStage :: "stage \<Rightarrow> ticket_state \<Rightarrow> ticket_state" where
  "setStage st s = (if \<not> mounted s \<or> stage s = st then s else rerun_effect (s\<lparr>stage := st\<rparr>))"

definition handleSeatClick :: "js_string \<Rightarrow> ticket_state \<Rightarrow> ticket_state" where
  "handleSeatClick seatId s =
     (let s1 = schedule 500 ToPassport (playSound ClickSound s)
      in if tk_selectedSeat s = Some seatId then s1
         else rerun_effect (s1\<lparr>tk_selectedSeat := Some seatId\<rparr>))"

text \<open>\<open>selectedSeat || '1A'\<close>.\<close>

definition seat_or_default :: "js_string option \<Rightarrow> js_string" where
  "seat_or_default x = (case x of Some v \<Rightarrow> if js_truthy v then v else ''1A'' | None \<Rightarrow> ''1A'')"

text \<open>The completion callback: \<open>onAnimationComplete\<close> is called, and the parent's
  \<open>setIsBooking(false)\<close> unmounts the modal, running the effect's cleanup.\<close>

definition onAnimationComplete :: "js_string option \<Rightarrow> ticket_state \<Rightarrow> ticket_state" where
  "onAnimationComplete seatNumber s =
     (let s1 = s\<lparr>completions := completions s @ [seat_or_default seatNumber]\<rparr>
      in (clearTimeout (timer s1) s1)\<lparr>mounted := False\<rparr>)"

fun fire :: "ticket_cb \<Rightarrow> ticket_state \<Rightarrow> ticket_state" where
  "fire ToPassport s = setStage Passport s"
| "fire Stamp s = schedule 2000 ToPrinting (playSound StampSound s)"
| "fire ToPrinting s = setStage Printing s"
| "fire ToVisible s = setStage Visible s"
| "fire ToTearing s = setStage Tearing s"
| "fire ToComplete s = setStage Complete s"
| "fire (Finish seatNumber) s = onAnimationComplete seatNumber s"

text \<open>The browser runs the next timeout: the clock moves to its due time, it leaves the
  queue, its callback runs.\<close>

definition dequeue :: "timeout \<Rightarrow> ticket_state \<Rightarrow> ticket_state" where
  "dequeue t s =
     s\<lparr>clock := max (clock s) (due t), timeouts := filter (\<lambda>u. t_id u \<noteq> t_id t) (timeouts s)\<rparr>"

definition fire_next :: "ticket_state \<Rightarrow> ticket_state" where
  "fire_next s = (case earliest (timeouts s) of None \<Rightarrow> s | Some t \<Rightarrow> fire (cb t) (dequeue t s))"

datatype ticket_event = SeatClick js_string | Elapse | Wait nat | ParentRender

text \<open>The seat buttons are rendered in the seat-selection stage only; time passes by
  \<open>Wait\<close> up to the next due timeout, which \<open>Elapse\<close> then runs.\<close>

fun tk_enabled :: "ticket_state \<Rightarrow> ticket_event \<Rightarrow> bool" where
  "tk_enabled s (SeatClick x) = (mounted s \<and> stage s = SeatSelection \<and> x \<in> set seat_ids)"
| "tk_enabled s Elapse = (timeouts s \<noteq> [])"
| "tk_enabled s (Wait d) = (0 < d \<and> list_all (\<lambda>t. clock s + d \<le> due t) (timeouts s))"
| "tk_enabled s ParentRender = mounted s"

fun ticket_step :: "ticket_state \<Rightarrow> ticket_event \<Rightarrow> ticket_state" where
  "ticket_step s (SeatClick x) = handleSeatClick x s"
| "ticket_step s Elapse = fire_next s"
| "ticket_step s (Wait d) = s\<lparr>clock := clock s + d\<rparr>"
| "ticket_step s ParentRender = rerun_effect s"

fun tk_run :: "ticket_state \<Rightarrow> ticket_event list \<Rightarrow> ticket_state" where
  "tk_run s [] = s"
| "tk_run s (e # es) = tk_run (if tk_enabled s e then ticket_step s e else s) es"

inductive tk_reachable :: "ticket_state \<Rightarrow> bool" where
  init: "tk_reachable ticket_init"
| step: "tk_reachable s \<Longrightarrow> tk_enabled s e \<Longrightarrow> tk_reachable (ticket_step s e)"

text \<open>Every pending timeout's callback leads to at most one more of lower weight.\<close>

fun cb_weight :: "ticket_cb \<Rightarrow> nat" where
  "cb_weight ToPassport = 7"
| "cb_weight Stamp = 6"
| "cb_weight ToPrinting = 5"
| "cb_weight ToVisible = 4"
| "cb_weight ToTearing = 3"
| "cb_weight ToComplete = 2"
| "cb_weight (Finish seatNumber) = 1"

definition potential :: "ticket_state \<Rightarrow> nat" where
  "potential s = sum_list (map (cb_weight \<circ> cb) (timeouts s))"


definition stage_weight :: "stage \<Rightarrow> nat" where
  "stage_weight st = (case st of SeatSelection \<Rightarrow> 0 | Passport \<Rightarrow> 6 | Printing \<Rightarrow> 4
                                | Visible \<Rightarrow> 3 | Tearing \<Rightarrow> 2 | Complete \<Rightarrow> 1)"


subsection \<open>The invariant\<close>

definition has_cb :: "ticket_state \<Rightarrow> ticket_cb \<Rightarrow> bool" where
  "has_cb s c \<longleftrightarrow> list_ex (\<lambda>t. cb t = c) (timeouts s)"

text \<open>The timeout the last run of the effect stored in \<open>timer\<close> is pending, with callback \<open>c\<close>.\<close>

definition tracked :: "ticket_state \<Rightarrow> ticket_cb \<Rightarrow> bool" where
  "tracked s c \<longleftrightarrow> list_ex (\<lambda>t. timer s = Some (t_id t) \<and> cb t = c) (timeouts s)"

definition is_finish :: "ticket_cb \<Rightarrow> bool" where
  "is_finish c = (case c of Finish x \<Rightarrow> True | _ \<Rightarrow> False)"

text \<open>The callback the effect schedules in each stage.\<close>

definition stage_cb :: "stage \<Rightarrow> js_string option \<Rightarrow> ticket_cb option" where
  "stage_cb st x =
     (case st of SeatSelection \<Rightarrow> None | Passport \<Rightarrow> Some Stamp | Printing \<Rightarrow> Some ToVisible
               | Visible \<Rightarrow> Some ToTearing | Tearing \<Rightarrow> Some ToComplete | Complete \<Rightarrow> Some (Finish x))"

text \<open>Timer identifiers are distinct and below the next one to be handed out.\<close>

definition ids_ok :: "ticket_state \<Rightarrow> bool" where
  "ids_ok s \<longleftrightarrow> distinct (map t_id (timeouts s)) \<and> list_all (\<lambda>t. t_id t < next_id s) (timeouts s)"

text \<open>A seat of the grid is chosen once anything has been scheduled.\<close>

definition seat_ok :: "ticket_state \<Rightarrow> bool" where
  "seat_ok s \<longleftrightarrow>
     (timeouts s \<noteq> [] \<or> stage s \<noteq> SeatSelection \<or> \<not> mounted s \<longrightarrow> tk_selectedSeat s \<noteq> None) \<and>
     (case tk_selectedSeat s of None \<Rightarrow> True | Some x \<Rightarrow> x \<in> set seat_ids)"

text \<open>A completion callback is pending only as the tracked timeout of the completion
  stage of the mounted modal, with the current seat; the callback has been called
  exactly when the modal is unmounted.\<close>

definition finish_ok :: "ticket_state \<Rightarrow> bool" where
  "finish_ok s \<longleftrightarrow>
     list_all (\<lambda>t. is_finish (cb t) \<longrightarrow> timer s = Some (t_id t) \<and> mounted s \<and> stage s = Complete \<and>
                   cb t = Finish (tk_selectedSeat s)) (timeouts s) \<and>
     completions s = (if mounted s then [] else [seat_or_default (tk_selectedSeat s)])"

text \<open>While mounted, the modal always has a timeout pending that moves it on.\<close>

definition live :: "ticket_state \<Rightarrow> bool" where
  "live s \<longleftrightarrow> (mounted s \<longrightarrow>
     (case stage_cb (stage s) (tk_selectedSeat s) of
        None \<Rightarrow> timer s = None \<and> (tk_selectedSeat s \<noteq> None \<longrightarrow> has_cb s ToPassport)
      | Some c \<Rightarrow> tracked s c \<or> (stage s = Passport \<and> has_cb s ToPrinting)))"

definition tk_inv :: "ticket_state \<Rightarrow> bool" where
  "tk_inv s \<longleftrightarrow> ids_ok s \<and> seat_ok s \<and> finish_ok s \<and> live s"

subsection \<open>Timers run out\<close>

lemma sum_list_map_filter_le:
  "sum_list (map f (filter P xs)) \<le> (sum_list (map f xs) :: nat)"
  by (induction xs) auto

lemma sum_list_map_remove:
  "t \<in> set ts \<Longrightarrow>
   sum_list (map f (filter (\<lambda>u. t_id u \<noteq> t_id t) ts)) + f t \<le> (sum_list (map f ts) :: nat)"
proof (induction ts)
  case (Cons u ts)
  show ?case
  proof (cases "u = t")
    case True
    then show ?thesis using sum_list_map_filter_le [of f _ ts] by simp
  next
    case False
    with Cons show ?thesis by auto
  qed
qed simp

lemma earliest_in: "earliest ts = Some t \<Longrightarrow> t \<in> set ts"
  by (induction ts arbitrary: t) (auto split: option.splits if_splits)

lemma earliest_None_iff: "earliest ts = None \<longleftrightarrow> ts = []"
  by (induction ts) (auto split: option.splits)

lemma clearTimeout_None [simp]: "clearTimeout None s = s"
  by (simp add: clearTimeout_def)

lemma potential_clearTimeout: "potential (clearTimeout i s) \<le> potential s"
  by (cases i) (simp_all add: potential_def clearTimeout_def sum_list_map_filter_le)

lemma potential_upd [simp]:
  "potential (schedule d c s) = potential s + cb_weight c"
  "potential (arm d c s) = potential s + cb_weight c"
  "potential (playSound x s) = potential s"
  "potential (s\<lparr>timer := i\<rparr>) = potential s"
  "potential (s\<lparr>stage := st\<rparr>) = potential s"
  "potential (s\<lparr>completions := cs\<rparr>) = potential s"
  "potential (s\<lparr>mounted := m\<rparr>) = potential s"
  by (simp_all add: potential_def schedule_def arm_def playSound_def)

lemma potential_effect_body: "potential (effect_body s) \<le> potential s + stage_weight (stage s)"
  by (simp add: effect_body_def stage_weight_def split: stage.splits)

lemma potential_setStage: "potential (setStage st s) \<le> potential s + stage_weight st"
proof (cases "\<not> mounted s \<or> stage s = st")
  case False
  let ?s = "clearTimeout (timer s) (s\<lparr>stage := st\<rparr>)"
  have "stage ?s = st" by (simp add: clearTimeout_def split: option.splits)
  then have "potential (effect_body ?s) \<le> potential ?s + stage_weight st"
    using potential_effect_body [of ?s] by simp
  also have "potential ?s \<le> potential s"
    using potential_clearTimeout [of "timer s" "s\<lparr>stage := st\<rparr>"] by simp
  finally show ?thesis using False by (simp add: setStage_def rerun_effect_def)
qed (auto simp: setStage_def)

lemma potential_fire: "potential (fire c s) < potential s + cb_weight c"
proof (cases c)
  case (Finish x)
  let ?s = "s\<lparr>completions := completions s @ [seat_or_default x]\<rparr>"
  have "potential ((clearTimeout (timer ?s) ?s)\<lparr>mounted := False\<rparr>) \<le> potential s"
    using potential_clearTimeout [of "timer ?s" ?s] by simp
  with Finish show ?thesis by (simp add: onAnimationComplete_def Let_def)
next
  case Stamp
  then show ?thesis by simp
qed (auto intro: le_less_trans [OF potential_setStage] simp: stage_weight_def)

lemma potential_fire_next: "timeouts s \<noteq> [] \<Longrightarrow> potential (fire_next s) < potential s"
proof -
  assume ne: "timeouts s \<noteq> []"
  then obtain t where t: "earliest (timeouts s) = Some t"
    using earliest_None_iff by (cases "earliest (timeouts s)") auto
  let ?s = "dequeue t s"
  have "potential ?s + cb_weight (cb t) \<le> potential s"
    using sum_list_map_remove [OF earliest_in [OF t], of "cb_weight \<circ> cb"]
    by (simp add: potential_def dequeue_def)
  moreover have "potential (fire (cb t) ?s) < potential ?s + cb_weight (cb t)" by (rule potential_fire)
  ultimately show ?thesis using t by (simp add: fire_next_def)
qed


subsection \<open>The invariant holds in every reachable state\<close>

lemmas tk_unfold = schedule_def arm_def clearTimeout_def playSound_def

lemma rerun_effect_simps [simp]:
  "stage (rerun_effect s) = stage s"
  "tk_selectedSeat (rerun_effect s) = tk_selectedSeat s"
  "mounted (rerun_effect s) = mounted s"
  "completions (rerun_effect s) = completions s"
  "clock (rerun_effect s) = clock s"
  by (simp_all add: rerun_effect_def effect_body_def tk_unfold split: stage.splits option.splits)

lemma timer_rerun_effect:
  "timer (rerun_effect s) = map_option (\<lambda>c. next_id s) (stage_cb (stage s) (tk_selectedSeat s))"
  by (simp add: rerun_effect_def effect_body_def stage_cb_def tk_unfold split: stage.splits option.splits)

lemma timeouts_rerun_effect:
  "\<exists>d. timeouts (rerun_effect s) =
     timeouts (clearTimeout (timer s) s) @
     (case stage_cb (stage s) (tk_selectedSeat s) of None \<Rightarrow> []
      | Some c \<Rightarrow> [\<lparr>t_id = next_id s, due = clock s + d, cb = c\<rparr>])"
  by (auto simp: rerun_effect_def effect_body_def stage_cb_def tk_unfold
           split: stage.splits option.splits)

lemma next_id_rerun_effect:
  "next_id (rerun_effect s) = (case stage_cb (stage s) (tk_selectedSeat s) of None \<Rightarrow> next_id s | Some c \<Rightarrow> Suc (next_id s))"
  by (simp add: rerun_effect_def effect_body_def stage_cb_def tk_unfold split: stage.splits option.splits)


lemma clearTimeout_simps [simp]:
  "stage (clearTimeout i s) = stage s"
  "tk_selectedSeat (clearTimeout i s) = tk_selectedSeat s"
  "mounted (clearTimeout i s) = mounted s"
  "completions (clearTimeout i s) = completions s"
  "timer (clearTimeout i s) = timer s"
  "next_id (clearTimeout i s) = next_id s"
  "clock (clearTimeout i s) = clock s"
  by (simp_all add: clearTimeout_def split: option.splits)

lemma set_timeouts_clearTimeout:
  "set (timeouts (clearTimeout i s)) = {t \<in> set (timeouts s). i \<noteq> Some (t_id t)}"
  by (auto simp: clearTimeout_def split: option.splits)

lemma ids_ok_clearTimeout: "ids_ok s \<Longrightarrow> ids_ok (clearTimeout i s)"
  by (auto simp: ids_ok_def clearTimeout_def list_all_iff distinct_map_filter split: option.splits)

lemma ids_ok_rerun_effect: "ids_ok s \<Longrightarrow> ids_ok (rerun_effect s)"
proof -
  assume i: "ids_ok s"
  obtain d where d: "timeouts (rerun_effect s) = timeouts (clearTimeout (timer s) s) @
     (case stage_cb (stage s) (tk_selectedSeat s) of None \<Rightarrow> []
      | Some c \<Rightarrow> [\<lparr>t_id = next_id s, due = clock s + d, cb = c\<rparr>])"
    using timeouts_rerun_effect by blast
  have "ids_ok (clearTimeout (timer s) s)" using i by (rule ids_ok_clearTimeout)
  then show ?thesis using d
    by (auto simp: ids_ok_def next_id_rerun_effect list_all_iff split: option.splits)
qed

lemma live_rerun_effect:
  assumes "ids_ok s" and "mounted s" and "stage s = SeatSelection \<longrightarrow> live s"
  shows "live (rerun_effect s)"
proof (cases "stage_cb (stage s) (tk_selectedSeat s)")
  case None
  then have "stage s = SeatSelection" by (simp add: stage_cb_def split: stage.splits)
  with assms None show ?thesis
    by (auto simp: live_def rerun_effect_def effect_body_def has_cb_def clearTimeout_def)
next
  case (Some c)
  obtain d where d: "timeouts (rerun_effect s) = timeouts (clearTimeout (timer s) s) @
     [\<lparr>t_id = next_id s, due = clock s + d, cb = c\<rparr>]"
    using timeouts_rerun_effect [of s] Some by auto
  then have "tracked (rerun_effect s) c"
    using Some by (simp add: tracked_def timer_rerun_effect)
  with Some assms(2) show ?thesis by (simp add: live_def)
qed


lemma finish_ok_rerun_effect:
  assumes "list_all (\<lambda>t. is_finish (cb t) \<longrightarrow> timer s = Some (t_id t)) (timeouts s)"
    and "mounted s" and "completions s = []"
  shows "finish_ok (rerun_effect s)"
proof -
  obtain d where d: "timeouts (rerun_effect s) = timeouts (clearTimeout (timer s) s) @
     (case stage_cb (stage s) (tk_selectedSeat s) of None \<Rightarrow> []
      | Some c \<Rightarrow> [\<lparr>t_id = next_id s, due = clock s + d, cb = c\<rparr>])"
    using timeouts_rerun_effect by blast
  have "list_all (\<lambda>t. \<not> is_finish (cb t)) (timeouts (clearTimeout (timer s) s))"
    using assms(1) by (auto simp: list_all_iff set_timeouts_clearTimeout)
  then show ?thesis using d assms(2,3)
    by (auto simp: finish_ok_def list_all_iff timer_rerun_effect stage_cb_def is_finish_def
             split: stage.splits)
qed

lemma dequeue_simps [simp]:
  "stage (dequeue t s) = stage s"
  "tk_selectedSeat (dequeue t s) = tk_selectedSeat s"
  "mounted (dequeue t s) = mounted s"
  "completions (dequeue t s) = completions s"
  "timer (dequeue t s) = timer s"
  "next_id (dequeue t s) = next_id s"
  "timeouts (dequeue t s) = filter (\<lambda>u. t_id u \<noteq> t_id t) (timeouts s)"
  by (simp_all add: dequeue_def)

lemma in_dequeue:
  "ids_ok s \<Longrightarrow> t \<in> set (timeouts s) \<Longrightarrow> u \<in> set (timeouts s) \<Longrightarrow> u \<noteq> t \<Longrightarrow>
   u \<in> set (timeouts (dequeue t s))"
  by (auto simp: ids_ok_def distinct_map dest: inj_onD)

lemma tracked_dequeue:
  "ids_ok s \<Longrightarrow> t \<in> set (timeouts s) \<Longrightarrow> tracked s c \<Longrightarrow> cb t \<noteq> c \<Longrightarrow> tracked (dequeue t s) c"
  unfolding tracked_def list_ex_iff using in_dequeue [of s t] by (metis dequeue_simps(5))

lemma has_cb_dequeue:
  "ids_ok s \<Longrightarrow> t \<in> set (timeouts s) \<Longrightarrow> has_cb s c \<Longrightarrow> cb t \<noteq> c \<Longrightarrow> has_cb (dequeue t s) c"
  unfolding has_cb_def list_ex_iff using in_dequeue [of s t] by metis

lemma weak_inv_dequeue:
  assumes "tk_inv s" and "t \<in> set (timeouts s)"
  shows "ids_ok (dequeue t s) \<and> seat_ok (dequeue t s) \<and> tk_selectedSeat s \<noteq> None \<and>
         finish_ok (dequeue t s)"
  using assms by (auto simp: tk_inv_def ids_ok_def seat_ok_def finish_ok_def list_all_iff
                       distinct_map_filter split: option.splits)

lemma tk_inv_setStage:
  assumes "ids_ok s" and "seat_ok s" and "tk_selectedSeat s \<noteq> None" and "finish_ok s"
    and "stage s = st \<Longrightarrow> live s" and "st \<noteq> SeatSelection"
  shows "tk_inv (setStage st s)"
proof (cases "\<not> mounted s \<or> stage s = st")
  case True
  then show ?thesis using assms by (auto simp: setStage_def tk_inv_def live_def)
next
  case False
  let ?s = "s\<lparr>stage := st\<rparr>"
  have "ids_ok (rerun_effect ?s)" using assms(1) by (intro ids_ok_rerun_effect) (simp add: ids_ok_def)
  moreover have "live (rerun_effect ?s)"
    using assms(1,6) False by (intro live_rerun_effect) (simp_all add: ids_ok_def)
  moreover have "finish_ok (rerun_effect ?s)"
    using assms(4) False by (intro finish_ok_rerun_effect) (auto simp: finish_ok_def list_all_iff)
  moreover have "seat_ok (rerun_effect ?s)"
    using assms(2,3) by (auto simp: seat_ok_def)
  ultimately show ?thesis using False by (simp add: setStage_def tk_inv_def)
qed


lemma schedule_simps [simp]:
  "stage (schedule d c s) = stage s" "tk_selectedSeat (schedule d c s) = tk_selectedSeat s"
  "mounted (schedule d c s) = mounted s" "completions (schedule d c s) = completions s"
  "timer (schedule d c s) = timer s"
  "stage (playSound x s) = stage s" "tk_selectedSeat (playSound x s) = tk_selectedSeat s"
  "mounted (playSound x s) = mounted s" "completions (playSound x s) = completions s"
  "timer (playSound x s) = timer s" "timeouts (playSound x s) = timeouts s"
  "next_id (playSound x s) = next_id s"
  by (simp_all add: schedule_def playSound_def)

lemma tracked_playSound [simp]:
  "tracked (playSound x s) c = tracked s c" "has_cb (playSound x s) c = has_cb s c"
  by (simp_all add: tracked_def has_cb_def)

lemma live_playSound [simp]: "live (playSound x s) = live s"
  by (simp add: live_def split: option.splits)

lemma ids_ok_schedule: "ids_ok s \<Longrightarrow> ids_ok (schedule d c s)"
  by (auto simp: ids_ok_def schedule_def list_all_iff)

lemma live_schedule: "live s \<Longrightarrow> live (schedule d c s)"
  by (auto simp: live_def tracked_def has_cb_def schedule_def split: option.splits)

lemma live_dequeue:
  assumes "tk_inv s" and "t \<in> set (timeouts s)"
    and "stage_cb (stage s) (tk_selectedSeat s) \<noteq> Some (cb t)"
    and "stage s = Passport \<longrightarrow> cb t \<noteq> ToPrinting" and "stage s = SeatSelection \<longrightarrow> cb t \<noteq> ToPassport"
  shows "live (dequeue t s)"
proof -
  have i: "ids_ok s" and l: "live s" using assms(1) by (simp_all add: tk_inv_def)
  show ?thesis
  proof (cases "stage_cb (stage s) (tk_selectedSeat s)")
    case None
    then show ?thesis using l assms(5) has_cb_dequeue [OF i assms(2)]
      by (auto simp: live_def stage_cb_def split: stage.splits)
  next
    case (Some c)
    then show ?thesis using l assms(3,4) has_cb_dequeue [OF i assms(2)] tracked_dequeue [OF i assms(2)]
      by (auto simp: live_def)
  qed
qed

lemma tk_inv_fire_Stamp:
  assumes "tk_inv s" and "t \<in> set (timeouts s)" and "cb t = Stamp"
  shows "tk_inv (fire (cb t) (dequeue t s))"
proof -
  let ?s = "dequeue t s"
  have w: "ids_ok ?s" "seat_ok ?s" "finish_ok ?s" "tk_selectedSeat s \<noteq> None"
    using weak_inv_dequeue [OF assms(1,2)] by simp_all
  have "live (schedule 2000 ToPrinting (playSound StampSound ?s))"
  proof (cases "stage s = Passport")
    case True
    then show ?thesis
      by (auto simp: live_def stage_cb_def has_cb_def schedule_def playSound_def)
  next
    case False
    then have "live ?s" using assms
      by (intro live_dequeue) (auto simp: stage_cb_def split: stage.splits)
    then show ?thesis by (intro live_schedule) simp
  qed
  moreover have "ids_ok (schedule 2000 ToPrinting (playSound StampSound ?s))"
    using w(1) by (intro ids_ok_schedule) (simp add: ids_ok_def)
  ultimately show ?thesis using w assms(3)
    by (auto simp: tk_inv_def seat_ok_def finish_ok_def schedule_def playSound_def is_finish_def)
qed

lemma tk_inv_fire_Finish:
  assumes "tk_inv s" and "t \<in> set (timeouts s)" and "cb t = Finish x"
  shows "tk_inv (fire (cb t) (dequeue t s))"
proof -
  have f: "timer s = Some (t_id t)" "mounted s" "x = tk_selectedSeat s" "completions s = []"
    using assms by (auto simp: tk_inv_def finish_ok_def list_all_iff is_finish_def)
  have w: "ids_ok (dequeue t s)" "tk_selectedSeat s \<noteq> None"
    using weak_inv_dequeue [OF assms(1,2)] by simp_all
  have "seat_ok s" using assms(1) by (simp add: tk_inv_def)
  moreover have "\<forall>u \<in> set (timeouts (dequeue t s)). \<not> is_finish (cb u)"
    using assms f by (auto simp: tk_inv_def finish_ok_def list_all_iff)
  ultimately show ?thesis using w f assms(3)
    by (auto simp: tk_inv_def onAnimationComplete_def Let_def ids_ok_def seat_ok_def finish_ok_def
                   live_def clearTimeout_def list_all_iff distinct_map_filter)
qed


lemma tk_inv_fire_next:
  assumes inv: "tk_inv s" and ne: "timeouts s \<noteq> []"
  shows "tk_inv (fire_next s)"
proof -
  obtain t where e: "earliest (timeouts s) = Some t"
    using ne earliest_None_iff by (cases "earliest (timeouts s)") auto
  then have tin: "t \<in> set (timeouts s)" by (rule earliest_in)
  note w = weak_inv_dequeue [OF inv tin]
  have "tk_inv (fire (cb t) (dequeue t s))"
  proof (cases "cb t")
    case Stamp
    then show ?thesis using tk_inv_fire_Stamp [OF inv tin] by simp
  next
    case (Finish x)
    then show ?thesis using tk_inv_fire_Finish [OF inv tin] by simp
  qed (use w in \<open>auto intro!: tk_inv_setStage live_dequeue [OF inv tin] simp: stage_cb_def\<close>)
  with e show ?thesis by (simp add: fire_next_def)
qed

lemma tk_inv_SeatClick:
  assumes "tk_inv s" and "tk_enabled s (SeatClick x)"
  shows "tk_inv (handleSeatClick x s)"
proof -
  have e: "mounted s" "stage s = SeatSelection" "x \<in> set seat_ids" using assms(2) by simp_all
  with assms(1) have tm: "timer s = None" and nf: "list_all (\<lambda>t. \<not> is_finish (cb t)) (timeouts s)"
    by (auto simp: tk_inv_def live_def stage_cb_def finish_ok_def list_all_iff)
  let ?s = "schedule 500 ToPassport (playSound ClickSound s)"
  have i: "ids_ok ?s" using assms(1) by (intro ids_ok_schedule) (simp add: tk_inv_def ids_ok_def)
  have h: "has_cb ?s ToPassport" by (simp add: has_cb_def schedule_def)
  show ?thesis
  proof (cases "tk_selectedSeat s = Some x")
    case True
    then show ?thesis using assms(1) e tm nf i h
      by (auto simp: handleSeatClick_def tk_inv_def seat_ok_def finish_ok_def live_def stage_cb_def
                     schedule_def list_all_iff is_finish_def)
  next
    case False
    then show ?thesis using assms(1) e tm nf i h
      by (auto simp: handleSeatClick_def rerun_effect_def effect_body_def tk_inv_def seat_ok_def
                     finish_ok_def live_def stage_cb_def ids_ok_def has_cb_def schedule_def
                     list_all_iff is_finish_def)
  qed
qed

lemma tk_inv_ParentRender:
  assumes "tk_inv s" and "mounted s"
  shows "tk_inv (rerun_effect s)"
proof -
  have "ids_ok (rerun_effect s)" using assms(1) by (intro ids_ok_rerun_effect) (simp add: tk_inv_def)
  moreover have "live (rerun_effect s)" using assms
    by (intro live_rerun_effect) (simp_all add: tk_inv_def)
  moreover have "finish_ok (rerun_effect s)" using assms
    by (intro finish_ok_rerun_effect) (auto simp: tk_inv_def finish_ok_def list_all_iff)
  moreover have "seat_ok (rerun_effect s)"
  proof -
    have "seat_ok s" using assms(1) by (simp add: tk_inv_def)
    moreover have "stage s = SeatSelection \<Longrightarrow> tk_selectedSeat s = None \<Longrightarrow> timeouts (rerun_effect s) = []"
      using assms calculation
      by (simp add: seat_ok_def rerun_effect_def effect_body_def tk_inv_def live_def stage_cb_def)
    ultimately show ?thesis by (auto simp: seat_ok_def)
  qed
  ultimately show ?thesis by (simp add: tk_inv_def)
qed

lemma tk_inv_step: "tk_inv s \<Longrightarrow> tk_enabled s e \<Longrightarrow> tk_inv (ticket_step s e)"
proof (cases e)
  case (Wait d)
  then show "tk_inv s \<Longrightarrow> tk_enabled s e \<Longrightarrow> tk_inv (ticket_step s e)"
    by (auto simp: tk_inv_def ids_ok_def seat_ok_def finish_ok_def live_def tracked_def has_cb_def
             split: option.splits)
qed (auto intro: tk_inv_SeatClick tk_inv_fire_next tk_inv_ParentRender)

lemma tk_inv_init: "tk_inv ticket_init"
  by (simp add: tk_inv_def ticket_init_def ids_ok_def seat_ok_def finish_ok_def live_def stage_cb_def)

lemma tk_reachable_inv: "tk_reachable s \<Longrightarrow> tk_inv s"
  by (induction rule: tk_reachable.induct) (auto intro: tk_inv_init tk_inv_step)


lemma tk_reachable_run: "tk_reachable s \<Longrightarrow> tk_reachable (tk_run s es)"
  by (induction es arbitrary: s) (auto intro: tk_reachable.step)

lemma seat_fire [simp]: "tk_selectedSeat (fire c s) = tk_selectedSeat s"
  by (cases c) (simp_all add: setStage_def onAnimationComplete_def Let_def)

lemma seat_fire_next [simp]: "tk_selectedSeat (fire_next s) = tk_selectedSeat s"
  by (simp add: fire_next_def split: option.splits)

lemma seat_ids_nonempty: "x \<in> set seat_ids \<Longrightarrow> seat_or_default (Some x) = x"
  by (auto simp: seat_ids_def rows_def seat_or_default_def)


lemma tk_inv_completions:
  assumes "tk_inv s"
  shows "length (completions s) \<le> 1 \<and> set (completions s) \<subseteq> set seat_ids"
proof (cases "mounted s")
  case True
  then show ?thesis using assms by (simp add: tk_inv_def finish_ok_def)
next
  case False
  then obtain x where x: "tk_selectedSeat s = Some x" "x \<in> set seat_ids"
    using assms by (auto simp: tk_inv_def seat_ok_def)
  then show ?thesis using assms False seat_ids_nonempty [OF x(2)] by (simp add: tk_inv_def finish_ok_def)
qed

end
