(* ===== verification/Ticket_Settle.thy ===== *)
theory Ticket_Settle
  imports Ticket
begin

text \<open>
  The modal left alone: \<open>settle\<close> lets the browser run the pending timeouts in due
  order, with no click and no render of the parent, until none is left. It terminates
  because every callback schedules at most one timeout of lower weight
  (\<open>potential_fire_next\<close>), and it is a run of the model's \<open>Elapse\<close> events. The
  lemmas: it leaves no timeout; from any reachable state where a seat has been chosen it
  ends with the modal closed and the callback called once, with that seat.
\<close>

function settle :: "ticket_state \<Rightarrow> ticket_state" where
  "settle s = (if timeouts s = [] then s else settle (fire_next s))"
  by pat_completeness auto
termination
  by (relation "measure potential") (auto intro: potential_fire_next)

declare settle.simps [simp del]

lemma settle_quiet: "timeouts (settle s) = []"
  by (induction s rule: settle.induct) (subst settle.simps, simp)

lemma settle_is_run: "\<exists>n \<le> potential s. settle s = tk_run s (replicate n Elapse)"
proof (induction s rule: settle.induct)
  case (1 s)
  show ?case
  proof (cases "timeouts s = []")
    case True
    then show ?thesis by (intro exI [of _ 0]) (subst settle.simps, simp)
  next
    case False
    with 1 obtain n where n: "n \<le> potential (fire_next s)"
      "settle (fire_next s) = tk_run (fire_next s) (replicate n Elapse)" by blast
    moreover have "potential (fire_next s) < potential s" using False by (rule potential_fire_next)
    ultimately show ?thesis using False by (intro exI [of _ "Suc n"]) (subst settle.simps, simp)
  qed
qed

lemma settle_inv: "tk_inv s \<Longrightarrow> tk_inv (settle s)"
  by (induction s rule: settle.induct) (subst settle.simps, simp add: tk_inv_fire_next)

lemma settle_seat [simp]: "tk_selectedSeat (settle s) = tk_selectedSeat s"
  by (induction s rule: settle.induct) (subst settle.simps, simp)

lemma quiet_inv_unmounted:
  assumes "tk_inv s" and "timeouts s = []" and "tk_selectedSeat s \<noteq> None"
  shows "\<not> mounted s"
proof
  assume m: "mounted s"
  have "live s" using assms(1) by (simp add: tk_inv_def)
  with m assms(2,3) show False
    by (auto simp: live_def tracked_def has_cb_def split: option.splits)
qed


lemma replicate_7: "replicate 7 x = [x, x, x, x, x, x, x]"
  by (simp add: numeral_eq_Suc)
text \<open>
  C25. A chosen seat is always reported: from any reachable state of the mounted modal in
  which a seat has been clicked, letting the pending timeouts run ends with the modal
  closed and \<open>onAnimationComplete\<close> called exactly once, with that seat, which is one
  of the grid's twelve; however the parent's renders were interleaved before.
\<close>

theorem settle_completes_once:
  assumes "tk_reachable s" and "mounted s" and "tk_selectedSeat s = Some x"
  shows "\<not> mounted (settle s) \<and> completions s = [] \<and> completions (settle s) = [x] \<and>
         x \<in> set seat_ids"
proof -
  have i: "tk_inv s" using assms(1) by (rule tk_reachable_inv)
  have i': "tk_inv (settle s)" using i by (rule settle_inv)
  have u: "\<not> mounted (settle s)"
    using quiet_inv_unmounted [OF i' settle_quiet] assms(3) by simp
  have x: "x \<in> set seat_ids" using i assms(3) by (simp add: tk_inv_def seat_ok_def)
  have "completions (settle s) = [seat_or_default (Some x)]"
    using i' u assms(3) by (simp add: tk_inv_def finish_ok_def)
  moreover have "completions s = []" using i assms(2) by (simp add: tk_inv_def finish_ok_def)
  ultimately show ?thesis using u x seat_ids_nonempty [OF x] by simp
qed

theorem settle_completes_once_witness:
  "tk_reachable (tk_run ticket_init [SeatClick ''2C'']) \<and> mounted (tk_run ticket_init [SeatClick ''2C'']) \<and>
   completions (settle (tk_run ticket_init [SeatClick ''2C''])) = [''2C'']"
proof -
  have r: "tk_reachable (tk_run ticket_init [SeatClick ''2C''])"
    by (rule tk_reachable_run [OF tk_reachable.init])
  have m: "mounted (tk_run ticket_init [SeatClick ''2C''])" by code_simp
  have x: "tk_selectedSeat (tk_run ticket_init [SeatClick ''2C'']) = Some ''2C''" by code_simp
  from settle_completes_once [OF r m x] r m show ?thesis by blast
qed



text \<open>
  C26. The completion callback is never called twice: in every reachable state it has
  been called at most once, and only with a seat of the grid.
\<close>

theorem callback_at_most_once:
  assumes "tk_reachable s"
  shows "length (completions s) \<le> 1 \<and> set (completions s) \<subseteq> set seat_ids"
  using tk_inv_completions [OF tk_reachable_inv [OF assms]] .

theorem callback_at_most_once_witness:
  "tk_reachable (tk_run ticket_init (SeatClick ''1A'' # replicate 7 Elapse)) \<and>
   length (completions (tk_run ticket_init (SeatClick ''1A'' # replicate 7 Elapse))) \<le> 1"
proof -
  have r: "tk_reachable (tk_run ticket_init (SeatClick ''1A'' # replicate 7 Elapse))"
    by (rule tk_reachable_run [OF tk_reachable.init])
  from callback_at_most_once [OF r] r show ?thesis by blast
qed




text \<open>
  C28. The timeout that the stamp callback schedules (\<open>setTimeout(() =>
  setStage('printing'), 2000)\<close>) is not the one stored in \<open>timer\<close>, so the effect's
  cleanup never clears it. When the parent renders after the stamp (for instance when
  the background fetch of the destination answers), the effect re-runs in the passport
  stage and stamps again, and the second stamp's timeout later sends the ticket from the
  visible stage back to printing (off screen) at 4.5 seconds; the stamp sound plays
  twice and the modal closes at 8.3 instead of 7.3 seconds, still exactly once.
\<close>

theorem rerender_after_stamp_reprints:
  "stage (tk_run ticket_init [SeatClick ''2C'', Elapse, Elapse, ParentRender, Elapse, Elapse, Elapse]) = Visible \<and>
   stage (tk_run ticket_init [SeatClick ''2C'', Elapse, Elapse, ParentRender, Elapse, Elapse, Elapse, Elapse]) = Printing \<and>
   clock (tk_run ticket_init [SeatClick ''2C'', Elapse, Elapse, ParentRender, Elapse, Elapse, Elapse, Elapse]) = 4500 \<and>
   played (tk_run ticket_init [SeatClick ''2C'', Elapse, Elapse, ParentRender, Elapse, Elapse, Elapse, Elapse]) =
     [ClickSound, StampSound, StampSound] \<and>
   completions (tk_run ticket_init [SeatClick ''2C'', Elapse, Elapse, ParentRender, Elapse, Elapse, Elapse, Elapse,
                                    Elapse, Elapse, Elapse, Elapse]) = [''2C''] \<and>
   clock (tk_run ticket_init [SeatClick ''2C'', Elapse, Elapse, ParentRender, Elapse, Elapse, Elapse, Elapse,
                              Elapse, Elapse, Elapse, Elapse]) = 8300"
proof -
  have h: "''2C'' \<in> set seat_ids" by code_simp
  show ?thesis using h seat_ids_nonempty [OF h]
    by (simp add: ticket_init_def handleSeatClick_def rerun_effect_def effect_body_def tk_unfold
                  fire_next_def dequeue_def setStage_def onAnimationComplete_def Let_def)
qed

text \<open>
  C29. The pending timeouts always run out: from any state, running the next due timeout
  repeatedly, with no click and no render, empties the queue after at most
  \<open>potential s\<close> firings, and this is a run of the model's \<open>Elapse\<close> events.
\<close>

theorem pending_timeouts_run_out:
  "\<exists>n \<le> potential s. settle s = tk_run s (replicate n Elapse) \<and> timeouts (settle s) = []"
  using settle_is_run [of s] settle_quiet [of s] by blast

end
