(* ===== verification/Ticket_View.thy ===== *)
theory Ticket_View
  imports Ticket Catalog
begin

text \<open>
  What the boarding-pass modal of \<^verbatim>\<open>src/components/TicketModal.tsx\<close> shows in each
  stage (lines 79--325): nothing once complete (\<open>return null\<close>), the seat grid with the
  chosen seat highlighted, the passport with its entry stamp, or the ticket sliding in,
  shown and torn. A render is the record of what the markup displays and of the
  choices its class names make; the fixed texts, the SVG shapes and the CSS are not
  modelled. \<open>getStampColor\<close> (lines 82--89) picks the stamp's ink from the destination's
  region; the stamp prints the destination's name in capitals, cut after ten characters.
  \<open>new Date().toLocaleDateString()\<close> depends on the browser's clock and locale and is
  the parameter \<open>today\<close>. The lemmas: the stamp's name has at most eleven characters;
  the region test never selects the European blue for any destination of the catalogue;
  the grid highlights exactly the chosen seat; in every reachable state the ticket
  shows a seat of the grid, and the modal renders nothing exactly when it is complete.
\<close>

definition getStampColor :: "destination \<Rightarrow> js_string" where
  "getStampColor destination =
     (let reg = js_lower (region destination)
      in if js_includes reg ''japan'' \<or> js_includes reg ''asia'' then ''#b91c1c''
         else if js_includes reg ''europe'' then ''#1d4ed8''
         else if js_includes reg ''usa'' \<or> js_includes reg ''america'' then ''#15803d''
         else if js_includes reg ''africa'' then ''#b45309''
         else ''#334155'')"

text \<open>The destination's name on the stamp (line 262).\<close>

definition stamp_name :: "js_string \<Rightarrow> js_string" where
  "stamp_name name =
     (if length name > 10 then js_upper (take 10 name) @ ''.'' else js_upper name)"

text \<open>\<open>toLocaleDateString().replace(/\//g, '.')\<close> (line 267).\<close>

definition stamp_date :: "js_string \<Rightarrow> js_string" where
  "stamp_date d = map (\<lambda>c. if c = CHR ''/'' then CHR ''.'' else c) d"

record passport_view =
  pv_issued :: js_string
  stampHex :: js_string
  pv_stamp_name :: js_string
  pv_stamp_date :: js_string

record ticket_card =
  tc_slid_in :: bool
  tc_stub_torn :: bool
  tc_image :: js_string
  tc_name :: js_string
  tc_region :: js_string
  tc_seat :: js_string
  tc_distance :: int
  tc_task :: js_string
  tc_duration :: int

datatype ticket_view =
    NoView
  | SeatGrid js_string "(js_string \<times> bool) list"
  | PassportPage passport_view
  | TicketCard ticket_card

text \<open>The seat buttons, left block then right block, each with whether it carries the
  highlight class (\<open>selectedSeat === id\<close>; \<open>null\<close> matches none).\<close>

definition seat_buttons :: "js_string option \<Rightarrow> (js_string \<times> bool) list" where
  "seat_buttons selectedSeat = map (\<lambda>id. (id, selectedSeat = Some id)) seat_ids"

text \<open>The modal's render; once the parent has closed it (\<open>mounted\<close> false) it is no
  longer in the tree.\<close>

definition render_ticket :: "destination \<Rightarrow> js_string \<Rightarrow> js_string \<Rightarrow> ticket_state \<Rightarrow> ticket_view" where
  "render_ticket destination taskText today s =
     (if \<not> mounted s \<or> stage s = Complete then NoView
      else if stage s = SeatSelection then SeatGrid (dest_name destination) (seat_buttons (tk_selectedSeat s))
      else if stage s = Passport then
        PassportPage \<lparr>pv_issued = today, stampHex = getStampColor destination,
                      pv_stamp_name = stamp_name (dest_name destination), pv_stamp_date = stamp_date today\<rparr>
      else TicketCard
        \<lparr>tc_slid_in = (stage s \<noteq> Printing), tc_stub_torn = (stage s = Tearing),
         tc_image = imageUrl destination, tc_name = dest_name destination, tc_region = region destination,
         tc_seat = (case tk_selectedSeat s of Some x \<Rightarrow> x | None \<Rightarrow> []),
         tc_distance = distanceKm destination,
         tc_task = (if js_truthy taskText then taskText else ''Unspecified Journey''),
         tc_duration = durationMinutes destination\<rparr>)"

subsection \<open>Lemmas\<close>

lemma stamp_name_length: "length (stamp_name name) \<le> 11"
  by (simp add: stamp_name_def)

lemma stamp_name_short: "length name \<le> 10 \<Longrightarrow> stamp_name name = js_upper name"
  by (simp add: stamp_name_def)

text \<open>The stamp colours of the twelve destinations (the sentinel first) and of the eleven
  hidden ones: the region is a country name, so the test for \<open>europe\<close> never holds,
  and neither does the one for \<open>america\<close> once \<open>usa\<close> has been tested.\<close>

lemma catalog_stamp_colours:
  "map getStampColor (FREESTYLE_DESTINATION # DESTINATIONS) =
     [''#334155'', ''#334155'', ''#b91c1c'', ''#334155'', ''#334155'', ''#334155'', ''#334155'',
      ''#334155'', ''#334155'', ''#b91c1c'', ''#15803d'', ''#334155'', ''#334155'']"
  by code_simp

lemma hidden_stamp_colours:
  "map getStampColor HIDDEN_DESTINATIONS =
     [''#334155'', ''#334155'', ''#334155'', ''#b91c1c'', ''#b45309'', ''#334155'', ''#334155'',
      ''#334155'', ''#334155'', ''#334155'', ''#334155'']"
  by code_simp

lemma stamp_never_european:
  "d \<in> set (FREESTYLE_DESTINATION # DESTINATIONS @ HIDDEN_DESTINATIONS) \<Longrightarrow>
   getStampColor d \<noteq> ''#1d4ed8''"
proof -
  assume "d \<in> set (FREESTYLE_DESTINATION # DESTINATIONS @ HIDDEN_DESTINATIONS)"
  then have "getStampColor d \<in> set (map getStampColor (FREESTYLE_DESTINATION # DESTINATIONS)) \<union>
                               set (map getStampColor HIDDEN_DESTINATIONS)"
    by auto
  then show ?thesis by (simp only: catalog_stamp_colours hidden_stamp_colours) auto
qed

text \<open>No name of the catalogue is cut on the stamp.\<close>

lemma catalog_stamp_names_uncut:
  "list_all (\<lambda>d. stamp_name (dest_name d) = js_upper (dest_name d))
     (FREESTYLE_DESTINATION # DESTINATIONS @ HIDDEN_DESTINATIONS)"
  by code_simp

lemma distinct_seat_ids: "distinct seat_ids"
  by code_simp

lemma filter_eq_single: "distinct xs \<Longrightarrow> x \<in> set xs \<Longrightarrow> filter (\<lambda>y. x = y) xs = [x]"
  by (induction xs) (auto simp: filter_empty_conv)

text \<open>The grid highlights exactly the chosen seat, and none before a choice.\<close>

lemma seat_buttons_highlight:
  "map fst (filter snd (seat_buttons selectedSeat)) =
     (case selectedSeat of Some x \<Rightarrow> if x \<in> set seat_ids then [x] else [] | None \<Rightarrow> [])"
proof -
  have "map fst (filter snd (seat_buttons selectedSeat)) = filter (\<lambda>id. selectedSeat = Some id) seat_ids"
    by (simp add: seat_buttons_def filter_map comp_def)
  then show ?thesis
    by (cases selectedSeat) (auto simp: filter_eq_single [OF distinct_seat_ids] filter_empty_conv)
qed

lemma render_ticket_NoView:
  "mounted s \<Longrightarrow> render_ticket destination taskText today s = NoView \<longleftrightarrow> stage s = Complete"
  by (simp add: render_ticket_def)

text \<open>Once the ticket is printed it shows a seat of the grid: the reachable states
  choose a seat before leaving the grid (\<open>seat_ok\<close> of the invariant).\<close>

lemma render_ticket_seat:
  assumes "tk_reachable s" and "mounted s" and "stage s \<in> {Printing, Visible, Tearing}"
  shows "\<exists>c. render_ticket destination taskText today s = TicketCard c \<and> tc_seat c \<in> set seat_ids \<and>
             tc_slid_in c = (stage s \<noteq> Printing) \<and> tc_stub_torn c = (stage s = Tearing)"
proof -
  have "seat_ok s" using tk_reachable_inv [OF assms(1)] by (simp add: tk_inv_def)
  with assms(3) obtain x where "tk_selectedSeat s = Some x" "x \<in> set seat_ids"
    by (auto simp: seat_ok_def split: option.splits)
  with assms(2,3) show ?thesis by (auto simp: render_ticket_def)
qed

end
