(* ===== verification/Spec2Isabelle.thy ===== *)
theory Spec2Isabelle
  imports App Music App_View Ticket_Settle Ticket_View Display Train
begin

text \<open>
  FocusExpress (\<^verbatim>\<open>src/\<close>) is a React single-page application: a Pomodoro-style
  countdown presented as a train journey. Its parts, and the theory of this development
  that models each:

  \<^item> \<^bold>\<open>Data model\<close> (\<^verbatim>\<open>src/types.ts\<close>) -- theory \<open>Types\<close>: \<open>TimerState\<close> and the
    environments as datatypes, the interfaces as records. Optional members are options.
    Fields that several interfaces share carry a prefix (\<open>dest_\<close>, \<open>label_\<close>,
    \<open>fs_\<close>, \<open>st_\<close>, \<open>gd_\<close>); the others keep the source's names.
  \<^item> \<^bold>\<open>Shared primitives\<close> -- theory \<open>Prelude\<close>: the JavaScript built-ins the code
    calls (\<open>trim\<close>, \<open>toLowerCase\<close>, \<open>includes\<close>, \<open>startsWith\<close>, \<open>padStart\<close>,
    \<open>toString\<close> of integers, \<open>Math.round\<close>) as executable functions on ASCII strings,
    with the lemmas the components share (decimal round trip, rounding of a quotient).
  \<^item> \<^bold>\<open>Destination catalog\<close> (\<^verbatim>\<open>App.tsx\<close> lines 51--243, 548--566) -- theory
    \<open>Catalog\<close>: the sentinel, the twelve destinations, the eleven hidden ones, the pool a
    freestyle journey draws from and the surprise destination it builds.
  \<^item> \<^bold>\<open>Mission label registry\<close> (\<^verbatim>\<open>App.tsx\<close> lines 245--251, 577--608 and the
    inline handlers of the label chips) -- theory \<open>Labels\<close>: the record \<open>label_state\<close>
    and its handlers, polymorphic in the record extension.
  \<^item> \<^bold>\<open>Session history and statistics\<close> (\<open>completeSession\<close>,
    \<^verbatim>\<open>src/components/Stats.tsx\<close>) -- theory \<open>History\<close>.
  \<^item> \<^bold>\<open>Remote flavour-data fetcher\<close> (\<^verbatim>\<open>src/services/geminiService.ts\<close>, the
    continuation of \<open>fetchDataForDestination\<close>) -- theory \<open>Fetcher\<close>; the network call
    is the environment, an \<open>api_outcome\<close>.
  \<^item> \<^bold>\<open>Session timer state machine\<close> (the component \<open>App\<close>) -- theory \<open>App\<close>:
    the record \<open>app_state\<close> (one field per state hook a handler writes, plus the
    scheduled callbacks), the datatype \<open>event\<close> of every handler, timer callback and
    awaited continuation, \<open>app_step\<close>, the guards \<open>enabled\<close> read off the render
    conditions, \<open>run\<close> and the inductive \<open>reachable\<close>.
  \<^item> \<^bold>\<open>Ticket modal\<close> (\<^verbatim>\<open>src/components/TicketModal.tsx\<close>) -- theories \<open>Ticket\<close>
    and \<open>Ticket_Settle\<close>: a timed model. The record \<open>ticket_state\<close> holds the two state
    hooks, the effect's \<open>timer\<close> variable, a millisecond clock and the browser's queue of
    pending timeouts; \<open>effect_body\<close> and \<open>rerun_effect\<close> are the effect and its cleanup,
    \<open>fire\<close> the timeout callbacks, \<open>handleSeatClick\<close> the seat buttons; the events are a
    seat click, the next timeout firing (\<open>Elapse\<close>), time passing (\<open>Wait\<close>) and a render
    of the parent (\<open>ParentRender\<close>, which re-runs the effect because App passes a new
    \<open>onAnimationComplete\<close> closure on every render). Theory \<open>Ticket_View\<close>: what each
    stage renders (\<open>render_ticket\<close>: the seat grid, the passport with the stamp of
    \<open>getStampColor\<close>, the ticket card).
  \<^item> \<^bold>\<open>Train animation\<close> (\<^verbatim>\<open>src/components/TrainAnimation.tsx\<close>) -- theory
    \<open>Train\<close>: the picture fallback state and \<open>handleImageError\<close>, the theme lookup
    \<open>currentTheme\<close>, the weather layer and the choices of a render (\<open>render_train\<close>,
    \<open>render_background\<close>, \<open>render_train_picture\<close>: photograph with its filter or drawn
    locomotive in the theme's colours).
  \<^item> \<^bold>\<open>Music player, sound effects and motivational tips\<close> (\<^verbatim>\<open>App.tsx\<close>
    lines 35--47, 252--263, 319--378, 446--456 and the \<open>playClick\<close>/\<open>playSfx\<close> calls of
    the handlers) -- theory \<open>Music\<close>: the record \<open>player_state\<close> wraps \<open>app_state\<close>
    with the audio element of \<open>musicRef\<close> (\<open>audio_element\<close>: paused, source, loop,
    volume), the current tip and the log of one-shot sounds; \<open>player_step\<close> runs
    \<open>app_step\<close>, then the two music effects whose dependencies changed
    (\<open>commit_effects\<close>: \<open>trackChangeEffect\<close>, \<open>musicEffect\<close>), and appends the sounds of
    the handler (\<open>event_sounds\<close>); the tip interval is the event \<open>TipInterval\<close>
    carrying \<open>Math.random()\<close>. Whether the browser honours \<open>play()\<close> is the parameter
    \<open>allowed\<close> of a run.
  \<^item> \<^bold>\<open>Presentation helpers\<close> (\<open>formatTime\<close>, \<open>formatDurationDisplay\<close>, the
    progress width, \<open>getLabelColorClasses\<close>, \<open>LabelIcon\<close> and the station panel with
    its source links of \<^verbatim>\<open>App.tsx\<close>) -- theory \<open>Display\<close>.
  \<^item> \<^bold>\<open>Main screen\<close> (the markup of \<^verbatim>\<open>App.tsx\<close>, lines 861--1303) -- theory
    \<open>App_View\<close>: the music and weather widgets, the props passed to the train animation
    (\<open>app_train_view\<close>), the tip bar, the destination line, the clock, the destination
    cards, the label chips and the travel log, each a function of the state.

  How the parts interact: \<open>app_step\<close> dispatches each \<open>event\<close> to one handler; the
  label chips go to the \<open>Labels\<close> handlers on the \<open>label_state\<close> part of the record;
  \<open>completeSession\<close> builds a \<open>focus_session\<close> and prepends it with \<open>recordSession\<close>
  of \<open>History\<close>, whose \<open>Stats\<close> renders the figures; the freestyle modal draws from
  \<open>freestyle_pool\<close> of \<open>Catalog\<close>; the three network continuations
  (\<open>fetchDataForDestination_done\<close>, \<open>prefetch_done\<close>, \<open>station_fetch_done\<close>) apply
  \<open>getDestinationRealtimeData\<close> of \<open>Fetcher\<close> to an \<open>api_outcome\<close>. The ticket modal
  is mounted while \<open>isBooking\<close> holds and reports a seat through the callback that App
  models as the event \<open>TicketAnimationComplete\<close>; the train animation receives the
  timer state, the weather's environment and the active label's colour.

  What the lemmas show:
  \<^item> \<open>App\<close>: an invariant \<open>app_inv\<close> (labels consistent, timer bounds
    \<open>0 \<le> timeLeft \<le> initialDuration\<close> with \<open>initialDuration\<close> a positive multiple of 60,
    the freestyle modal, the ticket booking and the label form open only while the
    timer is idle and never two at once, every recorded session
    well formed) holds initially and is preserved by every enabled event
    (\<open>app_inv_step\<close>), proved per handler with frame lemmas, hence in every reachable
    state. On top of it: the countdown reaches completion after exactly \<open>timeLeft\<close> ticks
    and records one full session; abandoning needs two presses and records nothing;
    departure is refused, leaving the state unchanged, while the mission is incomplete;
    finishing early records the elapsed whole minutes; a paused timer does not move; a
    session is recorded exactly on the transition into \<open>COMPLETED\<close>; track navigation
    is a round trip.
  \<^item> \<open>History\<close>: \<open>Stats\<close> refines \<open>stats_spec\<close>, a function of the multiset of completed
    durations (so of neither order nor unfinished sessions); bounds of the average.
  \<^item> \<open>Labels\<close>: the handlers preserve \<open>label_inv\<close>; custom ids are fresh.
  \<^item> \<open>Fetcher\<close>: the result on every outcome of the request, the fallback included.
  \<^item> \<open>Ticket\<close>, \<open>Ticket_Settle\<close>: an invariant \<open>tk_inv\<close> (timer identifiers distinct and
    fresh, a grid seat chosen before anything is scheduled, the completion callback
    pending only as the tracked timeout of the complete stage, and, while mounted, a
    pending timeout that moves the modal on) preserved by every event; the callback is
    called at most once and, once a seat is chosen, exactly once with that seat; 7.3
    seconds without parent renders.
  \<^item> \<open>Display\<close>: \<open>formatTime\<close> prints digits and colons only, \<open>MM:SS\<close> under an hour,
    and can be read back (a round trip), the colour table of \<open>getLabelColorClasses\<close>
    only spells out its template, every source link has a title; \<open>Train\<close>: picture
    errors end in the drawn
    fallback.
  \<^item> \<open>Music\<close>: the element's contract \<open>music_inv\<close> (playing exactly when allowed, running
    and switched on; the current track's source; looping at volume 0.4) holds after
    mounting and after any commit whatever the event (\<open>music_inv_commit\<close> needs only
    which dependencies changed), hence in every reachable state; the arrival chimes
    equal the recorded sessions and each follows a departure whistle; the tip index
    \<open>Math.floor(Math.random() * 10)\<close> stays in the list and reaches every tip.
  \<^item> \<open>Ticket_View\<close>: the stamp's name has at most eleven characters; the grid
    highlights exactly the chosen seat; in every reachable state a printed ticket shows a
    seat of the grid; no destination gets the European stamp colour.
  \<^item> \<open>App_View\<close>: the invariant \<open>active_dest_inv\<close> (a session under way never has the
    sentinel selected), so the destination line never says SURPRISE then; exactly the
    selected catalogue destination's card is highlighted, none for a surprise
    destination; the travel log shows the scheduled minutes of a session finished early
    within its first minute.
  \<^item> This theory: the properties across components -- the modal's seats are those App's
    handler accepts, the train is always drawn in the label's own colour theme, the
    progress bar's clamping is never needed and every tick advances it equally, and the
    duration labels of the destination cards.

  Bounds and fuel: every function of the development is total, and all but one are structurally
  recursive (the only loops of the code are \<open>filter\<close>, \<open>map\<close>, \<open>reduce\<close> and the
  countdown, which is a sequence of \<open>Tick\<close> events), so no fuel is needed; the
  countdown's termination is the theorem that \<open>timeLeft\<close> ticks complete it. The only
  function whose recursion is not structural, \<open>settle\<close> (the modal's timeouts run
  until none is left), terminates by the measure \<open>potential\<close>, the weighted number of
  pending callbacks, which every firing decreases. Integers
  are unbounded \<open>int\<close> as JavaScript's numbers are exact on the values reached (seconds
  of at most a few hours).

  What the modelling showed, each by a theorem on a concrete run:
  \<open>handleAddCustomLabel\<close> keeps the previous sub-label (\<open>sublabel_survives_new_label\<close>);
  the no-repeat filter of \<open>confirmFreestyle\<close> never applies, so a surprise trip can
  repeat (\<open>freestyle_pool_unfiltered\<close>, \<open>surprise_destination_repeats\<close>); a prefetch
  answer is not checked against the selected destination
  (\<open>prefetch_station_stale\<close>); an answer that is not JSON leaves the journey without a
  station (\<open>station_fetch_bad_json\<close>); the minutes focused count scheduled, not
  actual, minutes; the ticket modal's second timeout of the passport stage is never
  cleared, so a render of App after the stamp makes the ticket stamp twice and fall back
  from the visible stage to printing (\<open>rerender_after_stamp_reprints\<close>); the travel
  log shows a trip finished within its first minute with its full scheduled length
  (\<open>travel_log_short_early_finish\<close>). By lemmas over the catalogue: the stamp's blue for
  Europe is never used, as regions are country names (\<open>catalog_stamp_colours\<close>); after
  a freestyle journey no destination card is highlighted while the next departure books
  the same hidden destination again (\<open>surprise_card_unhighlighted\<close>).

  Not modelled: the decoding and mixing of audio (an element is its observable
  attributes, a one-shot sound an entry of the log), the promise of \<open>play()\<close> beyond
  its outcome (the code only logs a rejection), the tip's 30-second period (a tip
  interval is an event enabled while running, as the countdown's ticks are), the
  dates and times the browser formats (\<open>toLocaleDateString\<close>, \<open>toLocaleTimeString\<close>:
  a parameter or the time stamp they format), the remaining markup (a render is modelled only as the
  choices it makes: which panel, which classes, which icon), the SVG drawing and the
  CSS animations. In App time is not modelled: an interval firing is the event
  \<open>Tick\<close>, a timeout firing is its own event, a network answer is an event carrying its
  outcome, and any interleaving of them with the user's events is a run; the ticket
  modal, whose correctness depends on the order of its timeouts, keeps a clock.
  Strings are byte lists: non-ASCII names (Z\<open>\<dots>\<close>rich) are stored as their UTF-8 bytes.
  The one operation that measures and cuts a name, the stamp's, never cuts a name of the
  catalogue (all have at most ten characters); \<open>toUpperCase\<close> is modelled on ASCII
  letters, so the model's stamp for Z\<open>\<dots>\<close>rich keeps the lower-case umlaut that
  JavaScript capitalises.
\<close>

subsection \<open>Properties across components\<close>

lemma seat_ids_SEAT_IDS: "set seat_ids = set SEAT_IDS"
  by code_simp



lemma app_step_newLabelColor_frame:
  assumes "\<not> label_event e" and "\<not> (\<exists>c. e = PickNewLabelColor c)"
  shows "newLabelColor (app_step s e) = newLabelColor s"
  using assms
  by (cases e) (simp_all add: handler_defs Let_def split: option.splits sum.splits depart_action.splits)

lemma label_colors_step:
  assumes "list_all (\<lambda>l. color l \<in> set AVAILABLE_COLORS) (availableLabels s) \<and> newLabelColor s \<in> set AVAILABLE_COLORS"
    and "enabled s e"
  shows "list_all (\<lambda>l. color l \<in> set AVAILABLE_COLORS) (availableLabels (app_step s e)) \<and>
         newLabelColor (app_step s e) \<in> set AVAILABLE_COLORS"
proof (cases "label_event e")
  case True
  with assms show ?thesis
    by (cases e) (auto simp: selectLabel_def setActiveSubLabel_def handleAddCustomLabel_def
                             handleDeleteLabel_def Let_def list_all_iff AVAILABLE_COLORS_def)
next
  case False
  then have "availableLabels (app_step s e) = availableLabels s" by (simp add: app_step_label_frame)
  moreover have "newLabelColor (app_step s e) \<in> set AVAILABLE_COLORS"
  proof (cases "\<exists>c. e = PickNewLabelColor c")
    case True
    with assms(2) show ?thesis by auto
  next
    case False
    with \<open>\<not> label_event e\<close> assms(1) show ?thesis by (simp add: app_step_newLabelColor_frame)
  qed
  ultimately show ?thesis using assms(1) by simp
qed

lemma reachable_label_colors:
  "reachable s \<Longrightarrow>
   list_all (\<lambda>l. color l \<in> set AVAILABLE_COLORS) (availableLabels s) \<and> newLabelColor s \<in> set AVAILABLE_COLORS"
proof (induction rule: reachable.induct)
  case init
  show ?case by (simp add: init_state_def PRESET_LABELS_def AVAILABLE_COLORS_def)
next
  case (step s e)
  from step.IH step.hyps(2) show ?case by (rule label_colors_step)
qed

lemma AVAILABLE_COLORS_themed_all: "list_all (\<lambda>c. map_of colorMap c \<noteq> None) AVAILABLE_COLORS"
  by code_simp

lemma AVAILABLE_COLORS_themed: "c \<in> set AVAILABLE_COLORS \<Longrightarrow> map_of colorMap c \<noteq> None"
  using AVAILABLE_COLORS_themed_all by (simp add: list_all_iff)

text \<open>
  C34. The train is always drawn in the colour of the mission label: in every reachable
  state the colour passed to the animation (the active label's, or red without a label)
  is one of the seventeen available colours, each of which has its own entry in
  \<open>colorMap\<close>, so the \<open>default\<close> theme is never used, as the comment of
  \<open>colorMap\<close> intends.
\<close>

theorem label_theme_never_default:
  assumes "reachable s"
  shows "label_theme_color (activeLabel s) \<in> set AVAILABLE_COLORS \<and>
         map_of colorMap (label_theme_color (activeLabel s)) \<noteq> None"
proof -
  have c: "list_all (\<lambda>l. color l \<in> set AVAILABLE_COLORS) (availableLabels s)"
    using reachable_label_colors [OF assms] by simp
  have "\<forall>l. activeLabel s = Some l \<longrightarrow> l \<in> set (availableLabels s)"
    using reachable_app_inv [OF assms] by (simp add: app_inv_def label_inv_def)
  with c have "label_theme_color (activeLabel s) \<in> set AVAILABLE_COLORS"
    by (auto simp: label_theme_color_def list_all_iff AVAILABLE_COLORS_def split: option.splits)
  then show ?thesis using AVAILABLE_COLORS_themed by blast
qed

theorem label_theme_never_default_witness:
  "reachable (run init_state [SelectLabel (PRESET_LABELS ! 0)]) \<and>
   label_theme_color (activeLabel (run init_state [SelectLabel (PRESET_LABELS ! 0)])) = ''indigo'' \<and>
   map_of colorMap (label_theme_color (activeLabel (run init_state [SelectLabel (PRESET_LABELS ! 0)]))) \<noteq> None"
proof -
  have r: "reachable (run init_state [SelectLabel (PRESET_LABELS ! 0)])" by (rule reachable_run [OF reachable.init])
  have c: "label_theme_color (activeLabel (run init_state [SelectLabel (PRESET_LABELS ! 0)])) = ''indigo''"
    by code_simp
  from label_theme_never_default [OF r] r c show ?thesis by simp
qed

lemma progress_in_range:
  assumes "0 < d" and "0 \<le> l" and "l \<le> d"
  shows "progress d l = real_of_int (d - l) * 100 / real_of_int d"
proof -
  let ?x = "real_of_int (d - l) / real_of_int d * 100"
  have "0 \<le> ?x" using assms by simp
  moreover have "?x \<le> 100" using assms by (simp add: divide_le_eq)
  ultimately have "progress d l = ?x" by (simp add: progress_def)
  then show ?thesis by simp
qed

text \<open>
  C35. The clamping of the progress bar is never needed: in every reachable state the
  width \<open>Math.max(0, Math.min(100, \<dots>))\<close> equals the unclamped percentage
  \<open>(initialDuration - timeLeft) * 100 / initialDuration\<close>, which lies between 0 and 100
  (and the division is never by zero).
\<close>

theorem progress_unclamped:
  assumes "reachable s"
  shows "progress (initialDuration s) (timeLeft s) =
           real_of_int (initialDuration s - timeLeft s) * 100 / real_of_int (initialDuration s) \<and>
         0 \<le> progress (initialDuration s) (timeLeft s) \<and> progress (initialDuration s) (timeLeft s) \<le> 100"
proof -
  have t: "0 < initialDuration s" "0 \<le> timeLeft s" "timeLeft s \<le> initialDuration s"
    using reachable_app_inv [OF assms] by (simp_all add: app_inv_def timer_inv_def)
  then have "real_of_int (initialDuration s - timeLeft s) * 100 / real_of_int (initialDuration s) \<le> 100"
    by (simp add: divide_le_eq)
  with t show ?thesis by (simp add: progress_in_range)
qed

theorem progress_unclamped_witness:
  "reachable (run init_state depart_kyoto) \<and>
   progress (initialDuration (run init_state depart_kyoto)) (timeLeft (run init_state depart_kyoto)) = 0"
proof -
  have r: "reachable (run init_state depart_kyoto)" by (rule reachable_run [OF reachable.init])
  have "timeLeft (run init_state depart_kyoto) = initialDuration (run init_state depart_kyoto)"
    using depart_kyoto_facts by simp
  with progress_unclamped [OF r] r show ?thesis by simp
qed


lemma timer_tick_duration_fields:
  "initialDuration (timer_tick now s) = initialDuration s \<and> timeLeft (timer_tick now s) = timeLeft s - 1"
  by (simp add: timer_tick_def Let_def completeSession_def)

text \<open>
  C36. Every second of a running session advances the progress bar by the same amount,
  \<open>100 / initialDuration\<close> percent, the completing tick included.
\<close>

theorem progress_tick:
  assumes "reachable s" and "timerState s = RUNNING"
  shows "progress (initialDuration (timer_tick now s)) (timeLeft (timer_tick now s)) =
         progress (initialDuration s) (timeLeft s) + 100 / real_of_int (initialDuration s)"
proof -
  have t: "0 < initialDuration s" "0 < timeLeft s" "timeLeft s \<le> initialDuration s"
    using reachable_app_inv [OF assms(1)] assms(2) by (simp_all add: app_inv_def timer_inv_def)
  have "progress (initialDuration s) (timeLeft s - 1) =
        real_of_int (initialDuration s - (timeLeft s - 1)) * 100 / real_of_int (initialDuration s)"
    using t by (intro progress_in_range) simp_all
  also have "\<dots> = real_of_int (initialDuration s - timeLeft s) * 100 / real_of_int (initialDuration s) +
                  100 / real_of_int (initialDuration s)"
    by (simp add: add_divide_distrib [symmetric] algebra_simps)
  finally show ?thesis using t by (simp add: timer_tick_duration_fields progress_in_range)
qed

theorem progress_tick_witness:
  "reachable (run init_state depart_kyoto) \<and> timerState (run init_state depart_kyoto) = RUNNING \<and>
   progress (initialDuration (timer_tick 0 (run init_state depart_kyoto)))
            (timeLeft (timer_tick 0 (run init_state depart_kyoto))) = 1 / 15"
proof -
  have r: "reachable (run init_state depart_kyoto)" by (rule reachable_run [OF reachable.init])
  have f: "timerState (run init_state depart_kyoto) = RUNNING"
    "timeLeft (run init_state depart_kyoto) = 1500" "initialDuration (run init_state depart_kyoto) = 1500"
    using depart_kyoto_facts by simp_all
  from progress_tick [OF r f(1), of 0] f r show ?thesis by (simp add: progress_def)
qed

lemma catalog_toFixed_ties_exact:
  "list_all (\<lambda>d. nat (durationMinutes d) mod 6 = 3 \<longrightarrow> 15 dvd nat (durationMinutes d)) DESTINATIONS"
  by code_simp

text \<open>
  The duration labels of the twelve destination cards: whole hours print as
  \<open>Nh\<close>, other durations in tenths of an hour rounded half up (\<open>toFixed(1)\<close>), so the
  15, 25 and 45 minute trips read 0.3h, 0.4h and 0.8h.
\<close>

theorem destination_duration_labels:
  "map (\<lambda>d. formatDurationDisplay (nat (durationMinutes d))) DESTINATIONS =
     [''0.3h'', ''0.4h'', ''0.8h'', ''1h'', ''1.5h'', ''2h'', ''2.5h'', ''3h'', ''4h'', ''5h'', ''6h'', ''8h'']"
  by code_simp

end
